theory Spec2Isabelle
  imports Complex_Main "HOL-Library.AList"
begin

section \<open>Strings\<close>

text \<open>
  The model follows \<^verbatim>\<open>src/lib/SellingPartner.js\<close> (class \<^verbatim>\<open>SellingPartner\<close>) and the
  error class of \<^verbatim>\<open>src/unnamed/part_000\<close> (\<^verbatim>\<open>CustomError\<close>). Method names are kept
  without their leading underscore. A local variable whose name is also a field of a
  record below is abbreviated (\<open>op\<close>, \<open>epn\<close>, \<open>ver\<close>, \<open>sc\<close>, \<open>rp\<close>, \<open>opts\<close>).

  Strings are lists of characters. The character class \<^verbatim>\<open>[A-Z]\<close> is the range of codes
  65 to 90. \<^verbatim>\<open>toUpperCase\<close> and \<^verbatim>\<open>toLowerCase\<close> are modelled on ASCII, where they map
  the letters of one case to the other and leave every other character alone; the
  theorem about upper-casing assumes \<open>ascii\<close>.
\<close>

definition isUpperAZ :: "char \<Rightarrow> bool" where
  "isUpperAZ c = (65 \<le> (of_char c :: nat) \<and> (of_char c :: nat) \<le> 90)"

definition isLowerAZ :: "char \<Rightarrow> bool" where
  "isLowerAZ c = (97 \<le> (of_char c :: nat) \<and> (of_char c :: nat) \<le> 122)"

definition isLetter :: "char \<Rightarrow> bool" where
  "isLetter c = (isUpperAZ c \<or> isLowerAZ c)"

definition ascii :: "string \<Rightarrow> bool" where
  "ascii s = (\<forall>c \<in> set s. (of_char c :: nat) < 128)"

definition toUpperChar :: "char \<Rightarrow> char" where
  "toUpperChar c = (if isLowerAZ c then char_of ((of_char c :: nat) - 32) else c)"

definition toUpperCase :: "string \<Rightarrow> string" where
  "toUpperCase s = map toUpperChar s"

definition toLowerChar :: "char \<Rightarrow> char" where
  "toLowerChar c = (if isUpperAZ c then char_of ((of_char c :: nat) + 32) else c)"

definition toLowerCase :: "string \<Rightarrow> string" where
  "toLowerCase s = map toLowerChar s"

text \<open>
  \<^verbatim>\<open>String.prototype.split\<close> with the separator \<^verbatim>\<open>/(?=[A-Z])/\<close>. The separator matches
  the empty string in front of an upper-case letter. The split loop of the language
  keeps a start \<open>p\<close> of the current piece and a position \<open>q\<close>; an empty match at
  \<open>q = p\<close> is skipped, an empty match at \<open>q > p\<close> closes the piece. \<open>cur\<close> is the piece
  from \<open>p\<close> up to \<open>q\<close>, so \<open>q = p\<close> is \<open>cur = []\<close>. The empty string yields one empty
  piece, since the separator does not match it.
\<close>

fun split_pieces :: "string \<Rightarrow> string \<Rightarrow> string list" where
  "split_pieces cur [] = [cur]"
| "split_pieces cur (c # cs) =
     (if isUpperAZ c \<and> cur \<noteq> [] then cur # split_pieces [c] cs
      else split_pieces (cur @ [c]) cs)"

definition split_before_upper :: "string \<Rightarrow> string list" where
  "split_before_upper s = split_pieces [] s"

text \<open>
  \<^verbatim>\<open>split('.')\<close>, \<^verbatim>\<open>Array.prototype.join\<close> on strings, \<^verbatim>\<open>startsWith\<close>,
  \<^verbatim>\<open>String.prototype.includes\<close> and the decimal digits of a natural number.
\<close>

fun split_on :: "char \<Rightarrow> string \<Rightarrow> string list" where
  "split_on sep [] = [[]]"
| "split_on sep (c # cs) =
     (if c = sep then [] # split_on sep cs
      else (case split_on sep cs of
              [] \<Rightarrow> [[c]]
            | w # ws \<Rightarrow> (c # w) # ws))"

fun join :: "string \<Rightarrow> string list \<Rightarrow> string" where
  "join sep [] = []"
| "join sep [x] = x"
| "join sep (x # y # ys) = x @ sep @ join sep (y # ys)"

fun startsWith :: "string \<Rightarrow> string \<Rightarrow> bool" where
  "startsWith s [] = True"
| "startsWith [] (p # ps) = False"
| "startsWith (c # cs) (p # ps) = (c = p \<and> startsWith cs ps)"

fun str_includes :: "string \<Rightarrow> string \<Rightarrow> bool" where
  "str_includes [] p = (p = [])"
| "str_includes (c # cs) p = (startsWith (c # cs) p \<or> str_includes cs p)"

fun dec :: "nat \<Rightarrow> string" where
  "dec n = (if n < 10 then [char_of (48 + n)] else dec (n div 10) @ [char_of (48 + n mod 10)])"

declare dec.simps [simp del]

text \<open>
  Line 706: \<^verbatim>\<open>error.code.split(/(?=[A-Z])/).join('_').toUpperCase()\<close>.
\<close>

definition normalize_code :: "string \<Rightarrow> string" where
  "normalize_code code = toUpperCase (join ''_'' (split_before_upper code))"

text \<open>
  Line 672: \<^verbatim>\<open>/access token.*expired/.test(...)\<close>. The dot matches every character but
  a line terminator; the search is not anchored. Line 216:
  \<^verbatim>\<open>match(/\.*charset=([^;]*)/)\<close>, whose group is the text after the first
  \<^verbatim>\<open>charset=\<close> up to the next semicolon.
\<close>

definition line_terminator :: "char \<Rightarrow> bool" where
  "line_terminator c = (c = CHR 0x0A \<or> c = CHR 0x0D)"

fun dot_star_then :: "string \<Rightarrow> string \<Rightarrow> bool" where
  "dot_star_then lit [] = (lit = [])"
| "dot_star_then lit (c # cs) =
     (startsWith (c # cs) lit \<or> (\<not> line_terminator c \<and> dot_star_then lit cs))"

fun access_token_expired_test :: "string \<Rightarrow> bool" where
  "access_token_expired_test [] = False"
| "access_token_expired_test (c # cs) =
     ((startsWith (c # cs) ''access token''
         \<and> dot_star_then ''expired'' (drop (length ''access token'') (c # cs)))
      \<or> access_token_expired_test cs)"

fun charset_match :: "string \<Rightarrow> string option" where
  "charset_match [] = None"
| "charset_match (c # cs) =
     (if startsWith (c # cs) ''charset=''
      then Some (takeWhile (\<lambda>x. x \<noteq> CHR '';'') (drop (length ''charset='') (c # cs)))
      else charset_match cs)"

text \<open>
  An optional string is \<open>None\<close> when the property is \<^verbatim>\<open>undefined\<close>. It is truthy when it
  is present and not empty.
\<close>

definition truthy_str :: "string option \<Rightarrow> bool" where
  "truthy_str s = (case s of None \<Rightarrow> False | Some v \<Rightarrow> v \<noteq> [])"

section \<open>Numbers and values\<close>

text \<open>
  Numbers are exact rationals together with \<^verbatim>\<open>NaN\<close> and the two infinities. Rounding to
  binary64 and the sign of zero are not modelled: \<open>1 / 2\<close> is exact here as it is in the
  language, \<open>1 / 3\<close> is exact here only.
\<close>

datatype jsnum = Num rat | NaN | PosInf | NegInf

fun truthy_num :: "jsnum \<Rightarrow> bool" where
  "truthy_num (Num r) = (r \<noteq> 0)"
| "truthy_num NaN = False"
| "truthy_num PosInf = True"
| "truthy_num NegInf = True"

definition truthy_num_opt :: "jsnum option \<Rightarrow> bool" where
  "truthy_num_opt n = (case n of None \<Rightarrow> False | Some v \<Rightarrow> truthy_num v)"

fun js_mul :: "jsnum \<Rightarrow> jsnum \<Rightarrow> jsnum" where
  "js_mul (Num a) (Num b) = Num (a * b)"
| "js_mul NaN y = NaN"
| "js_mul x NaN = NaN"
| "js_mul (Num a) PosInf = (if a = 0 then NaN else if 0 < a then PosInf else NegInf)"
| "js_mul (Num a) NegInf = (if a = 0 then NaN else if 0 < a then NegInf else PosInf)"
| "js_mul PosInf (Num b) = (if b = 0 then NaN else if 0 < b then PosInf else NegInf)"
| "js_mul NegInf (Num b) = (if b = 0 then NaN else if 0 < b then NegInf else PosInf)"
| "js_mul PosInf PosInf = PosInf"
| "js_mul PosInf NegInf = NegInf"
| "js_mul NegInf PosInf = NegInf"
| "js_mul NegInf NegInf = PosInf"

fun js_div :: "jsnum \<Rightarrow> jsnum \<Rightarrow> jsnum" where
  "js_div (Num a) (Num b) =
     (if b \<noteq> 0 then Num (a / b)
      else if a = 0 then NaN else if 0 < a then PosInf else NegInf)"
| "js_div NaN y = NaN"
| "js_div x NaN = NaN"
| "js_div (Num a) PosInf = Num 0"
| "js_div (Num a) NegInf = Num 0"
| "js_div PosInf (Num b) = (if 0 \<le> b then PosInf else NegInf)"
| "js_div NegInf (Num b) = (if 0 \<le> b then NegInf else PosInf)"
| "js_div PosInf PosInf = NaN"
| "js_div PosInf NegInf = NaN"
| "js_div NegInf PosInf = NaN"
| "js_div NegInf NegInf = NaN"

fun js_gt :: "jsnum \<Rightarrow> jsnum \<Rightarrow> bool" where
  "js_gt (Num a) (Num b) = (b < a)"
| "js_gt NaN y = False"
| "js_gt x NaN = False"
| "js_gt PosInf PosInf = False"
| "js_gt PosInf y = True"
| "js_gt NegInf y = False"
| "js_gt (Num a) PosInf = False"
| "js_gt (Num a) NegInf = True"

text \<open>
  The values \<^verbatim>\<open>JSON.parse\<close> produces. \<^verbatim>\<open>undefined\<close> is \<open>None\<close> in \<open>json option\<close>. An
  object is the list of its entries, one entry per key. \<open>truthy\<close> is the language's
  conversion to a boolean. \<open>get\<close> reads a property of a value that is neither \<^verbatim>\<open>null\<close>
  nor \<^verbatim>\<open>undefined\<close> (for those the read raises \<^verbatim>\<open>TypeError\<close>, which every caller below
  writes out); \<open>js_length\<close> and \<open>js_first\<close> are \<^verbatim>\<open>.length\<close> and \<^verbatim>\<open>[0]\<close>. \<open>ToString\<close> is
  the conversion \<^verbatim>\<open>RegExp.prototype.test\<close> applies to its argument, with the formatting
  of numbers as a parameter.
\<close>

datatype json =
    JNull
  | JBool bool
  | JNum jsnum
  | JStr string
  | JArr "json list"
  | JObj "(string \<times> json) list"

fun truthy :: "json \<Rightarrow> bool" where
  "truthy JNull = False"
| "truthy (JBool b) = b"
| "truthy (JNum n) = truthy_num n"
| "truthy (JStr s) = (s \<noteq> [])"
| "truthy (JArr xs) = True"
| "truthy (JObj kvs) = True"

definition truthy_opt :: "json option \<Rightarrow> bool" where
  "truthy_opt v = (case v of None \<Rightarrow> False | Some j \<Rightarrow> truthy j)"

definition or_else :: "json option \<Rightarrow> json option \<Rightarrow> json option" where
  "or_else a b = (if truthy_opt a then a else b)"

fun get :: "json \<Rightarrow> string \<Rightarrow> json option" where
  "get (JObj kvs) k = map_of kvs k"
| "get j k = None"

definition get_opt :: "json option \<Rightarrow> string \<Rightarrow> json option" where
  "get_opt v k = (case v of None \<Rightarrow> None | Some j \<Rightarrow> get j k)"

fun js_length :: "json \<Rightarrow> json option" where
  "js_length (JArr xs) = Some (JNum (Num (of_nat (length xs))))"
| "js_length (JStr s) = Some (JNum (Num (of_nat (length s))))"
| "js_length (JObj kvs) = map_of kvs ''length''"
| "js_length j = None"

fun js_first :: "json \<Rightarrow> json option" where
  "js_first (JArr xs) = (case xs of [] \<Rightarrow> None | x # _ \<Rightarrow> Some x)"
| "js_first (JStr s) = (case s of [] \<Rightarrow> None | c # _ \<Rightarrow> Some (JStr [c]))"
| "js_first (JObj kvs) = map_of kvs ''0''"
| "js_first j = None"

fun ToString :: "(jsnum \<Rightarrow> string) \<Rightarrow> json \<Rightarrow> string" where
  "ToString f JNull = ''null''"
| "ToString f (JBool b) = (if b then ''true'' else ''false'')"
| "ToString f (JNum n) = f n"
| "ToString f (JStr s) = s"
| "ToString f (JArr xs) = join '','' (map (\<lambda>x. if x = JNull then [] else ToString f x) xs)"
| "ToString f (JObj kvs) = ''[object Object]''"

definition ToString_opt :: "(jsnum \<Rightarrow> string) \<Rightarrow> json option \<Rightarrow> string" where
  "ToString_opt f v = (case v of None \<Rightarrow> ''undefined'' | Some j \<Rightarrow> ToString f j)"

text \<open>
  \<^verbatim>\<open>Object.assign(target, source)\<close> on lists of entries: each entry of the source, in
  order, replaces the target's entry for its key or is added at the end. \<open>own_props\<close>
  are the own enumerable properties \<^verbatim>\<open>Object.assign\<close> reads from a source.
\<close>

definition Object_assign :: "('k \<times> 'v) list \<Rightarrow> ('k \<times> 'v) list \<Rightarrow> ('k \<times> 'v) list" where
  "Object_assign target source = fold (\<lambda>(k, v). AList.update k v) source target"

fun own_props :: "json \<Rightarrow> (string \<times> json) list" where
  "own_props (JObj kvs) = kvs"
| "own_props (JArr xs) = map (\<lambda>(i, x). (dec i, x)) (enumerate 0 xs)"
| "own_props (JStr s) = map (\<lambda>(i, c). (dec i, JStr [c])) (enumerate 0 s)"
| "own_props j = []"

text \<open>
  What a function throws: a \<^verbatim>\<open>CustomError\<close> with its own properties, a \<^verbatim>\<open>TypeError\<close> of
  the language, or a failure raised by a collaborator (transport, zlib, file system).
  The constructor of \<^verbatim>\<open>CustomError\<close> copies every key of its argument, stores
  \<^verbatim>\<open>stacktrace\<close> as \<^verbatim>\<open>original_stacktrace\<close> and sets \<^verbatim>\<open>type\<close> to the argument's when that
  is truthy, else to \<^verbatim>\<open>'error'\<close>.
\<close>

datatype thrown =
    CustomError "(string \<times> json option) list"
  | TypeError
  | Failure string

definition new_CustomError :: "(string \<times> json option) list \<Rightarrow> thrown" where
  "new_CustomError err =
     (let this = fold (\<lambda>(key, v). AList.update
                   (if key = ''stacktrace'' then ''original_stacktrace'' else key) v) err [];
          type = (case map_of err ''type'' of
                    Some (Some t) \<Rightarrow> if truthy t then t else JStr ''error''
                  | _ \<Rightarrow> JStr ''error'')
      in CustomError (AList.update ''type'' (Some type) this))"

section \<open>Requests, responses and the environment\<close>

text \<open>
  \<open>req_params\<close> is the argument of \<^verbatim>\<open>callAPI\<close> with the properties the code reads (lines
  596 to 615) and the ones an operation builder adds (\<^verbatim>\<open>restore_rate\<close>, \<^verbatim>\<open>scope\<close>,
  \<^verbatim>\<open>api_path\<close>, \<^verbatim>\<open>method\<close>). The property \<^verbatim>\<open>method\<close> is the field \<open>http_method\<close>.
  Line 625 spreads the entries of \<^verbatim>\<open>req_params.headers\<close> into the request itself; the
  field \<open>spread\<close> holds them, so a header named like a property of the request is not
  modelled as replacing that property. Console output (\<^verbatim>\<open>utils.warn\<close>, \<^verbatim>\<open>console.log\<close>
  under \<^verbatim>\<open>debug_log\<close>) is not modelled, except where composing the line can throw:
  the log line of the report poller (lines 477 to 481) reads
  \<^verbatim>\<open>req_params.body.reportType\<close>, a \<^verbatim>\<open>TypeError\<close> when the body is missing. Options no
  modelled function reads are left out of \<open>sp_options\<close>.

  The endpoint registry (\<^verbatim>\<open>./endpoints\<close>) is not part of the sources at hand and is a
  parameter. An endpoint lists, oldest version first, each version with its table of
  operation builders (\<^verbatim>\<open>__versions\<close> is the list of the version names), and its
  \<^verbatim>\<open>__operations\<close>. A builder maps a request to a request or throws. Lookups in the
  registry are by own key; names an object inherits (such as \<^verbatim>\<open>toString\<close>) are not
  entries.
\<close>

type_synonym timeouts = "(string \<times> jsnum) list"

type_synonym buffer = "char list"

record call_options =
  version :: "string option"
  restore_rate :: "jsnum option"
  raw_result :: bool
  timeouts :: "timeouts option"

record req_params =
  operation :: "string option"
  endpoint :: "string option"
  path :: "json option"
  query :: "json option"
  body :: "json option"
  api_path :: "string option"
  http_method :: "string option"
  restricted_data_token :: "string option"
  options :: "call_options option"
  headers :: "(string \<times> string) list option"
  restore_rate :: "jsnum option"
  scope :: "string option"
  timeouts :: "timeouts option"
  spread :: "(string \<times> string) list"

record response =
  statusCode :: nat
  body :: string
  headers :: "(string \<times> string) list option"
  chunks :: "buffer list"

record http_request =
  http_method :: "string option"
  url :: string
  body :: "string option"
  headers :: "(string \<times> string) list"
  timeouts :: "timeouts option"

type_synonym builder = "req_params \<Rightarrow> thrown + req_params"

record endpoint_def =
  versions_table :: "(string \<times> (string \<times> builder) list) list"
  operations :: "string list"

type_synonym registry = "(string \<times> endpoint_def) list"

text \<open>
  What \<^verbatim>\<open>download\<close> returns is a buffer, a decoded text or a parsed structure. What
  \<^verbatim>\<open>callAPI\<close> returns is a parsed value, the raw response (\<^verbatim>\<open>raw_result\<close>), or the result
  of \<^verbatim>\<open>Object.assign\<close> on a target that is not a plain object, which is kept symbolic.
  The effects of a call are recorded as events: a wait (in seconds), a request handed
  to \<^verbatim>\<open>Request.api\<close> with its token, a request handed to \<^verbatim>\<open>Request.execute\<close>, a call of
  \<^verbatim>\<open>callAPI\<close> made by the report functions, a file written.
\<close>

datatype content = Bytes buffer | Text string | Structured json

datatype api_result =
    Value json
  | Raw response
  | Assigned json "(string \<times> json) list"

datatype event =
    Wait jsnum
  | ApiRequest "json option" req_params
  | Execute http_request
  | CallAPI req_params
  | WriteFile string content

text \<open>
  \<open>sp_config\<close> holds the fields of the instance that no modelled function assigns,
  \<open>sp_state\<close> the ones that change (the tokens and the timeouts of the current call)
  together with the number of requests executed so far and the events so far.
\<close>

record sp_options =
  auto_request_tokens :: bool
  auto_request_throttled :: bool
  use_sandbox :: bool
  only_grantless_operations :: bool
  version_fallback :: bool
  debug_log :: bool
  timeouts :: timeouts

record credentials =
  app_client_id :: string
  app_client_secret :: string

record sp_config =
  refresh_token :: "string option"
  options :: sp_options
  endpoints_versions :: "(string \<times> string) list"
  credentials :: credentials

record sp_state =
  access_token :: "json option"
  grantless_tokens :: "(string \<times> json) list"
  current_call_timeouts :: timeouts
  executed :: nat
  trace :: "event list"

text \<open>
  The collaborators are parameters: the registry, the language's \<^verbatim>\<open>JSON.parse\<close> (\<open>None\<close>
  when it throws), \<^verbatim>\<open>JSON.stringify\<close>, the conversions between strings and numbers,
  \<^verbatim>\<open>Request.execute\<close> (its answer to a request, given how many were executed before),
  \<^verbatim>\<open>zlib.gunzip\<close>, \<^verbatim>\<open>iconv.decode\<close> (\<open>Inl\<close> the message of the error it throws), the XML
  and CSV parsers and \<^verbatim>\<open>fs.writeFile\<close> (\<open>Some\<close> the error it reports).
\<close>

record env =
  endpoints :: registry
  JSON_parse :: "string \<Rightarrow> json option"
  JSON_stringify :: "json \<Rightarrow> string"
  String_toNumber :: "string \<Rightarrow> jsnum"
  Number_toString :: "jsnum \<Rightarrow> string"
  execute :: "http_request \<Rightarrow> nat \<Rightarrow> thrown + response"
  gunzip :: "buffer \<Rightarrow> thrown + buffer"
  iconv_decode :: "buffer \<Rightarrow> string \<Rightarrow> string + string"
  xml_parse :: "string \<Rightarrow> thrown + json"
  csv_fromString :: "string \<Rightarrow> thrown + json"
  writeFile :: "string \<Rightarrow> content \<Rightarrow> thrown option"

section \<open>Version resolution\<close>

text \<open>
  Lines 343 to 406. \<open>defines_op ep v op\<close> is the truthiness of
  \<^verbatim>\<open>endpoints[endpoint][v][op]\<close>. \<open>indexOf\<close> returns \<open>-1\<close> for an absent element and
  \<open>slice\<close> counts a negative bound from the end, as the language does.
\<close>

definition versions :: "endpoint_def \<Rightarrow> string list" where
  "versions ep = map fst (versions_table ep)"

definition defines_op :: "endpoint_def \<Rightarrow> string \<Rightarrow> string \<Rightarrow> bool" where
  "defines_op ep v op =
     (case map_of (versions_table ep) v of
        None \<Rightarrow> False
      | Some table \<Rightarrow> map_of table op \<noteq> None)"

fun indexOf :: "'a list \<Rightarrow> 'a \<Rightarrow> int" where
  "indexOf [] x = - 1"
| "indexOf (y # ys) x =
     (if y = x then 0 else (let i = indexOf ys x in if i < 0 then - 1 else i + 1))"

definition slice :: "'a list \<Rightarrow> int \<Rightarrow> int \<Rightarrow> 'a list" where
  "slice xs start stop =
     (let len = int (length xs);
          k = (if start < 0 then max (len + start) 0 else min start len);
          final = (if stop < 0 then max (len + stop) 0 else min stop len)
      in take (nat (final - k)) (drop (nat k) xs))"

definition getFallbackVersion ::
  "sp_config \<Rightarrow> registry \<Rightarrow> string \<Rightarrow> string \<Rightarrow> string \<Rightarrow> thrown + string" where
  "getFallbackVersion cfg eps op epn ver =
     (case map_of eps epn of
        None \<Rightarrow> Inl TypeError
      | Some ep \<Rightarrow>
          (let version_index = indexOf (versions ep) ver;
               fallback_version =
                 find (\<lambda>v. defines_op ep v op) (rev (slice (versions ep) 0 version_index))
           in if \<not> version_fallback (sp_config.options cfg) \<or> \<not> truthy_str fallback_version
              then Inl (new_CustomError
                    [(''code'', Some (JStr ''OPERATION_NOT_FOUND_FOR_VERSION'')),
                     (''message'', Some (JStr (''Operation '' @ op
                         @ '' not found for version '' @ ver)))])
              else Inr (the fallback_version)))"

definition validateLocallySetVersion ::
  "sp_config \<Rightarrow> registry \<Rightarrow> string \<Rightarrow> string \<Rightarrow> string \<Rightarrow> thrown + string" where
  "validateLocallySetVersion cfg eps op epn ver =
     (case map_of eps epn of
        None \<Rightarrow> Inl TypeError
      | Some ep \<Rightarrow>
          if ver \<notin> set (versions ep)
          then Inl (new_CustomError
                 [(''code'', Some (JStr ''INVALID_VERSION'')),
                  (''message'', Some (JStr (''Invalid version '' @ ver @ '' for endpoint '' @ epn
                      @ '' and operation '' @ op @ ''. Should be one of: ''
                      @ join [CHR 0x22, CHR '','', CHR 0x22] (versions ep))))])
          else if \<not> defines_op ep ver op
          then getFallbackVersion cfg eps op epn ver
          else Inr ver)"

definition validateGloballySetVersion ::
  "sp_config \<Rightarrow> registry \<Rightarrow> string \<Rightarrow> string \<Rightarrow> thrown + string option" where
  "validateGloballySetVersion cfg eps op epn =
     (if \<not> truthy_str (map_of (endpoints_versions cfg) epn)
      then (case map_of eps epn of
              None \<Rightarrow> Inl TypeError
            | Some ep \<Rightarrow> Inr (find (\<lambda>v. defines_op ep v op) (versions ep)))
      else (let ver = the (map_of (endpoints_versions cfg) epn) in
            case map_of eps epn of
              None \<Rightarrow> Inl TypeError
            | Some ep \<Rightarrow>
                (case map_of (versions_table ep) ver of
                   None \<Rightarrow> Inl TypeError
                 | Some table \<Rightarrow>
                     if map_of table op = None
                     then map_sum id Some (getFallbackVersion cfg eps op epn ver)
                     else Inr (Some ver))))"

definition validateAndGetVersion ::
  "sp_config \<Rightarrow> registry \<Rightarrow> string \<Rightarrow> string \<Rightarrow> string option \<Rightarrow> thrown + string option" where
  "validateAndGetVersion cfg eps op epn ver =
     (if truthy_str ver
      then map_sum id Some (validateLocallySetVersion cfg eps op epn (the ver))
      else validateGloballySetVersion cfg eps op epn)"

text \<open>Lines 300 to 341 and 408 to 416: the checks \<^verbatim>\<open>callAPI\<close> makes on its argument.\<close>

definition validateMethod :: "string option \<Rightarrow> thrown + string" where
  "validateMethod m =
     (if \<not> truthy_str m
         \<or> toUpperCase (the m) \<notin> set [''GET'', ''POST'', ''PUT'', ''DELETE'', ''PATCH'']
      then Inl (new_CustomError
             [(''code'', Some (JStr ''NO_VALID_METHOD_PROVIDED'')),
              (''message'', Some (JStr (''Please provide a valid HTTP Method (''
                 @ [CHR 0x22] @ ''GET'' @ [CHR 0x22, CHR '','', CHR 0x22] @ ''POST''
                 @ [CHR 0x22, CHR '','', CHR 0x22] @ ''PUT''
                 @ [CHR 0x22, CHR '','', CHR 0x22] @ ''DELETE'' @ [CHR 0x22] @ '' or ''
                 @ [CHR 0x22] @ ''PATCH'' @ [CHR 0x22] @ '') when using ''
                 @ [CHR 0x22] @ ''api_path'' @ [CHR 0x22])))])
      else Inr (toUpperCase (the m)))"

definition validateOperationAndEndpoint ::
  "registry \<Rightarrow> string option \<Rightarrow> string option \<Rightarrow> thrown + (string \<times> string)" where
  "validateOperationAndEndpoint eps op0 ep0 =
     (if \<not> truthy_str op0
      then Inl (new_CustomError
             [(''code'', Some (JStr ''NO_OPERATION_GIVEN'')),
              (''message'', Some (JStr ''Please provide an operation to call''))])
      else
        (case (if str_includes (the op0) ''.''
               then (case split_on (CHR ''.'') (the op0) of
                       e0 # e1 # _ \<Rightarrow> Inr (e1, e0)
                     | _ \<Rightarrow> Inl TypeError)
               else if \<not> truthy_str ep0
               then Inl (new_CustomError
                      [(''code'', Some (JStr ''NO_ENDPOINT_GIVEN'')),
                       (''message'', Some (JStr ''Please provide an endpoint to call''))])
               else Inr (the op0, the ep0)) of
           Inl e \<Rightarrow> Inl e
         | Inr (op, epn) \<Rightarrow>
             (case map_of eps epn of
                None \<Rightarrow> Inl (new_CustomError
                   [(''code'', Some (JStr ''ENDPOINT_NOT_FOUND'')),
                    (''message'', Some (JStr (''No endpoint found: '' @ epn)))])
              | Some ep \<Rightarrow>
                  if op \<notin> set (operations ep)
                  then Inl (new_CustomError
                     [(''code'', Some (JStr ''INVALID_OPERATION_FOR_ENDPOINT'')),
                      (''message'', Some (JStr (''The operation '' @ op
                          @ '' is not valid for endpoint '' @ epn)))])
                  else Inr (op, epn))))"

definition validateOperationAllowance :: "sp_config \<Rightarrow> string option \<Rightarrow> thrown + unit" where
  "validateOperationAllowance cfg sc =
     (if only_grantless_operations (sp_config.options cfg) \<and> \<not> truthy_str sc
      then Inl (new_CustomError
             [(''code'', Some (JStr ''INVALID_OPERATION_ERROR'')),
              (''message'', Some (JStr (''Operation is not grantless. Set ''
                 @ [CHR 0x22] @ ''only_grantless_operations'' @ [CHR 0x22]
                 @ '' to false and provide a '' @ [CHR 0x22] @ ''refresh_token'' @ [CHR 0x22]
                 @ '' to be able to call the operation.'')))])
      else Inr ())"

section \<open>Tokens\<close>

text \<open>
  Lines 251 to 298 and 558 to 594. \<^verbatim>\<open>JSON.stringify\<close> leaves out a property whose value
  is \<^verbatim>\<open>undefined\<close> (\<open>defined_props\<close>).
\<close>

definition valid_scopes :: "string list" where
  "valid_scopes =
     [''sellingpartnerapi::notifications'', ''sellingpartnerapi::client_credential:rotation'']"

definition defined_props :: "(string \<times> json option) list \<Rightarrow> (string \<times> json) list" where
  "defined_props kvs = concat (map (\<lambda>(k, v). case v of None \<Rightarrow> [] | Some j \<Rightarrow> [(k, j)]) kvs)"

definition constructRefreshAccessTokenBody ::
  "sp_config \<Rightarrow> env \<Rightarrow> string option \<Rightarrow> thrown + string" where
  "constructRefreshAccessTokenBody cfg env sc =
     (let body0 = [(''client_id'', Some (JStr (app_client_id (credentials cfg)))),
                   (''client_secret'', Some (JStr (app_client_secret (credentials cfg))))]
      in if truthy_str sc
         then if the sc \<notin> set valid_scopes
              then Inl (new_CustomError
                     [(''code'', Some (JStr ''INVALID_SCOPE_ERROR'')),
                      (''message'', Some (JStr ([CHR 0x22]
                         @ ''Scope for requesting token for grantless operations is invalid. Please provide one of: ''
                         @ join '','' valid_scopes)))])
              else Inr (JSON_stringify env (JObj (defined_props
                     (body0 @ [(''grant_type'', Some (JStr ''client_credentials'')),
                               (''scope'', Some (JStr (the sc)))]))))
         else if \<not> only_grantless_operations (sp_config.options cfg)
         then Inr (JSON_stringify env (JObj (defined_props
                (body0 @ [(''grant_type'', Some (JStr ''refresh_token'')),
                          (''refresh_token'', map_option JStr (refresh_token cfg))]))))
         else Inl (new_CustomError
                [(''code'', Some (JStr ''NO_SCOPE_PROVIDED'')),
                 (''message'', Some (JStr ([CHR 0x22]
                    @ ''Grantless tokens require a scope. Please provide one of: ''
                    @ join '','' valid_scopes)))]))"

definition tokenExists :: "sp_state \<Rightarrow> string option \<Rightarrow> bool" where
  "tokenExists st sc =
     ((truthy_opt (access_token st) \<and> \<not> truthy_str sc)
      \<or> (truthy_str sc \<and> truthy_opt (map_of (grantless_tokens st) (the sc))))"

definition log_event :: "event \<Rightarrow> sp_state \<Rightarrow> sp_state" where
  "log_event e st = st\<lparr>trace := trace st @ [e]\<rparr>"

definition request_execute ::
  "env \<Rightarrow> http_request \<Rightarrow> sp_state \<Rightarrow> (thrown + response) \<times> sp_state" where
  "request_execute env rq st =
     (execute env rq (executed st),
      log_event (Execute rq) (st\<lparr>executed := Suc (executed st)\<rparr>))"

definition token_request :: "string \<Rightarrow> sp_state \<Rightarrow> http_request" where
  "token_request b st =
     \<lparr>http_request.http_method = Some ''POST'',
      url = ''https://api.amazon.com/auth/o2/token'',
      http_request.body = Some b,
      http_request.headers = [(''Content-Type'', ''application/json'')],
      http_request.timeouts = Some (current_call_timeouts st)\<rparr>"

definition refreshAccessToken ::
  "sp_config \<Rightarrow> env \<Rightarrow> string option \<Rightarrow> sp_state \<Rightarrow> (thrown + unit) \<times> sp_state" where
  "refreshAccessToken cfg env sc st =
     (case constructRefreshAccessTokenBody cfg env sc of
        Inl e \<Rightarrow> (Inl e, st)
      | Inr b \<Rightarrow>
          (case request_execute env (token_request b st) st of
             (Inl e, st1) \<Rightarrow> (Inl e, st1)
           | (Inr res, st1) \<Rightarrow>
               (case JSON_parse env (response.body res) of
                  None \<Rightarrow> (Inl (new_CustomError
                     [(''code'', Some (JStr ''REFRESH_ACCESS_TOKEN_PARSE_ERROR'')),
                      (''message'', Some (JStr (response.body res)))]), st1)
                | Some json_res \<Rightarrow>
                    if json_res = JNull then (Inl TypeError, st1)
                    else if truthy_opt (get json_res ''access_token'')
                    then if \<not> truthy_str sc
                         then (Inr (), st1\<lparr>access_token := get json_res ''access_token''\<rparr>)
                         else (Inr (), st1\<lparr>grantless_tokens :=
                                 AList.update (the sc) (the (get json_res ''access_token''))
                                   (grantless_tokens st1)\<rparr>)
                    else if truthy_opt (get json_res ''error'')
                    then (Inl (new_CustomError
                            [(''code'', get json_res ''error''),
                             (''message'', get json_res ''error_description'')]), st1)
                    else (Inl (new_CustomError
                            [(''code'', Some (JStr ''UNKNOWN_REFRESH_ACCESS_TOKEN_ERROR'')),
                             (''message'', Some (JStr (response.body res)))]), st1))))"

definition validateAccessToken ::
  "sp_config \<Rightarrow> env \<Rightarrow> string option \<Rightarrow> sp_state \<Rightarrow> (thrown + unit) \<times> sp_state" where
  "validateAccessToken cfg env sc st =
     (case (if auto_request_tokens (sp_config.options cfg) \<and> \<not> tokenExists st sc
            then refreshAccessToken cfg env sc st
            else (Inr (), st)) of
        (Inl e, st1) \<Rightarrow> (Inl e, st1)
      | (Inr u, st1) \<Rightarrow>
          if \<not> tokenExists st1 sc
          then (Inl (new_CustomError
                  [(''code'', Some (JStr ''NO_ACCESS_TOKEN_PRESENT'')),
                   (''message'', Some (JStr (''Did you turn off '' @ [CHR 0x22]
                      @ ''auto_request_tokens'' @ [CHR 0x22]
                      @ '' and forgot to refresh the access token or the scope for a grantless token?'')))]),
                st1)
          else (Inr (), st1))"

section \<open>callAPI\<close>

text \<open>
  Lines 616 to 718, in three parts. \<open>callAPI_request\<close> is the part up to the choice of
  the token (lines 617 to 652), with the building of the request in \<open>callAPI_build\<close>
  (lines 618 to 633). \<open>callAPI_response\<close> is the classification of the response (lines
  654 to 717), with the handling of the first error in \<open>callAPI_error\<close> (lines 670 to
  708); it says what \<^verbatim>\<open>callAPI\<close> does next. \<open>callAPI\<close> puts them together and recurses.

  The answers of \<^verbatim>\<open>Request.api\<close> are a list, one answer per request, each a response or
  what the transport throws. A call that reaches the transport when the list is
  exhausted does not return: its value is \<open>None\<close>.
\<close>

definition empty_options :: call_options where
  "empty_options =
     \<lparr>version = None, call_options.restore_rate = None, raw_result = False,
      call_options.timeouts = None\<rparr>"

definition lookup_builder ::
  "registry \<Rightarrow> string \<Rightarrow> string option \<Rightarrow> string \<Rightarrow> builder option" where
  "lookup_builder eps epn ver op =
     (case map_of eps epn of
        None \<Rightarrow> None
      | Some ep \<Rightarrow>
          (case ver of
             None \<Rightarrow> None
           | Some v \<Rightarrow>
               (case map_of (versions_table ep) v of
                  None \<Rightarrow> None
                | Some table \<Rightarrow> map_of table op)))"

definition callAPI_build ::
  "sp_config \<Rightarrow> env \<Rightarrow> call_options \<Rightarrow> req_params \<Rightarrow> thrown + req_params" where
  "callAPI_build cfg env opts rp =
     (if truthy_str (api_path rp)
      then (case validateMethod (req_params.http_method rp) of
              Inl e \<Rightarrow> Inl e
            | Inr m \<Rightarrow> Inr (rp\<lparr>req_params.http_method := Some m\<rparr>))
      else (case validateOperationAndEndpoint (endpoints env) (operation rp) (endpoint rp) of
              Inl e \<Rightarrow> Inl e
            | Inr (op, epn) \<Rightarrow>
                (case validateAndGetVersion cfg (endpoints env) op epn (version opts) of
                   Inl e \<Rightarrow> Inl e
                 | Inr ver \<Rightarrow>
                     (case lookup_builder (endpoints env) epn ver op of
                        None \<Rightarrow> Inl TypeError
                      | Some build \<Rightarrow>
                          (case build rp of
                             Inl e \<Rightarrow> Inl e
                           | Inr built \<Rightarrow>
                               Inr (built\<lparr>spread := Object_assign (spread built)
                                      (case req_params.headers rp of
                                         None \<Rightarrow> []
                                       | Some hs \<Rightarrow> hs)\<rparr>))))))"

definition callAPI_request ::
  "sp_config \<Rightarrow> env \<Rightarrow> req_params \<Rightarrow> sp_state
     \<Rightarrow> (thrown + (req_params \<times> call_options \<times> string option \<times> json option)) \<times> sp_state" where
  "callAPI_request cfg env rp st =
     (let opts = (case req_params.options rp of None \<Rightarrow> empty_options | Some x \<Rightarrow> x) in
      case callAPI_build cfg env opts rp of
        Inl e \<Rightarrow> (Inl e, st)
      | Inr rp1 \<Rightarrow>
          (let rp2 = (if truthy_num_opt (call_options.restore_rate opts)
                         \<and> call_options.restore_rate opts \<noteq> Some NaN
                      then rp1\<lparr>req_params.restore_rate := call_options.restore_rate opts\<rparr>
                      else rp1);
               ts = Object_assign (Object_assign [] (sp_options.timeouts (sp_config.options cfg)))
                      (case call_options.timeouts opts of None \<Rightarrow> [] | Some t \<Rightarrow> t);
               rp3 = rp2\<lparr>req_params.timeouts := Some ts\<rparr>;
               st1 = st\<lparr>current_call_timeouts := ts\<rparr>;
               sc = scope rp3
           in case validateOperationAllowance cfg sc of
                Inl e \<Rightarrow> (Inl e, st1)
              | Inr u \<Rightarrow>
                  (case validateAccessToken cfg env sc st1 of
                     (Inl e, st2) \<Rightarrow> (Inl e, st2)
                   | (Inr u, st2) \<Rightarrow>
                       (Inr (rp3, opts, sc,
                             if truthy_str sc then map_of (grantless_tokens st2) (the sc)
                             else if truthy_str (restricted_data_token rp3)
                             then Some (JStr (the (restricted_data_token rp3)))
                             else access_token st2),
                        st2))))"

datatype reaction =
    Return api_result
  | Throw thrown
  | RefreshAndRecall
  | ThrottledRecall

definition remove_newlines :: "string \<Rightarrow> string" where
  "remove_newlines s = filter (\<lambda>c. c \<noteq> CHR 0x0A) s"

definition errors_length :: "json \<Rightarrow> json option" where
  "errors_length json_res =
     (case get json_res ''errors'' of
        None \<Rightarrow> None
      | Some errors \<Rightarrow> if errors = JNull then None else js_length errors)"

definition header :: "response \<Rightarrow> string \<Rightarrow> string option" where
  "header res name =
     (case response.headers res of None \<Rightarrow> None | Some hs \<Rightarrow> map_of hs name)"

definition callAPI_error :: "sp_config \<Rightarrow> env \<Rightarrow> response \<Rightarrow> json option \<Rightarrow> reaction" where
  "callAPI_error cfg env res error =
     (case error of
        None \<Rightarrow> Throw TypeError
      | Some err \<Rightarrow>
          if err = JNull then Throw TypeError
          else if statusCode res = 403 \<and> get err ''code'' = Some (JStr ''Unauthorized'')
                  \<and> access_token_expired_test (ToString_opt (Number_toString env) (get err ''details''))
          then (if auto_request_tokens (sp_config.options cfg)
                then RefreshAndRecall
                else Throw (new_CustomError
                       [(''code'', Some (JStr ''ACCESS_TOKEN_EXPIRED'')),
                        (''message'', or_else (get err ''details'') (get err ''message''))]))
          else if statusCode res = 429 \<and> get err ''code'' = Some (JStr ''QuotaExceeded'')
          then (if auto_request_throttled (sp_config.options cfg)
                then ThrottledRecall
                else (let hs = (case response.headers res of None \<Rightarrow> [] | Some h \<Rightarrow> h);
                          rlHeader = find (\<lambda>h. toLowerCase h = ''x-amzn-ratelimit-limit'')
                                       (map fst hs)
                      in Throw (new_CustomError
                           [(''code'', Some (JStr ''QUOTA_EXCEEDED'')),
                            (''message'', or_else (get err ''details'') (get err ''message'')),
                            (''timeout'', if truthy_str rlHeader
                                          then map_option JStr (map_of hs (the rlHeader))
                                          else None)])))
          else if get err ''code'' = Some (JStr ''InternalFailure'')
                  \<and> use_sandbox (sp_config.options cfg)
          then Throw (new_CustomError
                 [(''code'', Some (JStr ''INVALID_SANDBOX_PARAMETERS'')),
                  (''message'', Some (JStr (''You're in SANDBOX mode, make sure sandbox parameters are correct, as in Amazon SP API documentation: ''
                     @ ''https://github.com/amzn/selling-partner-api-docs/blob/main/guides/developer-guide/SellingPartnerApiDeveloperGuide.md#how-to-make-a-sandbox-call-to-the-selling-partner-api'')))])
          else if \<not> truthy_opt (get err ''code'')
          then Throw (new_CustomError
                 [(''code'', Some (JStr ''UNKNOWN_ERROR'')),
                  (''message'', or_else (get err ''details'') (get err ''message''))])
          else (case get err ''code'' of
                  Some (JStr c) \<Rightarrow>
                    Throw (new_CustomError
                      [(''code'', Some (JStr (normalize_code c))),
                       (''message'', or_else (get err ''details'') (get err ''message''))])
                | _ \<Rightarrow> Throw TypeError))"

definition callAPI_response ::
  "sp_config \<Rightarrow> env \<Rightarrow> call_options \<Rightarrow> response \<Rightarrow> reaction" where
  "callAPI_response cfg env opts res =
     (if raw_result opts then Return (Raw res)
      else if statusCode res = 204 then Return (Value (JObj [(''success'', JBool True)]))
      else (case JSON_parse env (remove_newlines (response.body res)) of
              None \<Rightarrow> Throw (new_CustomError
                 [(''code'', Some (JStr ''JSON_PARSE_ERROR'')),
                  (''message'', Some (JStr (response.body res)))])
            | Some json_res \<Rightarrow>
                if json_res = JNull then Throw TypeError
                else if truthy_opt (errors_length json_res)
                then callAPI_error cfg env res (js_first (the (get json_res ''errors'')))
                else if truthy_opt (get json_res ''pagination'')
                        \<and> truthy_opt (get json_res ''payload'')
                then (case the (get json_res ''pagination'') of
                        JObj pagination \<Rightarrow>
                          Return (Value (JObj (Object_assign pagination
                             (own_props (the (get json_res ''payload''))))))
                      | target \<Rightarrow>
                          Return (Assigned target (own_props (the (get json_res ''payload'')))))
                else if truthy_opt (get json_res ''payload'')
                then Return (Value (the (get json_res ''payload'')))
                else Return (Value json_res)))"

fun callAPI ::
  "sp_config \<Rightarrow> env \<Rightarrow> (thrown + response) list \<Rightarrow> req_params \<Rightarrow> sp_state
     \<Rightarrow> ((thrown + api_result) \<times> sp_state) option"
and retryThrottledRequest ::
  "sp_config \<Rightarrow> env \<Rightarrow> (thrown + response) list \<Rightarrow> req_params \<Rightarrow> response \<Rightarrow> sp_state
     \<Rightarrow> ((thrown + api_result) \<times> sp_state) option"
where
  "callAPI cfg env [] rp st =
     (case callAPI_request cfg env rp st of
        (Inl e, st1) \<Rightarrow> Some (Inl e, st1)
      | (Inr prepared, st1) \<Rightarrow> None)"
| "callAPI cfg env (answer # answers) rp st =
     (case callAPI_request cfg env rp st of
        (Inl e, st1) \<Rightarrow> Some (Inl e, st1)
      | (Inr (rp1, opts, sc, token_for_request), st1) \<Rightarrow>
          (let st2 = log_event (ApiRequest token_for_request rp1) st1 in
           case answer of
             Inl e \<Rightarrow> Some (Inl e, st2)
           | Inr res \<Rightarrow>
               (case callAPI_response cfg env opts res of
                  Return v \<Rightarrow> Some (Inr v, st2)
                | Throw e \<Rightarrow> Some (Inl e, st2)
                | RefreshAndRecall \<Rightarrow>
                    (case refreshAccessToken cfg env sc st2 of
                       (Inl e, st3) \<Rightarrow> Some (Inl e, st3)
                     | (Inr u, st3) \<Rightarrow> callAPI cfg env answers rp1 st3)
                | ThrottledRecall \<Rightarrow> retryThrottledRequest cfg env answers rp1 res st2)))"
| "retryThrottledRequest cfg env answers rp res st =
     (if truthy_str (header res ''x-amzn-ratelimit-limit'')
         \<or> truthy_num_opt (req_params.restore_rate rp)
      then (let rate = (if truthy_str (header res ''x-amzn-ratelimit-limit'')
                        then js_div (Num 1)
                               (js_mul (String_toNumber env (the (header res ''x-amzn-ratelimit-limit'')))
                                  (Num 1))
                        else the (req_params.restore_rate rp))
            in callAPI cfg env answers rp (log_event (Wait rate) st))
      else callAPI cfg env answers rp st)"

section \<open>Reports\<close>

text \<open>
  Lines 435 to 507 and 844 to 850. The report functions call \<^verbatim>\<open>callAPI\<close> without
  \<^verbatim>\<open>raw_result\<close>; here the results of these calls are a list, one per call, each the
  value \<^verbatim>\<open>callAPI\<close> returned or what it threw, and every call is recorded as an event
  with its argument. Reading a property of a \<^verbatim>\<open>null\<close> result is a \<^verbatim>\<open>TypeError\<close>. A poll
  that finds the list exhausted does not return.

  The code reads the options of \<^verbatim>\<open>download\<close> for their truthiness only: \<open>json\<close> is the
  truthiness of \<^verbatim>\<open>options.json\<close>, and \<open>unzip\<close> is \<open>None\<close> when the options have no
  property \<^verbatim>\<open>unzip\<close> (line 749 then supplies \<^verbatim>\<open>true\<close>) and else the truthiness of its
  value, so that \<^verbatim>\<open>unzip: undefined\<close> reads \<open>Some False\<close>.
\<close>

record download_options =
  json :: bool
  unzip :: "bool option"
  file_path :: "string option"
  charset :: "string option"
  timeouts :: "timeouts option"

record report_params =
  body :: "json option"
  version :: "string option"
  interval :: "jsnum option"
  cancel_after :: "jsnum option"
  download :: "download_options option"
  tries :: nat

record document_details =
  url :: "string option"
  compressionAlgorithm :: "string option"

definition empty_request :: req_params where
  "empty_request =
     \<lparr>operation = None, endpoint = None, path = None, query = None,
      req_params.body = None, api_path = None, req_params.http_method = None,
      restricted_data_token = None, req_params.options = None, req_params.headers = None,
      req_params.restore_rate = None, scope = None,
      req_params.timeouts = None, spread = []\<rparr>"

definition version_option :: "report_params \<Rightarrow> call_options option" where
  "version_option rq =
     Some (if truthy_str (report_params.version rq)
           then empty_options\<lparr>call_options.version := report_params.version rq\<rparr>
           else empty_options)"

definition createReport_request :: "report_params \<Rightarrow> req_params" where
  "createReport_request rq =
     empty_request\<lparr>operation := Some ''reports.createReport'',
                    req_params.body := report_params.body rq,
                    req_params.options := version_option rq\<rparr>"

definition cancelReport_request :: "report_params \<Rightarrow> json option \<Rightarrow> req_params" where
  "cancelReport_request rq report_id =
     empty_request\<lparr>operation := Some ''reports.cancelReport'',
                    path := Some (JObj (defined_props [(''reportId'', report_id)])),
                    req_params.options := version_option rq\<rparr>"

definition getReport_request :: "report_params \<Rightarrow> json option \<Rightarrow> req_params" where
  "getReport_request rq report_id =
     empty_request\<lparr>operation := Some ''reports.getReport'',
                    path := Some (JObj (defined_props [(''reportId'', report_id)])),
                    req_params.options := version_option rq\<rparr>"

definition getReportDocument_request :: "report_params \<Rightarrow> json option \<Rightarrow> req_params" where
  "getReportDocument_request rq report_document_id =
     empty_request\<lparr>operation := Some ''reports.getReportDocument'',
                    path := Some (JObj (defined_props [(''reportDocumentId'', report_document_id)])),
                    req_params.options := version_option rq\<rparr>"

type_synonym calls = "(thrown + json) list"

definition createReport ::
  "calls \<Rightarrow> report_params \<Rightarrow> sp_state \<Rightarrow> ((thrown + json option) \<times> calls \<times> sp_state) option" where
  "createReport answers rq st =
     (case answers of
        [] \<Rightarrow> None
      | answer # rest \<Rightarrow>
          Some (case answer of
                  Inl e \<Rightarrow> Inl e
                | Inr res \<Rightarrow> if res = JNull then Inl TypeError else Inr (get res ''reportId''),
                rest, log_event (CallAPI (createReport_request rq)) st))"

definition cancelReport ::
  "calls \<Rightarrow> report_params \<Rightarrow> json option \<Rightarrow> sp_state
     \<Rightarrow> ((thrown + unit) \<times> calls \<times> sp_state) option" where
  "cancelReport answers rq report_id st =
     (case answers of
        [] \<Rightarrow> None
      | answer # rest \<Rightarrow>
          Some (case answer of Inl e \<Rightarrow> Inl e | Inr res \<Rightarrow> Inr (),
                rest, log_event (CallAPI (cancelReport_request rq report_id)) st))"

fun getReport ::
  "sp_config \<Rightarrow> env \<Rightarrow> calls \<Rightarrow> report_params \<Rightarrow> json option \<Rightarrow> sp_state
     \<Rightarrow> ((thrown + json option) \<times> report_params \<times> calls \<times> sp_state) option" where
  "getReport cfg env [] rq report_id st = None"
| "getReport cfg env (answer # rest) rq report_id st =
     (let st1 = log_event (CallAPI (getReport_request rq report_id)) st in
      case answer of
        Inl e \<Rightarrow> Some (Inl e, rq, rest, st1)
      | Inr res \<Rightarrow>
          if res = JNull then Some (Inl TypeError, rq, rest, st1)
          else if get res ''processingStatus'' = Some (JStr ''DONE'')
          then Some (Inr (get res ''reportDocumentId''), rq, rest, st1)
          else if get res ''processingStatus'' \<in> set [Some (JStr ''CANCELLED''), Some (JStr ''FATAL'')]
          then Some (Inl (new_CustomError
                  [(''code'', Some (JStr (''REPORT_PROCESSING_''
                      @ ToString_opt (Number_toString env) (get res ''processingStatus'')))),
                   (''message'', Some (JStr ''Something went wrong while processing the report.''))]),
                rq, rest, st1)
          else
            (let rq1 = rq\<lparr>tries := Suc (tries rq)\<rparr>;
                 ival = (if truthy_num_opt (interval rq1) then the (interval rq1) else Num 10000)
             in if debug_log (sp_config.options cfg)
                   \<and> report_params.body rq1 \<in> set [None, Some JNull]
                then Some (Inl TypeError, rq1, rest, st1)
                else if \<not> truthy_num_opt (cancel_after rq1)
                   \<or> js_gt (the (cancel_after rq1)) (Num (of_nat (tries rq1)))
                then getReport cfg env rest rq1 report_id
                       (log_event (Wait (js_div ival (Num 1000))) st1)
                else (case cancelReport rest rq1 report_id st1 of
                        None \<Rightarrow> None
                      | Some (Inl e, rest1, st2) \<Rightarrow> Some (Inl e, rq1, rest1, st2)
                      | Some (Inr u, rest1, st2) \<Rightarrow>
                          Some (Inl (new_CustomError
                                  [(''code'', Some (JStr ''REPORT_PROCESSING_CANCELLED_MANUALLY'')),
                                   (''message'', Some (JStr (''Report did not finish after ''
                                      @ dec (tries rq1) @ '' tries (interval ''
                                      @ Number_toString env ival @ '' ms).'')))]),
                                rq1, rest1, st2))))"

definition getReportDocument ::
  "calls \<Rightarrow> report_params \<Rightarrow> json option \<Rightarrow> sp_state
     \<Rightarrow> ((thrown + json) \<times> calls \<times> sp_state) option" where
  "getReportDocument answers rq report_document_id st =
     (case answers of
        [] \<Rightarrow> None
      | answer # rest \<Rightarrow>
          Some (answer, rest,
                log_event (CallAPI (getReportDocument_request rq report_document_id)) st))"

section \<open>Document download\<close>

text \<open>Lines 170 to 233, 144 to 153 and 748 to 808.\<close>

definition validateDocumentDetails :: "document_details option \<Rightarrow> thrown + unit" where
  "validateDocumentDetails details =
     (case details of
        None \<Rightarrow> Inl (new_CustomError
           [(''code'', Some (JStr ''DOCUMENT_INFORMATION_MISSING'')),
            (''message'', Some (JStr ''Please provide url''))])
      | Some d \<Rightarrow>
          if \<not> truthy_str (url d)
          then Inl (new_CustomError
             [(''code'', Some (JStr ''DOCUMENT_INFORMATION_MISSING'')),
              (''message'', Some (JStr ''Please provide url''))])
          else if truthy_str (compressionAlgorithm d) \<and> compressionAlgorithm d \<noteq> Some ''GZIP''
          then Inl (new_CustomError
             [(''code'', Some (JStr ''UNKNOWN_ZIP_STANDARD'')),
              (''message'', Some (JStr (''Cannot unzip '' @ the (compressionAlgorithm d)
                  @ '', expecting GZIP'')))])
          else Inr ())"

definition validateUpOrDownloadSuccess :: "env \<Rightarrow> response \<Rightarrow> string \<Rightarrow> thrown + unit" where
  "validateUpOrDownloadSuccess env res request_type =
     (if statusCode res \<noteq> 200
      then (case xml_parse env (response.body res) of
              Inl e \<Rightarrow> Inl (new_CustomError
                 [(''code'', Some (JStr (request_type @ ''_ERROR''))),
                  (''message'', Some (JStr (response.body res)))])
            | Inr json_res \<Rightarrow>
                if truthy json_res \<and> truthy_opt (get json_res ''Error'')
                then Inl (new_CustomError
                       [(''code'', get_opt (get json_res ''Error'') ''Code''),
                        (''message'', get_opt (get json_res ''Error'') ''Message'')])
                else Inl (new_CustomError
                       [(''code'', Some (JStr (request_type @ ''_ERROR''))),
                        (''message'', Some json_res)]))
      else Inr ())"

definition decodeBuffer ::
  "env \<Rightarrow> buffer \<Rightarrow> (string \<times> string) list option \<Rightarrow> string option \<Rightarrow> thrown + string" where
  "decodeBuffer env decompressed_buffer hs cs0 =
     (let cs1 = (if \<not> truthy_str cs0 \<and> hs \<noteq> None \<and> truthy_str (map_of (the hs) ''content-type'')
                 then (case charset_match (the (map_of (the hs) ''content-type'')) of
                         None \<Rightarrow> cs0
                       | Some m \<Rightarrow> if m \<noteq> [] then Some m else cs0)
                 else cs0);
          cs2 = (if \<not> truthy_str cs1 then ''utf8'' else the cs1)
      in case iconv_decode env decompressed_buffer cs2 of
           Inl msg \<Rightarrow> Inl (new_CustomError
              [(''code'', Some (JStr ''DECODE_ERROR'')),
               (''message'', Some (JStr msg))])
         | Inr text \<Rightarrow> Inr text)"

definition buffer_json :: "buffer \<Rightarrow> json" where
  "buffer_json b =
     JObj [(''type'', JStr ''Buffer''),
           (''data'', JArr (map (\<lambda>c. JNum (Num (of_nat (of_char c)))) b))]"

definition saved_content :: "env \<Rightarrow> content \<Rightarrow> download_options \<Rightarrow> content" where
  "saved_content env c opts =
     (if json opts
      then Text (JSON_stringify env
             (case c of
                Bytes b \<Rightarrow> buffer_json b
              | Text t \<Rightarrow> JStr t
              | Structured j \<Rightarrow> j))
      else c)"

definition saveFile ::
  "env \<Rightarrow> content \<Rightarrow> download_options \<Rightarrow> sp_state \<Rightarrow> (thrown + unit) \<times> sp_state" where
  "saveFile env c opts st =
     (let st1 = log_event (WriteFile (the (file_path opts)) (saved_content env c opts)) st
      in case writeFile env (the (file_path opts)) (saved_content env c opts) of
           Some e \<Rightarrow> (Inl e, st1)
         | None \<Rightarrow> (Inr (), st1))"

definition to_json ::
  "env \<Rightarrow> (string \<times> string) list option \<Rightarrow> string \<Rightarrow> thrown + content" where
  "to_json env hs decoded =
     (case hs of
        None \<Rightarrow> Inl TypeError
      | Some h \<Rightarrow>
          if map_of h ''content-type''
               = Some ''application/vnd.openxmlformats-officedocument.spreadsheetml.sheet''
          then Inl (new_CustomError
                 [(''code'', Some (JStr ''PARSE_ERROR'')),
                  (''message'', Some (JStr (''Report is a .xlsx file. Could not parse result to JSON. Remove the ''
                      @ [CHR 0x27] @ ''json:true'' @ [CHR 0x27] @ '' option.'')))])
          else
            (case (case map_of h ''content-type'' of
                     None \<Rightarrow> Inl TypeError
                   | Some ct \<Rightarrow>
                       if str_includes ct ''xml''
                       then map_sum id Structured (xml_parse env decoded)
                       else if str_includes ct ''plain''
                       then (case JSON_parse env decoded of
                               Some json_res \<Rightarrow> Inr (Structured json_res)
                             | None \<Rightarrow> map_sum id Structured (csv_fromString env decoded))
                       else Inr (Text decoded)) of
               Inl e \<Rightarrow> Inl (new_CustomError
                  [(''code'', Some (JStr ''PARSE_ERROR'')),
                   (''message'', Some (JStr ''Could not parse result to JSON.'')),
                   (''details'', Some (JStr decoded))])
             | Inr c \<Rightarrow> Inr c))"

definition download_decode ::
  "env \<Rightarrow> document_details \<Rightarrow> download_options \<Rightarrow> bool \<Rightarrow> response \<Rightarrow> thrown + content" where
  "download_decode env d opts unzip_opt res =
     (case (if truthy_str (compressionAlgorithm d) \<and> unzip_opt
            then gunzip env (concat (chunks res))
            else Inr (concat (chunks res))) of
        Inl e \<Rightarrow> Inl e
      | Inr decoded \<Rightarrow>
          if \<not> truthy_str (compressionAlgorithm d) \<or> unzip_opt
          then (case decodeBuffer env decoded (response.headers res) (charset opts) of
                  Inl e \<Rightarrow> Inl e
                | Inr text \<Rightarrow>
                    if json opts then to_json env (response.headers res) text
                    else Inr (Text text))
          else Inr (Bytes decoded))"

definition download_request :: "document_details \<Rightarrow> download_options \<Rightarrow> http_request" where
  "download_request d opts =
     \<lparr>http_request.http_method = None,
      http_request.url = the (document_details.url d),
      http_request.body = None,
      http_request.headers = [],
      http_request.timeouts = download_options.timeouts opts\<rparr>"

definition download ::
  "env \<Rightarrow> document_details option \<Rightarrow> download_options \<Rightarrow> sp_state
     \<Rightarrow> (thrown + content) \<times> sp_state" where
  "download env details opts st =
     (let unzip_opt = (case unzip opts of None \<Rightarrow> True | Some u \<Rightarrow> u) in
      case validateDocumentDetails details of
        Inl e \<Rightarrow> (Inl e, st)
      | Inr u \<Rightarrow>
          (case request_execute env (download_request (the details) opts) st of
             (Inl e, st1) \<Rightarrow> (Inl e, st1)
           | (Inr res, st1) \<Rightarrow>
               (case validateUpOrDownloadSuccess env res ''DOWNLOAD'' of
                  Inl e \<Rightarrow> (Inl e, st1)
                | Inr u \<Rightarrow>
                    (case download_decode env (the details) opts unzip_opt res of
                       Inl e \<Rightarrow> (Inl e, st1)
                     | Inr decoded \<Rightarrow>
                         if truthy_str (file_path opts)
                         then (case saveFile env decoded opts st1 of
                                 (Inl e, st2) \<Rightarrow> (Inl e, st2)
                               | (Inr u, st2) \<Rightarrow> (Inr decoded, st2))
                         else (Inr decoded, st1)))))"

text \<open>
  Lines 844 to 850. The report document \<^verbatim>\<open>callAPI\<close> returned is read as document
  details through its \<^verbatim>\<open>url\<close> and \<^verbatim>\<open>compressionAlgorithm\<close> when these are strings.
\<close>

definition string_prop :: "json \<Rightarrow> string \<Rightarrow> string option" where
  "string_prop j k = (case get j k of Some (JStr v) \<Rightarrow> Some v | _ \<Rightarrow> None)"

definition details_of :: "json \<Rightarrow> document_details option" where
  "details_of j =
     (if j = JNull then None
      else Some \<lparr>url = string_prop j ''url'',
                 compressionAlgorithm = string_prop j ''compressionAlgorithm''\<rparr>)"

definition empty_download_options :: download_options where
  "empty_download_options =
     \<lparr>json = False, unzip = None, file_path = None, charset = None,
      download_options.timeouts = None\<rparr>"

definition downloadReport ::
  "sp_config \<Rightarrow> env \<Rightarrow> calls \<Rightarrow> report_params \<Rightarrow> sp_state
     \<Rightarrow> ((thrown + content) \<times> report_params \<times> calls \<times> sp_state) option" where
  "downloadReport cfg env answers rq0 st =
     (let rq = rq0\<lparr>tries := 0\<rparr> in
      case createReport answers rq st of
        None \<Rightarrow> None
      | Some (Inl e, rest1, st1) \<Rightarrow> Some (Inl e, rq, rest1, st1)
      | Some (Inr report_id, rest1, st1) \<Rightarrow>
          (case getReport cfg env rest1 rq report_id st1 of
             None \<Rightarrow> None
           | Some (Inl e, rq2, rest2, st2) \<Rightarrow> Some (Inl e, rq2, rest2, st2)
           | Some (Inr report_document_id, rq2, rest2, st2) \<Rightarrow>
               (case getReportDocument rest2 rq2 report_document_id st2 of
                  None \<Rightarrow> None
                | Some (Inl e, rest3, st3) \<Rightarrow> Some (Inl e, rq2, rest3, st3)
                | Some (Inr report_document, rest3, st3) \<Rightarrow>
                    (case download env (details_of report_document)
                            (case report_params.download rq2 of
                               None \<Rightarrow> empty_download_options
                             | Some o1 \<Rightarrow> o1) st3 of
                       (r, st4) \<Rightarrow> Some (r, rq2, rest3, st4)))))"

section \<open>Notions used in the statements\<close>

text \<open>
  \<open>underscored\<close> is what the normalization does to one character after the first: an
  upper-case letter gets one underscore in front, every other character is
  upper-cased. \<open>non_terminal\<close> is a response other than \<^verbatim>\<open>null\<close> whose processing
  status is none of \<^verbatim>\<open>DONE\<close>, \<^verbatim>\<open>CANCELLED\<close> and \<^verbatim>\<open>FATAL\<close>; \<open>poll_interval\<close> is \<^verbatim>\<open>req_params.interval || 10000\<close>.
  \<open>waits\<close> are the delays of the waits a call made, in order.
\<close>

definition underscored :: "char \<Rightarrow> string" where
  "underscored d = (if isUpperAZ d then [CHR ''_'', d] else [toUpperChar d])"

definition OperationNotFoundForVersion :: "string \<Rightarrow> string \<Rightarrow> thrown" where
  "OperationNotFoundForVersion op ver =
     CustomError
       [(''code'', Some (JStr ''OPERATION_NOT_FOUND_FOR_VERSION'')),
        (''message'', Some (JStr (''Operation '' @ op @ '' not found for version '' @ ver))),
        (''type'', Some (JStr ''error''))]"

definition non_terminal :: "json \<Rightarrow> bool" where
  "non_terminal res =
     (res \<noteq> JNull
      \<and> get res ''processingStatus''
            \<notin> set [Some (JStr ''DONE''), Some (JStr ''CANCELLED''), Some (JStr ''FATAL'')])"

definition poll_interval :: "report_params \<Rightarrow> jsnum" where
  "poll_interval rq = (if truthy_num_opt (interval rq) then the (interval rq) else Num 10000)"

fun delays :: "event list \<Rightarrow> jsnum list" where
  "delays [] = []"
| "delays (Wait d # es) = d # delays es"
| "delays (e # es) = delays es"

definition waits :: "('a \<times> sp_state) option \<Rightarrow> jsnum list" where
  "waits r = (case r of None \<Rightarrow> [] | Some (x, st) \<Rightarrow> delays (trace st))"

section \<open>Examples\<close>

text \<open>
  A registry with the builder of \<^verbatim>\<open>createShipment\<close> (method \<^verbatim>\<open>POST\<close>, path
  \<^verbatim>\<open>/mfn/v0/shipments\<close>, restore rate 0.5) and a reports endpoint with three versions,
  a client configuration with the default options (and variants with debug logging
  on, with version fallback off, with automatic token requests off), and an
  environment whose \<^verbatim>\<open>JSON.parse\<close> knows the response bodies below. The conversions
  between strings and numbers of the example environment are right on strings of
  decimal digits, on text without a numeric reading such as \<^verbatim>\<open>abc\<close>, and on natural
  numbers, which is where the examples use them. A second environment serializes
  values built from strings without escapes and natural numbers as \<^verbatim>\<open>JSON.stringify\<close>
  does and refuses to write below \<^verbatim>\<open>/proc/\<close>.
\<close>

definition ex_createShipment :: builder where
  "ex_createShipment rp =
     Inr (rp\<lparr>req_params.http_method := Some ''POST'',
             api_path := Some ''/mfn/v0/shipments'',
             req_params.restore_rate := Some (Num (1 / 2))\<rparr>)"

definition ex_getReports :: builder where
  "ex_getReports rp =
     Inr (rp\<lparr>req_params.http_method := Some ''GET'',
             api_path := Some ''/reports/reports'',
             req_params.restore_rate := Some (Num 45)\<rparr>)"

definition ex_getReport :: builder where
  "ex_getReport rp =
     Inr (rp\<lparr>req_params.http_method := Some ''GET'',
             api_path := Some ''/reports/report'',
             req_params.restore_rate := Some (Num (1 / 2))\<rparr>)"

definition ex_cancelReport :: builder where
  "ex_cancelReport rp =
     Inr (rp\<lparr>req_params.http_method := Some ''DELETE'',
             api_path := Some ''/reports/report'',
             req_params.restore_rate := Some (Num 45)\<rparr>)"

definition ex_reports :: endpoint_def where
  "ex_reports =
     \<lparr>versions_table =
        [(''2020-01-01'', [(''getReport'', ex_getReport), (''getReports'', ex_getReports),
                           (''cancelReport'', ex_cancelReport)]),
         (''2020-09-04'', [(''getReports'', ex_getReports)]),
         (''2021-06-30'', [(''getReport'', ex_getReport)])],
      operations = [''getReport'', ''getReports'', ''cancelReport'']\<rparr>"

definition ex_registry :: registry where
  "ex_registry =
     [(''merchantFulfillment'',
         \<lparr>versions_table = [(''v0'', [(''createShipment'', ex_createShipment)])],
          operations = [''createShipment'']\<rparr>),
      (''reports'', ex_reports)]"

definition ex_options :: sp_options where
  "ex_options =
     \<lparr>auto_request_tokens = True, auto_request_throttled = True, use_sandbox = False,
      only_grantless_operations = False, version_fallback = True, debug_log = False,
      sp_options.timeouts = []\<rparr>"

definition ex_config :: sp_config where
  "ex_config =
     \<lparr>refresh_token = Some ''Atzr|refresh'',
      sp_config.options = ex_options, endpoints_versions = [],
      credentials = \<lparr>app_client_id = ''client-id'', app_client_secret = ''client-secret''\<rparr>\<rparr>"

definition ex_config_debug :: sp_config where
  "ex_config_debug =
     ex_config\<lparr>sp_config.options := ex_options\<lparr>debug_log := True\<rparr>\<rparr>"

definition ex_config_strict :: sp_config where
  "ex_config_strict =
     ex_config\<lparr>sp_config.options := ex_options\<lparr>version_fallback := False\<rparr>\<rparr>"

definition ex_config_manual :: sp_config where
  "ex_config_manual =
     ex_config\<lparr>sp_config.options := ex_options\<lparr>auto_request_tokens := False\<rparr>\<rparr>"

definition ex_state :: sp_state where
  "ex_state =
     \<lparr>access_token = Some (JStr ''Atza|token''), grantless_tokens = [],
      current_call_timeouts = [], executed = 0, trace = []\<rparr>"

definition isDigit :: "char \<Rightarrow> bool" where
  "isDigit c = (48 \<le> (of_char c :: nat) \<and> (of_char c :: nat) \<le> 57)"

definition ex_toNumber :: "string \<Rightarrow> jsnum" where
  "ex_toNumber s =
     (if s \<noteq> [] \<and> list_all isDigit s
      then Num (of_nat (foldl (\<lambda>n c. 10 * n + (of_char c - 48)) 0 s))
      else NaN)"

definition ex_toString :: "jsnum \<Rightarrow> string" where
  "ex_toString n =
     (case n of
        Num r \<Rightarrow> dec (nat \<lfloor>r\<rfloor>)
      | NaN \<Rightarrow> ''NaN''
      | PosInf \<Rightarrow> ''Infinity''
      | NegInf \<Rightarrow> ''-Infinity'')"

definition ex_quota_text :: string where
  "ex_quota_text =
     ''{\"errors\":[{\"code\":\"QuotaExceeded\",\"message\":\"You exceeded your quota for the requested resource.\",\"details\":\"\"}]}''"

definition ex_quota_json :: json where
  "ex_quota_json =
     JObj [(''errors'', JArr [JObj
       [(''code'', JStr ''QuotaExceeded''),
        (''message'', JStr ''You exceeded your quota for the requested resource.''),
        (''details'', JStr '''')]])]"

definition ex_expired_text :: string where
  "ex_expired_text =
     ''{\"errors\":[{\"code\":\"Unauthorized\",\"message\":\"Access to requested resource is denied.\",\"details\":\"The access token you provided has expired.\"}]}''"

definition ex_expired_json :: json where
  "ex_expired_json =
     JObj [(''errors'', JArr [JObj
       [(''code'', JStr ''Unauthorized''),
        (''message'', JStr ''Access to requested resource is denied.''),
        (''details'', JStr ''The access token you provided has expired.'')]])]"

definition ex_expired_message_text :: string where
  "ex_expired_message_text =
     ''{\"errors\":[{\"code\":\"Unauthorized\",\"message\":\"The access token you provided has expired.\"}]}''"

definition ex_expired_message_json :: json where
  "ex_expired_message_json =
     JObj [(''errors'', JArr [JObj
       [(''code'', JStr ''Unauthorized''),
        (''message'', JStr ''The access token you provided has expired.'')]])]"

definition ex_zero_text :: string where
  "ex_zero_text = ''{\"payload\":0}''"

definition ex_zero_json :: json where
  "ex_zero_json = JObj [(''payload'', JNum (Num 0))]"

definition ex_page_text :: string where
  "ex_page_text =
     ''{\"pagination\":{\"nextToken\":\"abc\"},\"payload\":{\"granularity\":\"Marketplace\",\"inventorySummaries\":[]}}''"

definition ex_page_json :: json where
  "ex_page_json =
     JObj [(''pagination'', JObj [(''nextToken'', JStr ''abc'')]),
           (''payload'', JObj [(''granularity'', JStr ''Marketplace''),
                               (''inventorySummaries'', JArr [])])]"

definition ex_page_lines_text :: string where
  "ex_page_lines_text =
     ''{\"pagination\":{\"nextToken\":\"abc\"},'' @ [CHR 0x0A]
       @ ''\"payload\":{\"granularity\":\"Marketplace\",'' @ [CHR 0x0A]
       @ ''\"inventorySummaries\":[]}}'' @ [CHR 0x0A]"

definition ex_token_text :: string where
  "ex_token_text = ''{\"access_token\":\"Atza|new\",\"token_type\":\"bearer\",\"expires_in\":3600}''"

definition ex_token_json :: json where
  "ex_token_json =
     JObj [(''access_token'', JStr ''Atza|new''), (''token_type'', JStr ''bearer''),
           (''expires_in'', JNum (Num 3600))]"

definition ex_parse :: "string \<Rightarrow> json option" where
  "ex_parse s =
     map_of [(ex_quota_text, ex_quota_json),
             (ex_expired_text, ex_expired_json),
             (ex_expired_message_text, ex_expired_message_json),
             (ex_zero_text, ex_zero_json),
             (ex_page_text, ex_page_json),
             (ex_token_text, ex_token_json)] s"

definition ex_response :: "nat \<Rightarrow> string \<Rightarrow> (string \<times> string) list \<Rightarrow> response" where
  "ex_response status b hs =
     \<lparr>statusCode = status, response.body = b, response.headers = Some hs, chunks = []\<rparr>"

definition ex_gzip_response :: response where
  "ex_gzip_response =
     \<lparr>statusCode = 200, response.body = [],
      response.headers = Some [(''content-type'', ''text/plain; charset=UTF-8'')],
      chunks = [[CHR 0x1F, CHR 0x8B, CHR 0x08], [CHR 0x00, CHR 0x03]]\<rparr>"

definition ex_execute :: "http_request \<Rightarrow> nat \<Rightarrow> thrown + response" where
  "ex_execute rq n =
     (if http_request.url rq = ''https://api.amazon.com/auth/o2/token''
      then Inr (ex_response 200 ex_token_text [])
      else Inr ex_gzip_response)"

definition ex_env :: env where
  "ex_env =
     \<lparr>endpoints = ex_registry,
      JSON_parse = ex_parse,
      JSON_stringify = (\<lambda>j. ''[json]''),
      String_toNumber = ex_toNumber,
      Number_toString = ex_toString,
      execute = ex_execute,
      gunzip = (\<lambda>b. Inl (Failure ''incorrect header check'')),
      iconv_decode = (\<lambda>b cs. Inr b),
      xml_parse = (\<lambda>s. Inl (Failure ''not xml'')),
      csv_fromString = (\<lambda>s. Inr (JArr [])),
      writeFile = (\<lambda>p c. None)\<rparr>"

fun ex_stringify :: "json \<Rightarrow> string" where
  "ex_stringify JNull = ''null''"
| "ex_stringify (JBool b) = (if b then ''true'' else ''false'')"
| "ex_stringify (JNum n) = ex_toString n"
| "ex_stringify (JStr s) = [CHR 0x22] @ s @ [CHR 0x22]"
| "ex_stringify (JArr xs) = ''['' @ join '','' (map ex_stringify xs) @ '']''"
| "ex_stringify (JObj kvs) =
     ''{'' @ join '','' (map (\<lambda>(k, v). [CHR 0x22] @ k @ [CHR 0x22] @ '':'' @ ex_stringify v) kvs)
       @ ''}''"

definition ex_env_disk :: env where
  "ex_env_disk =
     ex_env\<lparr>JSON_stringify := ex_stringify,
             writeFile := (\<lambda>p c. if startsWith p ''/proc/''
                                 then Some (Failure ''EACCES: permission denied'')
                                 else None)\<rparr>"

definition ex_request :: req_params where
  "ex_request = empty_request\<lparr>operation := Some ''merchantFulfillment.createShipment''\<rparr>"

definition ex_dispatched :: req_params where
  "ex_dispatched =
     ex_request\<lparr>req_params.http_method := Some ''POST'',
                 api_path := Some ''/mfn/v0/shipments'',
                 req_params.restore_rate := Some (Num (1 / 2)),
                 req_params.timeouts := Some []\<rparr>"

definition ex_report_params :: report_params where
  "ex_report_params =
     \<lparr>report_params.body = Some (JObj [(''reportType'', JStr ''GET_FLAT_FILE_OPEN_LISTINGS_DATA'')]),
      report_params.version = None, interval = None, cancel_after = None,
      download = None, tries = 0\<rparr>"

definition ex_status :: "string \<Rightarrow> json" where
  "ex_status s = JObj [(''reportId'', JStr ''ID323''), (''processingStatus'', JStr s)]"

definition ex_done :: json where
  "ex_done =
     JObj [(''reportId'', JStr ''ID323''), (''processingStatus'', JStr ''DONE''),
           (''reportDocumentId'', JStr ''DOC-b8b0'')]"

definition ex_poll_request :: req_params where
  "ex_poll_request =
     \<lparr>operation = Some ''reports.getReport'', endpoint = None,
      path = Some (JObj [(''reportId'', JStr ''ID323'')]), query = None,
      req_params.body = None, api_path = None, req_params.http_method = None,
      restricted_data_token = None,
      req_params.options =
        Some \<lparr>call_options.version = None, call_options.restore_rate = None,
              raw_result = False,
              call_options.timeouts = None\<rparr>,
      req_params.headers = None, req_params.restore_rate = None, scope = None,
      req_params.timeouts = None, spread = []\<rparr>"

definition ex_cancel_request :: req_params where
  "ex_cancel_request =
     \<lparr>operation = Some ''reports.cancelReport'', endpoint = None,
      path = Some (JObj [(''reportId'', JStr ''ID323'')]), query = None,
      req_params.body = None, api_path = None, req_params.http_method = None,
      restricted_data_token = None,
      req_params.options =
        Some \<lparr>call_options.version = None, call_options.restore_rate = None,
              raw_result = False,
              call_options.timeouts = None\<rparr>,
      req_params.headers = None, req_params.restore_rate = None, scope = None,
      req_params.timeouts = None, spread = []\<rparr>"

definition ex_details :: document_details where
  "ex_details =
     \<lparr>url = Some ''https://d34o8swod1owfl.cloudfront.net/Report_47700.txt.gz'',
      compressionAlgorithm = Some ''GZIP''\<rparr>"

definition ex_download_options :: download_options where
  "ex_download_options =
     \<lparr>json = True, unzip = Some False, file_path = None, charset = Some ''cp1252'',
      download_options.timeouts = None\<rparr>"

section \<open>Errors\<close>

lemma new_CustomError_code_message:
  "new_CustomError [(''code'', c), (''message'', m)]
     = CustomError [(''code'', c), (''message'', m), (''type'', Some (JStr ''error''))]"
  by (simp add: new_CustomError_def)

section \<open>The error-code normalization (C1)\<close>

lemma of_char_toUpperChar:
  "(of_char (toUpperChar c) :: nat) = (if isLowerAZ c then of_char c - 32 else of_char c)"
  by (auto simp: toUpperChar_def isLowerAZ_def)

lemma toUpperChar_upper: "isUpperAZ c \<Longrightarrow> toUpperChar c = c"
  by (simp add: toUpperChar_def isUpperAZ_def isLowerAZ_def)

lemma not_lower_toUpperChar: "\<not> isLowerAZ (toUpperChar c)"
  unfolding isLowerAZ_def[of "toUpperChar c"] of_char_toUpperChar
  by (auto simp: isLowerAZ_def)

lemma upper_toUpperChar: "isUpperAZ (toUpperChar c) \<longleftrightarrow> isUpperAZ c \<or> isLowerAZ c"
  unfolding isUpperAZ_def of_char_toUpperChar
  by (auto simp: isLowerAZ_def)

lemma toUpperChar_underscore: "toUpperChar (CHR ''_'') = CHR ''_''"
  by (simp add: toUpperChar_def isLowerAZ_def)

lemma toUpperChar_idem: "toUpperChar (toUpperChar c) = toUpperChar c"
  using not_lower_toUpperChar[of c] by (simp add: toUpperChar_def[of "toUpperChar c"])

lemma not_lower_upper: "isUpperAZ c \<Longrightarrow> \<not> isLowerAZ c"
  by (simp add: isUpperAZ_def isLowerAZ_def)

lemma not_lower_underscore: "\<not> isLowerAZ (CHR ''_'')"
  by (simp add: isLowerAZ_def)

lemma split_pieces_nonempty: "split_pieces cur cs \<noteq> []"
  by (induction cs arbitrary: cur) auto

lemma join_Cons: "join sep (x # xs) = (if xs = [] then x else x @ sep @ join sep xs)"
  by (cases xs) auto

lemma join_split_pieces:
  "cur \<noteq> [] \<Longrightarrow>
   join ''_'' (split_pieces cur cs) =
     cur @ concat (map (\<lambda>d. if isUpperAZ d then [CHR ''_'', d] else [d]) cs)"
proof (induction cs arbitrary: cur)
  case Nil
  then show ?case by simp
next
  case (Cons c cs)
  show ?case
  proof (cases "isUpperAZ c")
    case True
    have "join ''_'' (split_pieces [c] cs) =
        [c] @ concat (map (\<lambda>d. if isUpperAZ d then [CHR ''_'', d] else [d]) cs)"
      by (rule Cons.IH) simp
    with True Cons.prems show ?thesis
      by (simp add: join_Cons split_pieces_nonempty)
  next
    case False
    have "join ''_'' (split_pieces (cur @ [c]) cs) =
        (cur @ [c]) @ concat (map (\<lambda>d. if isUpperAZ d then [CHR ''_'', d] else [d]) cs)"
      by (rule Cons.IH) simp
    with False show ?thesis by simp
  qed
qed

lemma normalize_code_Nil: "normalize_code [] = []"
  by (simp add: normalize_code_def split_before_upper_def toUpperCase_def)

lemma normalize_code_Cons:
  "normalize_code (c # cs) = toUpperChar c # concat (map underscored cs)"
proof -
  have "split_pieces [] (c # cs) = split_pieces [c] cs" by simp
  moreover have
    "map toUpperChar (concat (map (\<lambda>d. if isUpperAZ d then [CHR ''_'', d] else [d]) cs))
      = concat (map underscored cs)"
    by (induction cs) (auto simp: underscored_def toUpperChar_underscore toUpperChar_upper)
  ultimately show ?thesis
    by (simp add: normalize_code_def split_before_upper_def toUpperCase_def join_split_pieces)
qed

lemma length_underscored:
  "length (concat (map underscored cs)) = length cs + length (filter isUpperAZ cs)"
  by (induction cs) (auto simp: underscored_def)

lemma underscored_fixed:
  "\<forall>c \<in> set cs. \<not> isUpperAZ c \<and> \<not> isLowerAZ c \<Longrightarrow> concat (map underscored cs) = cs"
  by (induction cs) (auto simp: underscored_def toUpperChar_def)

lemma upper_in_underscored:
  "(\<exists>e \<in> set (concat (map underscored cs)). isUpperAZ e) \<longleftrightarrow> (\<exists>c \<in> set cs. isLetter c)"
  by (induction cs) (auto simp: underscored_def isLetter_def upper_toUpperChar)

lemma lower_in_underscored:
  "\<forall>e \<in> set (concat (map underscored cs)). \<not> isLowerAZ e"
  by (induction cs)
    (simp_all add: underscored_def not_lower_toUpperChar not_lower_upper not_lower_underscore)

lemma normalize_twice:
  "normalize_code (normalize_code s) = normalize_code s
     \<longleftrightarrow> (\<forall>c \<in> set (tl s). \<not> isLetter c)"
proof (cases s)
  case Nil
  then show ?thesis by (simp add: normalize_code_Nil)
next
  case (Cons c cs)
  let ?t = "concat (map underscored cs)"
  have n2: "normalize_code (normalize_code s) = toUpperChar c # concat (map underscored ?t)"
    by (simp add: Cons normalize_code_Cons toUpperChar_idem)
  show ?thesis
  proof
    assume "normalize_code (normalize_code s) = normalize_code s"
    then have "concat (map underscored ?t) = ?t"
      by (simp add: n2) (simp add: Cons normalize_code_Cons)
    then have "length (filter isUpperAZ ?t) = 0"
      using length_underscored[of ?t] by simp
    then have "\<not> (\<exists>e \<in> set ?t. isUpperAZ e)"
      by (simp add: filter_empty_conv)
    then show "\<forall>c \<in> set (tl s). \<not> isLetter c"
      using upper_in_underscored[of cs] by (simp add: Cons)
  next
    assume "\<forall>c \<in> set (tl s). \<not> isLetter c"
    then have "\<not> (\<exists>e \<in> set ?t. isUpperAZ e)"
      using upper_in_underscored[of cs] by (simp add: Cons)
    then have "concat (map underscored ?t) = ?t"
      using lower_in_underscored[of cs] by (intro underscored_fixed) blast
    then show "normalize_code (normalize_code s) = normalize_code s"
      by (simp add: n2) (simp add: Cons normalize_code_Cons)
  qed
qed

text \<open>
  C1, as stated: normalizing twice equals normalizing once, for every error code.
  This fails: the normalized code \<^verbatim>\<open>QUOTA_EXCEEDED\<close> consists of upper-case letters, and
  the separator matches in front of each of them after the first, so a second
  normalization gives \<^verbatim>\<open>Q_U_O_T_A__E_X_C_E_E_D_E_D\<close>.
\<close>

theorem C1_normalize_twice_counterexample:
  "normalize_code (normalize_code ''QuotaExceeded'') \<noteq> normalize_code ''QuotaExceeded''"
  by code_simp

text \<open>
  C1, amended: for an ASCII error code, the normalization upper-cases the code and puts
  exactly one underscore in front of each upper-case letter after the first character;
  \<^verbatim>\<open>QuotaExceeded\<close> maps to \<^verbatim>\<open>QUOTA_EXCEEDED\<close> and \<^verbatim>\<open>InvalidInputXYZ\<close> to
  \<^verbatim>\<open>INVALID_INPUT_X_Y_Z\<close>. Normalizing twice equals normalizing once exactly when the
  code has no letter after its first character.
\<close>

theorem C1_normalize_code:
  assumes "ascii code"
  shows "normalize_code ''QuotaExceeded'' = ''QUOTA_EXCEEDED''
    \<and> normalize_code ''InvalidInputXYZ'' = ''INVALID_INPUT_X_Y_Z''
    \<and> normalize_code code =
        (case code of [] \<Rightarrow> [] | c # cs \<Rightarrow> toUpperChar c # concat (map underscored cs))
    \<and> length (normalize_code code) = length code + length (filter isUpperAZ (tl code))
    \<and> (normalize_code (normalize_code code) = normalize_code code
        \<longleftrightarrow> (\<forall>c \<in> set (tl code). \<not> isLetter c))"
proof -
  have "normalize_code ''QuotaExceeded'' = ''QUOTA_EXCEEDED''"
    by code_simp
  moreover have "normalize_code ''InvalidInputXYZ'' = ''INVALID_INPUT_X_Y_Z''"
    by code_simp
  moreover have "normalize_code code =
      (case code of [] \<Rightarrow> [] | c # cs \<Rightarrow> toUpperChar c # concat (map underscored cs))"
    by (cases code) (simp_all add: normalize_code_Nil normalize_code_Cons)
  moreover have
    "length (normalize_code code) = length code + length (filter isUpperAZ (tl code))"
    by (cases code) (simp_all add: normalize_code_Nil normalize_code_Cons length_underscored)
  ultimately show ?thesis
    using normalize_twice[of code] by blast
qed

text \<open>The theorem at the code \<^verbatim>\<open>InvalidInput\<close>.\<close>

theorem C1_normalize_code_witness:
  "ascii ''InvalidInput''
    \<and> normalize_code ''InvalidInput'' = ''INVALID_INPUT''
    \<and> length (normalize_code ''InvalidInput'') = 13
    \<and> normalize_code (normalize_code ''InvalidInput'') \<noteq> normalize_code ''InvalidInput''"
proof -
  let ?s = "''InvalidInput''"
  have a: "ascii ?s"
    by (simp add: ascii_def)
  note t = C1_normalize_code[OF a]
  from t have len:
    "length (normalize_code ?s) = length ?s + length (filter isUpperAZ (tl ?s))"
    by (elim conjE)
  from t have idem:
    "normalize_code (normalize_code ?s) = normalize_code ?s
      \<longleftrightarrow> (\<forall>c \<in> set (tl ?s). \<not> isLetter c)"
    by (elim conjE)
  have u: "filter isUpperAZ (tl ?s) = ''I''"
    by (simp add: isUpperAZ_def)
  have len13: "length (normalize_code ?s) = 13"
    unfolding len u by simp
  have "isLetter (CHR ''n'')"
    by (simp add: isLetter_def isLowerAZ_def)
  then have "\<not> (\<forall>c \<in> set (tl ?s). \<not> isLetter c)"
    by simp
  with idem have twice: "normalize_code (normalize_code ?s) \<noteq> normalize_code ?s"
    by blast
  have n: "normalize_code ?s = ''INVALID_INPUT''"
    by code_simp
  from a n len13 twice show ?thesis
    by blast
qed

section \<open>Version fallback and the default version (C2, C6)\<close>

lemma indexOf_ge: "- 1 \<le> indexOf xs x"
  by (induction xs) (auto simp: Let_def)

lemma indexOf_mem:
  "x \<in> set xs \<Longrightarrow>
     0 \<le> indexOf xs x \<and> nat (indexOf xs x) < length xs \<and> xs ! nat (indexOf xs x) = x"
proof (induction xs)
  case Nil
  then show ?case by simp
next
  case (Cons y ys)
  show ?case
  proof (cases "y = x")
    case True
    then show ?thesis by simp
  next
    case False
    with Cons.prems have "x \<in> set ys" by simp
    from Cons.IH[OF this] False show ?thesis
      by (simp add: Let_def nat_add_distrib)
  qed
qed

lemma slice_take: "0 \<le> i \<Longrightarrow> slice xs 0 i = take (nat i) xs"
  by (auto simp: slice_def Let_def min_def)

lemma find_rev_take_Some:
  assumes "find P (rev (take n xs)) = Some v" and "n \<le> length xs"
  shows "\<exists>i<n. xs ! i = v \<and> P v \<and> (\<forall>j. i < j \<and> j < n \<longrightarrow> \<not> P (xs ! j))"
proof -
  let ?ys = "take n xs"
  have len: "length ?ys = n" using assms(2) by simp
  from assms(1) obtain k where k: "k < n" "P (rev ?ys ! k)" "v = rev ?ys ! k"
    "\<forall>j<k. \<not> P (rev ?ys ! j)"
    unfolding find_Some_iff length_rev len by blast
  let ?i = "n - Suc k"
  have i: "?i < n" using k(1) by simp
  have vi: "xs ! ?i = v" using k(1,3) len by (simp add: rev_nth)
  have later: "\<not> P (xs ! j)" if "?i < j" "j < n" for j
  proof -
    have "n - Suc j < k" using that k(1) by arith
    with k(4) have "\<not> P (rev ?ys ! (n - Suc j))" by blast
    moreover have "rev ?ys ! (n - Suc j) = xs ! j"
      using that len by (simp add: rev_nth)
    ultimately show ?thesis by simp
  qed
  show ?thesis
  proof (intro exI[of _ ?i] conjI allI impI)
    show "?i < n" by (rule i)
    show "xs ! ?i = v" by (rule vi)
    show "P v" using k(2,3) by simp
  next
    fix j assume "?i < j \<and> j < n"
    then show "\<not> P (xs ! j)" using later[of j] by simp
  qed
qed

lemma find_rev_take_None:
  assumes "find P (rev (take n xs)) = None" and "n \<le> length xs"
  shows "\<forall>i<n. \<not> P (xs ! i)"
proof (intro allI impI)
  fix i assume "i < n"
  then have "take n xs ! i \<in> set (take n xs)"
    using assms(2) by (intro nth_mem) simp
  with \<open>i < n\<close> have "xs ! i \<in> set (take n xs)"
    by simp
  with assms(1) show "\<not> P (xs ! i)"
    by (simp add: find_None_iff)
qed

lemma getFallbackVersion_unfold:
  assumes "map_of eps epn = Some ep" and "ver \<in> set (versions ep)"
  shows "getFallbackVersion cfg eps op epn ver =
     (let fallback_version =
            find (\<lambda>v. defines_op ep v op) (rev (take (nat (indexOf (versions ep) ver)) (versions ep)))
      in if \<not> version_fallback (sp_config.options cfg) \<or> \<not> truthy_str fallback_version
         then Inl (OperationNotFoundForVersion op ver)
         else Inr (the fallback_version))"
  using assms indexOf_mem[OF assms(2)]
  by (simp add: getFallbackVersion_def slice_take Let_def new_CustomError_code_message
      OperationNotFoundForVersion_def)

lemma find_rev_take_nearest:
  assumes "i < n" and "n \<le> length xs" and "P (xs ! i)"
    and "\<forall>j. i < j \<and> j < n \<longrightarrow> \<not> P (xs ! j)"
  shows "find P (rev (take n xs)) = Some (xs ! i)"
proof (cases "find P (rev (take n xs))")
  case None
  from find_rev_take_None[OF None assms(2)] assms(1,3) show ?thesis by blast
next
  case (Some v)
  from find_rev_take_Some[OF Some assms(2)] obtain k where
    k: "k < n" "xs ! k = v" "P v" "\<forall>j. k < j \<and> j < n \<longrightarrow> \<not> P (xs ! j)"
    by blast
  have "\<not> k < i" using k(4) assms(1,3) by blast
  moreover have "\<not> i < k" using assms(4) k(1,2,3) by blast
  ultimately have "k = i" by arith
  with k(2) Some show ?thesis by simp
qed

text \<open>
  C2: for an endpoint of the registry and a reference version among its versions (both
  callers check this before the search: line 366, and lines 113 to 115 for a pinned
  version), a version the fallback search returns stands before the reference version
  in the endpoint's list of versions, defines the operation, and no version between it
  and the reference version defines the operation; with fallback enabled the search
  returns the version before the reference version that defines the operation and has
  no defining version between itself and the reference version (its name not being
  empty), so it returns a version whenever some version before the reference version
  defines the operation and no version name is empty; the search fails with
  \<^verbatim>\<open>OPERATION_NOT_FOUND_FOR_VERSION\<close> whenever fallback is disabled or no version before
  the reference version defines the operation.
\<close>

theorem C2_getFallbackVersion:
  assumes "map_of eps epn = Some ep" and "ver \<in> set (versions ep)"
  shows "(\<forall>v. getFallbackVersion cfg eps op epn ver = Inr v \<longrightarrow>
            (\<exists>i. int i < indexOf (versions ep) ver \<and> versions ep ! i = v
               \<and> defines_op ep v op
               \<and> (\<forall>j. i < j \<and> int j < indexOf (versions ep) ver
                      \<longrightarrow> \<not> defines_op ep (versions ep ! j) op)))
       \<and> (\<forall>i. version_fallback (sp_config.options cfg)
              \<and> int i < indexOf (versions ep) ver
              \<and> defines_op ep (versions ep ! i) op
              \<and> versions ep ! i \<noteq> []
              \<and> (\<forall>j. i < j \<and> int j < indexOf (versions ep) ver
                     \<longrightarrow> \<not> defines_op ep (versions ep ! j) op)
            \<longrightarrow> getFallbackVersion cfg eps op epn ver = Inr (versions ep ! i))
       \<and> (version_fallback (sp_config.options cfg)
            \<and> (\<exists>i. int i < indexOf (versions ep) ver \<and> defines_op ep (versions ep ! i) op)
            \<and> [] \<notin> set (versions ep)
          \<longrightarrow> (\<exists>v. getFallbackVersion cfg eps op epn ver = Inr v))
       \<and> (\<not> version_fallback (sp_config.options cfg)
            \<or> (\<forall>i. int i < indexOf (versions ep) ver \<longrightarrow> \<not> defines_op ep (versions ep ! i) op)
          \<longrightarrow> getFallbackVersion cfg eps op epn ver
                = Inl (OperationNotFoundForVersion op ver))"
proof -
  let ?vs = "versions ep"
  let ?n = "nat (indexOf ?vs ver)"
  let ?P = "\<lambda>v. defines_op ep v op"
  let ?found = "find ?P (rev (take ?n ?vs))"
  note unfold = getFallbackVersion_unfold[OF assms, of cfg op]
  from indexOf_mem[OF assms(2)] have idx: "0 \<le> indexOf ?vs ver" and n: "?n \<le> length ?vs"
    by simp_all
  have lt: "int i < indexOf ?vs ver \<longleftrightarrow> i < ?n" for i
    using idx by arith
  have nearest: "\<exists>i. int i < indexOf ?vs ver \<and> ?vs ! i = v \<and> ?P v
      \<and> (\<forall>j. i < j \<and> int j < indexOf ?vs ver \<longrightarrow> \<not> ?P (?vs ! j))"
    if "getFallbackVersion cfg eps op epn ver = Inr v" for v
  proof -
    from that have "?found = Some v"
      unfolding unfold by (cases ?found) (simp_all add: Let_def truthy_str_def split: if_splits)
    from find_rev_take_Some[OF this n] show ?thesis
      unfolding lt .
  qed
  have returns: "getFallbackVersion cfg eps op epn ver = Inr (?vs ! i)"
    if "version_fallback (sp_config.options cfg) \<and> int i < indexOf ?vs ver
        \<and> ?P (?vs ! i) \<and> ?vs ! i \<noteq> []
        \<and> (\<forall>j. i < j \<and> int j < indexOf ?vs ver \<longrightarrow> \<not> ?P (?vs ! j))" for i
  proof -
    from that have on: "version_fallback (sp_config.options cfg)" and i: "i < ?n"
      and d: "?P (?vs ! i)" and ne: "?vs ! i \<noteq> []"
      and later: "\<forall>j. i < j \<and> j < ?n \<longrightarrow> \<not> ?P (?vs ! j)"
      unfolding lt by simp_all
    have "?found = Some (?vs ! i)"
      by (rule find_rev_take_nearest[OF i n d later])
    with on ne show ?thesis unfolding unfold by (simp add: Let_def truthy_str_def)
  qed
  have succeeds: "\<exists>v. getFallbackVersion cfg eps op epn ver = Inr v"
    if "version_fallback (sp_config.options cfg)
        \<and> (\<exists>i. int i < indexOf ?vs ver \<and> ?P (?vs ! i)) \<and> [] \<notin> set ?vs"
  proof -
    from that have on: "version_fallback (sp_config.options cfg)"
      and ex: "\<exists>i<?n. ?P (?vs ! i)" and ne: "[] \<notin> set ?vs"
      unfolding lt by simp_all
    have "?found \<noteq> None"
    proof
      assume "?found = None"
      from find_rev_take_None[OF this n] ex show False by blast
    qed
    then obtain v where v: "?found = Some v" by blast
    from find_rev_take_Some[OF v n] obtain k where "k < ?n" "?vs ! k = v" by blast
    with n have "v \<in> set ?vs" by (metis nth_mem less_le_trans)
    with ne have "v \<noteq> []" by blast
    with on v have "getFallbackVersion cfg eps op epn ver = Inr v"
      unfolding unfold by (simp add: Let_def truthy_str_def)
    then show ?thesis by blast
  qed
  have fails: "getFallbackVersion cfg eps op epn ver = Inl (OperationNotFoundForVersion op ver)"
    if "\<not> version_fallback (sp_config.options cfg)
        \<or> (\<forall>i. int i < indexOf ?vs ver \<longrightarrow> \<not> ?P (?vs ! i))"
  proof (cases "version_fallback (sp_config.options cfg)")
    case False
    then show ?thesis unfolding unfold by (simp add: Let_def)
  next
    case True
    with that have none: "\<forall>i<?n. \<not> ?P (?vs ! i)"
      unfolding lt by blast
    have "?found = None"
    proof (rule ccontr)
      assume "?found \<noteq> None"
      then obtain v where "?found = Some v" by blast
      from find_rev_take_Some[OF this n] none show False by blast
    qed
    then show ?thesis unfolding unfold by (simp add: Let_def truthy_str_def)
  qed
  show ?thesis
  proof (intro conjI allI impI)
    fix v assume "getFallbackVersion cfg eps op epn ver = Inr v"
    then show "\<exists>i. int i < indexOf ?vs ver \<and> ?vs ! i = v \<and> ?P v
      \<and> (\<forall>j. i < j \<and> int j < indexOf ?vs ver \<longrightarrow> \<not> ?P (?vs ! j))"
      by (rule nearest)
  next
    fix i
    assume "version_fallback (sp_config.options cfg) \<and> int i < indexOf ?vs ver
        \<and> ?P (?vs ! i) \<and> ?vs ! i \<noteq> []
        \<and> (\<forall>j. i < j \<and> int j < indexOf ?vs ver \<longrightarrow> \<not> ?P (?vs ! j))"
    then show "getFallbackVersion cfg eps op epn ver = Inr (?vs ! i)"
      by (rule returns)
  next
    assume "version_fallback (sp_config.options cfg)
        \<and> (\<exists>i. int i < indexOf ?vs ver \<and> ?P (?vs ! i)) \<and> [] \<notin> set ?vs"
    then show "\<exists>v. getFallbackVersion cfg eps op epn ver = Inr v"
      by (rule succeeds)
  next
    assume "\<not> version_fallback (sp_config.options cfg)
        \<or> (\<forall>i. int i < indexOf ?vs ver \<longrightarrow> \<not> ?P (?vs ! i))"
    then show "getFallbackVersion cfg eps op epn ver = Inl (OperationNotFoundForVersion op ver)"
      by (rule fails)
  qed
qed

text \<open>
  The theorem on the example registry, from the reference version \<^verbatim>\<open>2021-06-30\<close>:
  \<^verbatim>\<open>cancelReport\<close> is defined in \<^verbatim>\<open>2020-01-01\<close> only, and the search passes over
  \<^verbatim>\<open>2020-09-04\<close> to return it; \<^verbatim>\<open>getReports\<close> is defined in both older versions, and
  the search returns the nearer one, or fails when fallback is off; \<^verbatim>\<open>getReport\<close> has
  no version older than \<^verbatim>\<open>2020-01-01\<close>.
\<close>

theorem C2_getFallbackVersion_witness:
  "map_of ex_registry ''reports'' = Some ex_reports
   \<and> versions ex_reports = [''2020-01-01'', ''2020-09-04'', ''2021-06-30'']
   \<and> getFallbackVersion ex_config ex_registry ''cancelReport'' ''reports'' ''2021-06-30''
        = Inr ''2020-01-01''
   \<and> getFallbackVersion ex_config ex_registry ''getReports'' ''reports'' ''2021-06-30''
        = Inr ''2020-09-04''
   \<and> (\<exists>i. int i < 2 \<and> versions ex_reports ! i = ''2020-09-04''
          \<and> defines_op ex_reports ''2020-09-04'' ''getReports'')
   \<and> getFallbackVersion ex_config ex_registry ''getReport'' ''reports'' ''2020-01-01''
        = Inl (CustomError
                 [(''code'', Some (JStr ''OPERATION_NOT_FOUND_FOR_VERSION'')),
                  (''message'', Some (JStr
                     ''Operation getReport not found for version 2020-01-01'')),
                  (''type'', Some (JStr ''error''))])
   \<and> getFallbackVersion ex_config_strict ex_registry ''getReports'' ''reports'' ''2021-06-30''
        = Inl (CustomError
                 [(''code'', Some (JStr ''OPERATION_NOT_FOUND_FOR_VERSION'')),
                  (''message'', Some (JStr
                     ''Operation getReports not found for version 2021-06-30'')),
                  (''type'', Some (JStr ''error''))])"
proof -
  have h1: "map_of ex_registry ''reports'' = Some ex_reports"
    by (simp add: ex_registry_def)
  have vs: "versions ex_reports = [''2020-01-01'', ''2020-09-04'', ''2021-06-30'']"
    by (simp add: versions_def ex_reports_def)
  have h2: "''2021-06-30'' \<in> set (versions ex_reports)"
    and h3: "''2020-01-01'' \<in> set (versions ex_reports)"
    by (simp_all add: vs)
  have i2: "indexOf (versions ex_reports) ''2021-06-30'' = 2"
    by code_simp
  have i0: "indexOf (versions ex_reports) ''2020-01-01'' = 0"
    by code_simp
  note returns = C2_getFallbackVersion[OF h1 h2, THEN conjunct2, THEN conjunct1, rule_format]
  have on: "version_fallback (sp_config.options ex_config)"
    by (simp add: ex_config_def ex_options_def)
  have off: "\<not> version_fallback (sp_config.options ex_config_strict)"
    by (simp add: ex_config_strict_def ex_options_def)
  have d0: "defines_op ex_reports (versions ex_reports ! 0) ''cancelReport''"
    and n0: "versions ex_reports ! 0 \<noteq> []"
    and d1: "defines_op ex_reports (versions ex_reports ! 1) ''getReports''"
    and n1: "versions ex_reports ! 1 \<noteq> []"
    and m1: "\<not> defines_op ex_reports (versions ex_reports ! 1) ''cancelReport''"
    by code_simp+
  have later0: "\<forall>j. 0 < j \<and> int j < indexOf (versions ex_reports) ''2021-06-30''
      \<longrightarrow> \<not> defines_op ex_reports (versions ex_reports ! j) ''cancelReport''"
  proof (intro allI impI)
    fix j :: nat
    assume "0 < j \<and> int j < indexOf (versions ex_reports) ''2021-06-30''"
    then have "j = 1" unfolding i2 by arith
    with m1 show "\<not> defines_op ex_reports (versions ex_reports ! j) ''cancelReport''"
      by simp
  qed
  have later1: "\<forall>j. 1 < j \<and> int j < indexOf (versions ex_reports) ''2021-06-30''
      \<longrightarrow> \<not> defines_op ex_reports (versions ex_reports ! j) ''getReports''"
    unfolding i2 by arith
  have r0: "getFallbackVersion ex_config ex_registry ''cancelReport'' ''reports'' ''2021-06-30''
      = Inr ''2020-01-01''"
    using returns[of ex_config 0 "''cancelReport''"] on d0 n0 later0
    unfolding i2 vs by simp
  have r1: "getFallbackVersion ex_config ex_registry ''getReports'' ''reports'' ''2021-06-30''
      = Inr ''2020-09-04''"
    using returns[of ex_config 1 "''getReports''"] on d1 n1 later1
    unfolding i2 vs by simp
  from C2_getFallbackVersion[OF h1 h2, of ex_config "''getReports''"] r1
  have "\<exists>i. int i < indexOf (versions ex_reports) ''2021-06-30''
      \<and> versions ex_reports ! i = ''2020-09-04''
      \<and> defines_op ex_reports ''2020-09-04'' ''getReports''
      \<and> (\<forall>j. i < j \<and> int j < indexOf (versions ex_reports) ''2021-06-30''
             \<longrightarrow> \<not> defines_op ex_reports (versions ex_reports ! j) ''getReports'')"
    by blast
  then have e: "\<exists>i. int i < 2 \<and> versions ex_reports ! i = ''2020-09-04''
      \<and> defines_op ex_reports ''2020-09-04'' ''getReports''"
    unfolding i2 by blast
  have "\<forall>i. int i < indexOf (versions ex_reports) ''2020-01-01''
      \<longrightarrow> \<not> defines_op ex_reports (versions ex_reports ! i) ''getReport''"
    unfolding i0 by simp
  with C2_getFallbackVersion[OF h1 h3, of ex_config "''getReport''"]
  have "getFallbackVersion ex_config ex_registry ''getReport'' ''reports'' ''2020-01-01''
      = Inl (OperationNotFoundForVersion ''getReport'' ''2020-01-01'')"
    by blast
  then have f: "getFallbackVersion ex_config ex_registry ''getReport'' ''reports'' ''2020-01-01''
        = Inl (CustomError
                 [(''code'', Some (JStr ''OPERATION_NOT_FOUND_FOR_VERSION'')),
                  (''message'', Some (JStr
                     ''Operation getReport not found for version 2020-01-01'')),
                  (''type'', Some (JStr ''error''))])"
    by (simp add: OperationNotFoundForVersion_def)
  from C2_getFallbackVersion[OF h1 h2, of ex_config_strict "''getReports''"] off
  have "getFallbackVersion ex_config_strict ex_registry ''getReports'' ''reports'' ''2021-06-30''
      = Inl (OperationNotFoundForVersion ''getReports'' ''2021-06-30'')"
    by blast
  then have g: "getFallbackVersion ex_config_strict ex_registry ''getReports'' ''reports''
          ''2021-06-30''
        = Inl (CustomError
                 [(''code'', Some (JStr ''OPERATION_NOT_FOUND_FOR_VERSION'')),
                  (''message'', Some (JStr
                     ''Operation getReports not found for version 2021-06-30'')),
                  (''type'', Some (JStr ''error''))])"
    by (simp add: OperationNotFoundForVersion_def)
  from h1 vs r0 r1 e f g show ?thesis
    by (intro conjI)
qed

lemma find_first:
  "find P xs = Some v \<Longrightarrow> \<exists>i<length xs. xs ! i = v \<and> P v \<and> (\<forall>j<i. \<not> P (xs ! j))"
  unfolding find_Some_iff by blast

lemma find_filter: "find P xs = (case filter P xs of [] \<Rightarrow> None | x # _ \<Rightarrow> Some x)"
  by (induction xs) auto

text \<open>
  C6: with no explicit version for the call and no pinned version for the endpoint,
  version resolution returns the first version of the endpoint's list that defines the
  operation (one exists whenever some version defines it); an operation defined
  exactly in \<^verbatim>\<open>2020-01-01\<close> and \<^verbatim>\<open>2021-06-30\<close> resolves to \<^verbatim>\<open>2020-01-01\<close>.
\<close>

theorem C6_oldest_version:
  assumes "map_of eps epn = Some ep"
    and "\<not> truthy_str ver"
    and "\<not> truthy_str (map_of (endpoints_versions cfg) epn)"
  shows "validateAndGetVersion cfg eps op epn ver
           = Inr (find (\<lambda>v. defines_op ep v op) (versions ep))
       \<and> (\<forall>v. validateAndGetVersion cfg eps op epn ver = Inr (Some v) \<longrightarrow>
             (\<exists>i<length (versions ep). versions ep ! i = v \<and> defines_op ep v op
                \<and> (\<forall>j<i. \<not> defines_op ep (versions ep ! j) op)))
       \<and> ((\<exists>v \<in> set (versions ep). defines_op ep v op) \<longrightarrow>
             (\<exists>v. validateAndGetVersion cfg eps op epn ver = Inr (Some v)))
       \<and> (filter (\<lambda>v. defines_op ep v op) (versions ep) = [''2020-01-01'', ''2021-06-30''] \<longrightarrow>
             validateAndGetVersion cfg eps op epn ver = Inr (Some ''2020-01-01''))"
proof -
  let ?P = "\<lambda>v. defines_op ep v op"
  have r: "validateAndGetVersion cfg eps op epn ver = Inr (find ?P (versions ep))"
    using assms by (simp add: validateAndGetVersion_def validateGloballySetVersion_def)
  have oldest: "\<exists>i<length (versions ep). versions ep ! i = v \<and> ?P v
      \<and> (\<forall>j<i. \<not> ?P (versions ep ! j))"
    if "validateAndGetVersion cfg eps op epn ver = Inr (Some v)" for v
    using that find_first[of ?P "versions ep" v] unfolding r by simp
  have some: "\<exists>v. validateAndGetVersion cfg eps op epn ver = Inr (Some v)"
    if "\<exists>v \<in> set (versions ep). ?P v"
  proof -
    from that have "find ?P (versions ep) \<noteq> None"
      by (auto simp: find_None_iff)
    then show ?thesis unfolding r by blast
  qed
  have scenario: "validateAndGetVersion cfg eps op epn ver = Inr (Some ''2020-01-01'')"
    if "filter ?P (versions ep) = [''2020-01-01'', ''2021-06-30'']"
    unfolding r find_filter[of ?P] that by simp
  from r oldest some scenario show ?thesis by blast
qed

text \<open>The theorem on the example registry, where only these two versions define \<^verbatim>\<open>getReport\<close>.\<close>

theorem C6_oldest_version_witness:
  "map_of ex_registry ''reports'' = Some ex_reports
   \<and> \<not> truthy_str None
   \<and> \<not> truthy_str (map_of (endpoints_versions ex_config) ''reports'')
   \<and> filter (\<lambda>v. defines_op ex_reports v ''getReport'') (versions ex_reports)
        = [''2020-01-01'', ''2021-06-30'']
   \<and> validateAndGetVersion ex_config ex_registry ''getReport'' ''reports'' None
        = Inr (Some ''2020-01-01'')"
proof -
  have h1: "map_of ex_registry ''reports'' = Some ex_reports"
    by (simp add: ex_registry_def)
  have h2: "\<not> truthy_str None"
    by (simp add: truthy_str_def)
  have h3: "\<not> truthy_str (map_of (endpoints_versions ex_config) ''reports'')"
    by (simp add: truthy_str_def ex_config_def)
  have f: "filter (\<lambda>v. defines_op ex_reports v ''getReport'') (versions ex_reports)
      = [''2020-01-01'', ''2021-06-30'']"
    by code_simp
  from C6_oldest_version[OF h1 h2 h3, of "''getReport''"] f
  have "validateAndGetVersion ex_config ex_registry ''getReport'' ''reports'' None
      = Inr (Some ''2020-01-01'')"
    by blast
  with h1 h2 h3 f show ?thesis by blast
qed

section \<open>Response classification (C7, C8)\<close>

lemma callAPI_dispatch:
  assumes "callAPI_request cfg env rp st = (Inr (rp1, opts, sc, tok), st1)"
  shows "callAPI cfg env (Inr res # answers) rp st =
     (case callAPI_response cfg env opts res of
        Return v \<Rightarrow> Some (Inr v, log_event (ApiRequest tok rp1) st1)
      | Throw e \<Rightarrow> Some (Inl e, log_event (ApiRequest tok rp1) st1)
      | RefreshAndRecall \<Rightarrow>
          (case refreshAccessToken cfg env sc (log_event (ApiRequest tok rp1) st1) of
             (Inl e, st3) \<Rightarrow> Some (Inl e, st3)
           | (Inr u, st3) \<Rightarrow> callAPI cfg env answers rp1 st3)
      | ThrottledRecall \<Rightarrow>
          retryThrottledRequest cfg env answers rp1 res (log_event (ApiRequest tok rp1) st1))"
  by (simp add: assms Let_def)

lemma callAPI_response_204:
  "\<not> raw_result opts \<Longrightarrow> statusCode res = 204 \<Longrightarrow>
     callAPI_response cfg env opts res = Return (Value (JObj [(''success'', JBool True)]))"
  by (simp add: callAPI_response_def)

lemma callAPI_response_unparseable:
  "\<not> raw_result opts \<Longrightarrow> statusCode res \<noteq> 204 \<Longrightarrow>
   JSON_parse env (remove_newlines (response.body res)) = None \<Longrightarrow>
     callAPI_response cfg env opts res =
       Throw (CustomError [(''code'', Some (JStr ''JSON_PARSE_ERROR'')),
                           (''message'', Some (JStr (response.body res))),
                           (''type'', Some (JStr ''error''))])"
  by (simp add: callAPI_response_def new_CustomError_code_message)

lemma header_body_update: "header (res\<lparr>response.body := b\<rparr>) name = header res name"
  by (simp add: header_def)

lemma callAPI_error_body_update:
  "callAPI_error cfg env (res\<lparr>response.body := b\<rparr>) error = callAPI_error cfg env res error"
  by (cases error) (simp_all add: callAPI_error_def)

lemma callAPI_response_body_update:
  assumes "\<not> raw_result opts"
    and "JSON_parse env (remove_newlines b) = JSON_parse env (remove_newlines (response.body res))"
    and "JSON_parse env (remove_newlines (response.body res)) \<noteq> None"
  shows "callAPI_response cfg env opts (res\<lparr>response.body := b\<rparr>)
           = callAPI_response cfg env opts res"
  using assms by (auto simp: callAPI_response_def callAPI_error_body_update split: option.splits)

lemma retryThrottledRequest_body_update:
  "retryThrottledRequest cfg env answers rp (res\<lparr>response.body := b\<rparr>) st
     = retryThrottledRequest cfg env answers rp res st"
  by (simp add: header_body_update)

lemma callAPI_parsing:
  assumes "callAPI_request cfg env rp st = (Inr (rp1, opts, sc, tok), st1)"
    and "\<not> raw_result opts"
  shows "(statusCode res = 204 \<longrightarrow>
            callAPI cfg env (Inr res # answers) rp st =
              Some (Inr (Value (JObj [(''success'', JBool True)])),
                    log_event (ApiRequest tok rp1) st1))
       \<and> (statusCode res \<noteq> 204 \<and> JSON_parse env (remove_newlines (response.body res)) = None \<longrightarrow>
            callAPI cfg env (Inr res # answers) rp st =
              Some (Inl (CustomError [(''code'', Some (JStr ''JSON_PARSE_ERROR'')),
                                      (''message'', Some (JStr (response.body res))),
                                      (''type'', Some (JStr ''error''))]),
                    log_event (ApiRequest tok rp1) st1))
       \<and> (statusCode res \<noteq> 204 \<longrightarrow>
            (\<forall>b. JSON_parse env (remove_newlines b)
                    = JSON_parse env (remove_newlines (response.body res))
                  \<and> JSON_parse env (remove_newlines (response.body res)) \<noteq> None \<longrightarrow>
                 callAPI cfg env (Inr (res\<lparr>response.body := b\<rparr>) # answers) rp st
                   = callAPI cfg env (Inr res # answers) rp st))"
proof (intro conjI impI allI)
  assume "statusCode res = 204"
  then show "callAPI cfg env (Inr res # answers) rp st =
      Some (Inr (Value (JObj [(''success'', JBool True)])), log_event (ApiRequest tok rp1) st1)"
    unfolding callAPI_dispatch[OF assms(1)]
    by (simp add: callAPI_response_204[OF assms(2)])
next
  assume "statusCode res \<noteq> 204 \<and> JSON_parse env (remove_newlines (response.body res)) = None"
  then show "callAPI cfg env (Inr res # answers) rp st =
      Some (Inl (CustomError [(''code'', Some (JStr ''JSON_PARSE_ERROR'')),
                              (''message'', Some (JStr (response.body res))),
                              (''type'', Some (JStr ''error''))]),
            log_event (ApiRequest tok rp1) st1)"
    unfolding callAPI_dispatch[OF assms(1)]
    by (simp add: callAPI_response_unparseable[OF assms(2)])
next
  fix b
  assume "statusCode res \<noteq> 204"
    and "JSON_parse env (remove_newlines b) = JSON_parse env (remove_newlines (response.body res))
         \<and> JSON_parse env (remove_newlines (response.body res)) \<noteq> None"
  then have "callAPI_response cfg env opts (res\<lparr>response.body := b\<rparr>)
      = callAPI_response cfg env opts res"
    using callAPI_response_body_update[OF assms(2)] by blast
  then show "callAPI cfg env (Inr (res\<lparr>response.body := b\<rparr>) # answers) rp st
      = callAPI cfg env (Inr res # answers) rp st"
    unfolding callAPI_dispatch[OF assms(1)]
    by (simp only: retryThrottledRequest_body_update)
qed

text \<open>
  C7: for a call that reaches the transport and does not ask for the raw result, a
  response with status 204 yields the marker \<^verbatim>\<open>{success: true}\<close> whatever its body and
  whatever \<^verbatim>\<open>JSON.parse\<close> would make of it; for any other status, what is parsed is the
  body without its newline characters (U+000A): a body that does not parse once they
  are removed fails with \<^verbatim>\<open>JSON_PARSE_ERROR\<close> and the body as received as message, two
  bodies that parse to the same value once they are removed have the same outcome,
  and so has a body and the same body with its newline characters removed.
\<close>

theorem C7_response_parsing:
  assumes "callAPI_request cfg env rp st = (Inr (rp1, opts, sc, tok), st1)"
    and "\<not> raw_result opts"
  shows "(statusCode res = 204 \<longrightarrow>
            callAPI cfg env (Inr res # answers) rp st =
              Some (Inr (Value (JObj [(''success'', JBool True)])),
                    log_event (ApiRequest tok rp1) st1))
       \<and> (statusCode res \<noteq> 204
            \<and> JSON_parse env (filter (\<lambda>c. c \<noteq> CHR 0x0A) (response.body res)) = None \<longrightarrow>
            callAPI cfg env (Inr res # answers) rp st =
              Some (Inl (CustomError [(''code'', Some (JStr ''JSON_PARSE_ERROR'')),
                                      (''message'', Some (JStr (response.body res))),
                                      (''type'', Some (JStr ''error''))]),
                    log_event (ApiRequest tok rp1) st1))
       \<and> (statusCode res \<noteq> 204 \<longrightarrow>
            (\<forall>b. JSON_parse env (filter (\<lambda>c. c \<noteq> CHR 0x0A) b)
                    = JSON_parse env (filter (\<lambda>c. c \<noteq> CHR 0x0A) (response.body res))
                  \<and> JSON_parse env (filter (\<lambda>c. c \<noteq> CHR 0x0A) (response.body res)) \<noteq> None \<longrightarrow>
                 callAPI cfg env (Inr (res\<lparr>response.body := b\<rparr>) # answers) rp st
                   = callAPI cfg env (Inr res # answers) rp st))
       \<and> (statusCode res \<noteq> 204
            \<and> JSON_parse env (filter (\<lambda>c. c \<noteq> CHR 0x0A) (response.body res)) \<noteq> None \<longrightarrow>
            callAPI cfg env
                (Inr (res\<lparr>response.body := filter (\<lambda>c. c \<noteq> CHR 0x0A) (response.body res)\<rparr>)
                   # answers) rp st
              = callAPI cfg env (Inr res # answers) rp st)"
proof -
  note p = callAPI_parsing[OF assms, of res answers, unfolded remove_newlines_def]
  have stripped: "callAPI cfg env
        (Inr (res\<lparr>response.body := filter (\<lambda>c. c \<noteq> CHR 0x0A) (response.body res)\<rparr>)
           # answers) rp st
      = callAPI cfg env (Inr res # answers) rp st"
    if "statusCode res \<noteq> 204
        \<and> JSON_parse env (filter (\<lambda>c. c \<noteq> CHR 0x0A) (response.body res)) \<noteq> None"
  proof -
    have "filter (\<lambda>c. c \<noteq> CHR 0x0A) (filter (\<lambda>c. c \<noteq> CHR 0x0A) (response.body res))
        = filter (\<lambda>c. c \<noteq> CHR 0x0A) (response.body res)"
      by simp
    with that p[THEN conjunct2, THEN conjunct2, rule_format,
        of "filter (\<lambda>c. c \<noteq> CHR 0x0A) (response.body res)"]
    show ?thesis by simp
  qed
  from p stripped show ?thesis by blast
qed

lemma ex_request_dispatch:
  "callAPI_request ex_config ex_env ex_request ex_state =
     (Inr (ex_dispatched, empty_options, None, Some (JStr ''Atza|token'')), ex_state)"
  by code_simp

lemma ex_request_dispatch_manual:
  "callAPI_request ex_config_manual ex_env ex_request ex_state =
     (Inr (ex_dispatched, empty_options, None, Some (JStr ''Atza|token'')), ex_state)"
  by code_simp

lemma ex_not_raw: "\<not> raw_result empty_options"
  by (simp add: empty_options_def)

text \<open>
  The theorem on an empty 204 response, on a 502 response whose HTML body has two
  newline characters, which the message of the error keeps, and on a 200 response
  whose body has three newline characters and parses only without them.
\<close>

theorem C7_response_parsing_witness:
  "callAPI ex_config ex_env [Inr (ex_response 204 [] [])] ex_request ex_state =
     Some (Inr (Value (JObj [(''success'', JBool True)])),
           log_event (ApiRequest (Some (JStr ''Atza|token'')) ex_dispatched) ex_state)
   \<and> callAPI ex_config ex_env
         [Inr (ex_response 502 (''<html>'' @ [CHR 0x0A] @ ''Bad Gateway</html>'' @ [CHR 0x0A]) [])]
         ex_request ex_state =
       Some (Inl (CustomError
                   [(''code'', Some (JStr ''JSON_PARSE_ERROR'')),
                    (''message'', Some (JStr (''<html>'' @ [CHR 0x0A] @ ''Bad Gateway</html>''
                                               @ [CHR 0x0A]))),
                    (''type'', Some (JStr ''error''))]),
             log_event (ApiRequest (Some (JStr ''Atza|token'')) ex_dispatched) ex_state)
   \<and> JSON_parse ex_env ex_page_lines_text = None
   \<and> JSON_parse ex_env (filter (\<lambda>c. c \<noteq> CHR 0x0A) ex_page_lines_text) = Some ex_page_json
   \<and> callAPI ex_config ex_env [Inr (ex_response 200 ex_page_lines_text [])]
         ex_request ex_state =
       Some (Inr (Value (JObj [(''nextToken'', JStr ''abc''),
                               (''granularity'', JStr ''Marketplace''),
                               (''inventorySummaries'', JArr [])])),
             log_event (ApiRequest (Some (JStr ''Atza|token'')) ex_dispatched) ex_state)"
proof -
  note t = C7_response_parsing[OF ex_request_dispatch ex_not_raw]
  let ?gw = "''<html>'' @ [CHR 0x0A] @ ''Bad Gateway</html>'' @ [CHR 0x0A]"
  have s1: "statusCode (ex_response 204 [] []) = 204"
    by (simp add: ex_response_def)
  have s2: "statusCode (ex_response 502 ?gw []) \<noteq> 204
      \<and> JSON_parse ex_env (filter (\<lambda>c. c \<noteq> CHR 0x0A)
            (response.body (ex_response 502 ?gw []))) = None"
    by code_simp
  have b: "response.body (ex_response 502 ?gw []) = ?gw"
    by (simp add: ex_response_def)
  from t[of "ex_response 204 [] []" "[]"] s1
  have r1: "callAPI ex_config ex_env [Inr (ex_response 204 [] [])] ex_request ex_state =
     Some (Inr (Value (JObj [(''success'', JBool True)])),
           log_event (ApiRequest (Some (JStr ''Atza|token'')) ex_dispatched) ex_state)"
    by blast
  from t[of "ex_response 502 ?gw []" "[]"] s2
  have "callAPI ex_config ex_env [Inr (ex_response 502 ?gw [])] ex_request ex_state =
       Some (Inl (CustomError [(''code'', Some (JStr ''JSON_PARSE_ERROR'')),
                (''message'', Some (JStr (response.body (ex_response 502 ?gw [])))),
                (''type'', Some (JStr ''error''))]),
             log_event (ApiRequest (Some (JStr ''Atza|token'')) ex_dispatched) ex_state)"
    by blast
  then have r2: "callAPI ex_config ex_env [Inr (ex_response 502 ?gw [])] ex_request ex_state =
       Some (Inl (CustomError [(''code'', Some (JStr ''JSON_PARSE_ERROR'')),
                (''message'', Some (JStr ?gw)),
                (''type'', Some (JStr ''error''))]),
             log_event (ApiRequest (Some (JStr ''Atza|token'')) ex_dispatched) ex_state)"
    unfolding b .
  have p0: "JSON_parse ex_env ex_page_lines_text = None"
    by code_simp
  have p1: "JSON_parse ex_env (filter (\<lambda>c. c \<noteq> CHR 0x0A) ex_page_lines_text)
      = Some ex_page_json"
    by code_simp
  have s3: "statusCode (ex_response 200 ex_page_text []) \<noteq> 204"
    by (simp add: ex_response_def)
  have p2: "JSON_parse ex_env (filter (\<lambda>c. c \<noteq> CHR 0x0A) ex_page_lines_text)
        = JSON_parse ex_env (filter (\<lambda>c. c \<noteq> CHR 0x0A)
            (response.body (ex_response 200 ex_page_text [])))
      \<and> JSON_parse ex_env (filter (\<lambda>c. c \<noteq> CHR 0x0A)
            (response.body (ex_response 200 ex_page_text []))) \<noteq> None"
    by code_simp
  have u: "(ex_response 200 ex_page_text [])\<lparr>response.body := ex_page_lines_text\<rparr>
      = ex_response 200 ex_page_lines_text []"
    by (simp add: ex_response_def)
  have plain: "callAPI ex_config ex_env [Inr (ex_response 200 ex_page_text [])]
         ex_request ex_state =
       Some (Inr (Value (JObj [(''nextToken'', JStr ''abc''),
                               (''granularity'', JStr ''Marketplace''),
                               (''inventorySummaries'', JArr [])])),
             log_event (ApiRequest (Some (JStr ''Atza|token'')) ex_dispatched) ex_state)"
    by code_simp
  from t[of "ex_response 200 ex_page_text []" "[]", THEN conjunct2, THEN conjunct2,
      THEN conjunct1, rule_format, OF s3 p2]
  have r3: "callAPI ex_config ex_env [Inr (ex_response 200 ex_page_lines_text [])]
         ex_request ex_state =
       Some (Inr (Value (JObj [(''nextToken'', JStr ''abc''),
                               (''granularity'', JStr ''Marketplace''),
                               (''inventorySummaries'', JArr [])])),
             log_event (ApiRequest (Some (JStr ''Atza|token'')) ex_dispatched) ex_state)"
    unfolding u plain .
  from r1 r2 p0 p1 r3 show ?thesis
    by (intro conjI)
qed

lemma fold_update_map_of:
  "map_of (fold (\<lambda>(k, v). AList.update k v) src tgt) = map_of tgt ++ map_of (rev src)"
proof (induction src arbitrary: tgt)
  case Nil
  then show ?case by simp
next
  case (Cons kv src)
  obtain k v where kv: "kv = (k, v)" by (cases kv)
  have "map_of (fold (\<lambda>(k, v). AList.update k v) (kv # src) tgt)
      = map_of (AList.update k v tgt) ++ map_of (rev src)"
    by (simp add: kv Cons.IH)
  also have "\<dots> = (map_of tgt)(k \<mapsto> v) ++ map_of (rev src)"
    by (simp add: update_conv')
  also have "\<dots> = map_of tgt ++ map_of (rev (kv # src))"
    by (simp add: kv map_add_def fun_eq_iff split: option.splits)
  finally show ?case .
qed

lemma map_of_rev_distinct:
  "distinct (map fst xs) \<Longrightarrow> map_of (rev xs) = map_of xs"
proof (induction xs)
  case Nil
  then show ?case by simp
next
  case (Cons x xs)
  obtain k v where x: "x = (k, v)" by (cases x)
  from Cons.prems have "map_of xs k = None"
    by (simp add: x map_of_eq_None_iff)
  moreover from Cons have "map_of (rev xs) = map_of xs"
    by simp
  ultimately show ?case
    by (auto simp: x map_add_def fun_eq_iff split: option.splits)
qed

lemma Object_assign_lookup:
  assumes "distinct (map fst src)"
  shows "map_of (Object_assign tgt src) k =
     (case map_of src k of Some v \<Rightarrow> Some v | None \<Rightarrow> map_of tgt k)"
proof -
  have "map_of (rev src) = map_of src"
    using assms by (rule map_of_rev_distinct)
  then show ?thesis
    by (simp add: Object_assign_def fold_update_map_of map_add_def)
qed

lemma callAPI_response_parsed:
  assumes "\<not> raw_result opts" and "statusCode res \<noteq> 204"
    and "JSON_parse env (remove_newlines (response.body res)) = Some j"
    and "j \<noteq> JNull" and "\<not> truthy_opt (errors_length j)"
  shows "callAPI_response cfg env opts res =
     (if truthy_opt (get j ''pagination'') \<and> truthy_opt (get j ''payload'')
      then (case the (get j ''pagination'') of
              JObj pagination \<Rightarrow>
                Return (Value (JObj (Object_assign pagination (own_props (the (get j ''payload''))))))
            | target \<Rightarrow> Return (Assigned target (own_props (the (get j ''payload'')))))
      else if truthy_opt (get j ''payload'')
      then Return (Value (the (get j ''payload'')))
      else Return (Value j))"
  using assms by (simp add: callAPI_response_def)

text \<open>
  C8, as stated: when the body does not carry both a pagination object and a payload
  object, the payload field is returned if present. This fails for a payload that is
  present and falsy: for the body \<^verbatim>\<open>{"payload":0}\<close> line 717 returns the whole parsed
  body, not \<^verbatim>\<open>0\<close>.
\<close>

theorem C8_result_shape_counterexample:
  "JSON_parse ex_env (remove_newlines ex_zero_text) = Some (JObj [(''payload'', JNum (Num 0))])
   \<and> get (JObj [(''payload'', JNum (Num 0))]) ''payload'' = Some (JNum (Num 0))
   \<and> callAPI ex_config ex_env [Inr (ex_response 200 ex_zero_text [])] ex_request ex_state =
       Some (Inr (Value (JObj [(''payload'', JNum (Num 0))])),
             log_event (ApiRequest (Some (JStr ''Atza|token'')) ex_dispatched) ex_state)
   \<and> Value (JObj [(''payload'', JNum (Num 0))]) \<noteq> Value (JNum (Num 0))"
  by code_simp

text \<open>
  C8, amended: for a parsed body that is not \<^verbatim>\<open>null\<close> and has no non-empty
  \<^verbatim>\<open>errors\<close>: if \<^verbatim>\<open>pagination\<close> is an object and \<^verbatim>\<open>payload\<close> is truthy, callAPI returns
  the pagination object with the payload's properties assigned onto it (for a payload
  object with one entry per key, each key has the payload's value if the payload has
  it, else the pagination's); if \<^verbatim>\<open>pagination\<close> or \<^verbatim>\<open>payload\<close> is falsy, callAPI returns
  \<^verbatim>\<open>payload\<close> when it is truthy, else the whole parsed body.
\<close>

theorem C8_result_shape:
  assumes "callAPI_request cfg env rp st = (Inr (rp1, opts, sc, tok), st1)"
    and "\<not> raw_result opts" and "statusCode res \<noteq> 204"
    and "JSON_parse env (remove_newlines (response.body res)) = Some j"
    and "j \<noteq> JNull" and "\<not> truthy_opt (errors_length j)"
  shows "(\<forall>pagination payload.
            get j ''pagination'' = Some (JObj pagination) \<and> get j ''payload'' = Some payload
              \<and> truthy payload \<longrightarrow>
            callAPI cfg env (Inr res # answers) rp st =
              Some (Inr (Value (JObj (Object_assign pagination (own_props payload)))),
                    log_event (ApiRequest tok rp1) st1))
       \<and> (\<forall>kvs k. distinct (map fst kvs) \<longrightarrow>
            map_of (Object_assign pagination0 (own_props (JObj kvs))) k =
              (case map_of kvs k of Some v \<Rightarrow> Some v | None \<Rightarrow> map_of pagination0 k))
       \<and> (\<not> (truthy_opt (get j ''pagination'') \<and> truthy_opt (get j ''payload'')) \<longrightarrow>
            callAPI cfg env (Inr res # answers) rp st =
              Some (Inr (Value (if truthy_opt (get j ''payload'')
                                then the (get j ''payload'') else j)),
                    log_event (ApiRequest tok rp1) st1))"
proof (intro conjI impI allI)
  fix pagination payload
  assume "get j ''pagination'' = Some (JObj pagination) \<and> get j ''payload'' = Some payload
      \<and> truthy payload"
  then show "callAPI cfg env (Inr res # answers) rp st =
      Some (Inr (Value (JObj (Object_assign pagination (own_props payload)))),
            log_event (ApiRequest tok rp1) st1)"
    unfolding callAPI_dispatch[OF assms(1)] callAPI_response_parsed[OF assms(2-6)]
    by (simp add: truthy_opt_def)
next
  fix kvs :: "(string \<times> json) list" and k
  assume "distinct (map fst kvs)"
  then show "map_of (Object_assign pagination0 (own_props (JObj kvs))) k =
      (case map_of kvs k of Some v \<Rightarrow> Some v | None \<Rightarrow> map_of pagination0 k)"
    by (simp add: Object_assign_lookup)
next
  assume "\<not> (truthy_opt (get j ''pagination'') \<and> truthy_opt (get j ''payload''))"
  then show "callAPI cfg env (Inr res # answers) rp st =
      Some (Inr (Value (if truthy_opt (get j ''payload'') then the (get j ''payload'') else j)),
            log_event (ApiRequest tok rp1) st1)"
    unfolding callAPI_dispatch[OF assms(1)] callAPI_response_parsed[OF assms(2-6)]
    by auto
qed

text \<open>
  The theorem on a body with a sibling pagination object, and on the body
  \<^verbatim>\<open>{"payload":0}\<close>.
\<close>

theorem C8_result_shape_witness:
  "callAPI ex_config ex_env [Inr (ex_response 200 ex_page_text [])] ex_request ex_state =
     Some (Inr (Value (JObj [(''nextToken'', JStr ''abc''),
                             (''granularity'', JStr ''Marketplace''),
                             (''inventorySummaries'', JArr [])])),
           log_event (ApiRequest (Some (JStr ''Atza|token'')) ex_dispatched) ex_state)
   \<and> callAPI ex_config ex_env [Inr (ex_response 200 ex_zero_text [])] ex_request ex_state =
       Some (Inr (Value (JObj [(''payload'', JNum (Num 0))])),
             log_event (ApiRequest (Some (JStr ''Atza|token'')) ex_dispatched) ex_state)"
proof -
  let ?page = "ex_response 200 ex_page_text []"
  let ?zero = "ex_response 200 ex_zero_text []"
  have s: "statusCode (ex_response 200 b []) \<noteq> 204" for b
    by (simp add: ex_response_def)
  have p1: "JSON_parse ex_env (remove_newlines (response.body ?page)) = Some ex_page_json"
    unfolding ex_response_def by code_simp
  have p2: "JSON_parse ex_env (remove_newlines (response.body ?zero)) = Some ex_zero_json"
    unfolding ex_response_def by code_simp
  have n1: "ex_page_json \<noteq> JNull" and n2: "ex_zero_json \<noteq> JNull"
    by (simp_all add: ex_page_json_def ex_zero_json_def)
  have e1: "\<not> truthy_opt (errors_length ex_page_json)"
    and e2: "\<not> truthy_opt (errors_length ex_zero_json)"
    by (simp_all add: ex_page_json_def ex_zero_json_def errors_length_def truthy_opt_def)
  have g: "get ex_page_json ''pagination'' = Some (JObj [(''nextToken'', JStr ''abc'')])
      \<and> get ex_page_json ''payload'' =
          Some (JObj [(''granularity'', JStr ''Marketplace''), (''inventorySummaries'', JArr [])])
      \<and> truthy (JObj [(''granularity'', JStr ''Marketplace''), (''inventorySummaries'', JArr [])])"
    by (simp add: ex_page_json_def)
  from C8_result_shape[OF ex_request_dispatch ex_not_raw s p1 n1 e1, of "[]"] g
  have "callAPI ex_config ex_env [Inr ?page] ex_request ex_state =
      Some (Inr (Value (JObj (Object_assign [(''nextToken'', JStr ''abc'')]
              (own_props (JObj [(''granularity'', JStr ''Marketplace''),
                                (''inventorySummaries'', JArr [])]))))),
            log_event (ApiRequest (Some (JStr ''Atza|token'')) ex_dispatched) ex_state)"
    by blast
  moreover have "Object_assign [(''nextToken'', JStr ''abc'')]
      (own_props (JObj [(''granularity'', JStr ''Marketplace''), (''inventorySummaries'', JArr [])]))
    = [(''nextToken'', JStr ''abc''), (''granularity'', JStr ''Marketplace''),
       (''inventorySummaries'', JArr [])]"
    by (simp add: Object_assign_def)
  ultimately have r1: "callAPI ex_config ex_env [Inr ?page] ex_request ex_state =
      Some (Inr (Value (JObj [(''nextToken'', JStr ''abc''),
                              (''granularity'', JStr ''Marketplace''),
                              (''inventorySummaries'', JArr [])])),
            log_event (ApiRequest (Some (JStr ''Atza|token'')) ex_dispatched) ex_state)"
    by simp
  have f: "\<not> (truthy_opt (get ex_zero_json ''pagination'')
      \<and> truthy_opt (get ex_zero_json ''payload''))"
    by (simp add: ex_zero_json_def truthy_opt_def)
  from C8_result_shape[OF ex_request_dispatch ex_not_raw s p2 n2 e2, of _ "[]"] f
  have "callAPI ex_config ex_env [Inr ?zero] ex_request ex_state =
      Some (Inr (Value (if truthy_opt (get ex_zero_json ''payload'')
                        then the (get ex_zero_json ''payload'') else ex_zero_json)),
            log_event (ApiRequest (Some (JStr ''Atza|token'')) ex_dispatched) ex_state)"
    by blast
  then have r2: "callAPI ex_config ex_env [Inr ?zero] ex_request ex_state =
      Some (Inr (Value (JObj [(''payload'', JNum (Num 0))])),
            log_event (ApiRequest (Some (JStr ''Atza|token'')) ex_dispatched) ex_state)"
    by (simp add: ex_zero_json_def truthy_opt_def)
  from r1 r2 show ?thesis by (rule conjI)
qed

section \<open>Throttling and expired tokens (C3, C4)\<close>

lemma js_mul_one: "js_mul x (Num 1) = x"
  by (cases x) simp_all

lemma first_error:
  assumes "JSON_parse env (remove_newlines (response.body res)) = Some (JObj kvs)"
    and "map_of kvs ''errors'' = Some (JArr (err # errs))"
    and "\<not> raw_result opts" and "statusCode res \<noteq> 204"
  shows "callAPI_response cfg env opts res = callAPI_error cfg env res (Some err)"
  using assms by (simp add: callAPI_response_def errors_length_def truthy_opt_def)

lemma callAPI_error_throttled:
  assumes "statusCode res = 429" and "get err ''code'' = Some (JStr ''QuotaExceeded'')"
    and "auto_request_throttled (sp_config.options cfg)"
  shows "callAPI_error cfg env res (Some err) = ThrottledRecall"
proof -
  from assms(2) have "err \<noteq> JNull" by auto
  with assms show ?thesis by (simp add: callAPI_error_def)
qed

lemma retry_with_header:
  assumes "header res ''x-amzn-ratelimit-limit'' = Some h" and "h \<noteq> []"
  shows "retryThrottledRequest cfg env answers rp res st =
     callAPI cfg env answers rp (log_event (Wait (js_div (Num 1) (String_toNumber env h))) st)"
  using assms by (simp add: truthy_str_def js_mul_one)

lemma retry_with_restore_rate:
  assumes "\<not> truthy_str (header res ''x-amzn-ratelimit-limit'')"
    and "req_params.restore_rate rp = Some r" and "truthy_num r"
  shows "retryThrottledRequest cfg env answers rp res st =
     callAPI cfg env answers rp (log_event (Wait r) st)"
  using assms by (simp add: truthy_num_opt_def)

lemma retry_without_delay:
  assumes "\<not> truthy_str (header res ''x-amzn-ratelimit-limit'')"
    and "\<not> truthy_num_opt (req_params.restore_rate rp)"
  shows "retryThrottledRequest cfg env answers rp res st = callAPI cfg env answers rp st"
  using assms by simp

lemma ex_quota_parsed:
  "JSON_parse ex_env (remove_newlines (response.body (ex_response 429 ex_quota_text hs)))
     = Some (JObj [(''errors'', JArr [JObj
         [(''code'', JStr ''QuotaExceeded''),
          (''message'', JStr ''You exceeded your quota for the requested resource.''),
          (''details'', JStr [])]])])"
  unfolding ex_response_def by code_simp

text \<open>
  C3, as stated: a header that is not numeric falls back to the operation's
  \<^verbatim>\<open>restore_rate\<close>. This fails: lines 511 to 515 test the header for truthiness only, so
  with the header \<^verbatim>\<open>abc\<close> and a restore rate of 0.5 the delay passed to the wait is
  \<open>1 / NaN = NaN\<close>, not 0.5.
\<close>

theorem C3_throttle_delay_counterexample:
  "ex_toNumber ''abc'' = NaN
   \<and> req_params.restore_rate ex_dispatched = Some (Num (1 / 2))
   \<and> waits (callAPI ex_config ex_env
         [Inr (ex_response 429 ex_quota_text [(''x-amzn-ratelimit-limit'', ''abc'')]),
          Inr (ex_response 204 [] [])] ex_request ex_state) = [NaN]"
  by code_simp

text \<open>
  C3, amended: on a 429 response whose first error has the code \<^verbatim>\<open>QuotaExceeded\<close>, with
  automatic retry enabled, callAPI is entered again with the request just sent, after
  a wait of \<open>1 / Number(header)\<close> seconds whenever the header
  \<^verbatim>\<open>x-amzn-ratelimit-limit\<close> is present and not empty (\<open>1 / v\<close> for a header that reads as
  the number \<open>v \<noteq> 0\<close>, so 0.5 seconds for the value 2), else after a wait of the
  request's \<^verbatim>\<open>restore_rate\<close> when that is set and truthy, and without a wait when neither
  is available.
\<close>

theorem C3_throttle_delay:
  assumes "callAPI_request cfg env rp st = (Inr (rp1, opts, sc, tok), st1)"
    and "\<not> raw_result opts" and "statusCode res = 429"
    and "JSON_parse env (remove_newlines (response.body res)) = Some (JObj kvs)"
    and "map_of kvs ''errors'' = Some (JArr (err # errs))"
    and "get err ''code'' = Some (JStr ''QuotaExceeded'')"
    and "auto_request_throttled (sp_config.options cfg)"
  shows "(\<forall>h. header res ''x-amzn-ratelimit-limit'' = Some h \<and> h \<noteq> [] \<longrightarrow>
            callAPI cfg env (Inr res # answers) rp st =
              callAPI cfg env answers rp1
                (log_event (Wait (js_div (Num 1) (String_toNumber env h)))
                   (log_event (ApiRequest tok rp1) st1)))
       \<and> (\<forall>h v. header res ''x-amzn-ratelimit-limit'' = Some h \<and> h \<noteq> []
               \<and> String_toNumber env h = Num v \<and> v \<noteq> 0 \<longrightarrow>
            callAPI cfg env (Inr res # answers) rp st =
              callAPI cfg env answers rp1
                (log_event (Wait (Num (1 / v))) (log_event (ApiRequest tok rp1) st1)))
       \<and> (\<forall>r. \<not> truthy_str (header res ''x-amzn-ratelimit-limit'')
               \<and> req_params.restore_rate rp1 = Some r \<and> truthy_num r \<longrightarrow>
            callAPI cfg env (Inr res # answers) rp st =
              callAPI cfg env answers rp1
                (log_event (Wait r) (log_event (ApiRequest tok rp1) st1)))
       \<and> (\<not> truthy_str (header res ''x-amzn-ratelimit-limit'')
               \<and> \<not> truthy_num_opt (req_params.restore_rate rp1) \<longrightarrow>
            callAPI cfg env (Inr res # answers) rp st =
              callAPI cfg env answers rp1 (log_event (ApiRequest tok rp1) st1))"
proof -
  from assms(3) have s: "statusCode res \<noteq> 204" by simp
  have r: "callAPI_response cfg env opts res = ThrottledRecall"
    unfolding first_error[OF assms(4,5,2) s]
    by (rule callAPI_error_throttled[OF assms(3,6,7)])
  have d: "callAPI cfg env (Inr res # answers) rp st =
      retryThrottledRequest cfg env answers rp1 res (log_event (ApiRequest tok rp1) st1)"
    unfolding callAPI_dispatch[OF assms(1)] r by simp
  show ?thesis
    unfolding d
    using retry_with_header[of res _ cfg env answers rp1]
      retry_with_restore_rate[of res rp1 _ cfg env answers]
      retry_without_delay[of res rp1 cfg env answers]
    by (auto simp del: retryThrottledRequest.simps)
qed

text \<open>
  The theorem on the example request: the header value 2 gives a wait of 0.5 seconds,
  no header gives the builder's restore rate, and a request by raw path, which has no
  restore rate, is sent again without a wait.
\<close>

theorem C3_throttle_delay_witness:
  "waits (callAPI ex_config ex_env
      [Inr (ex_response 429 ex_quota_text [(''x-amzn-ratelimit-limit'', ''2'')]),
       Inr (ex_response 204 [] [])] ex_request ex_state) = [Num (1 / 2)]
   \<and> waits (callAPI ex_config ex_env
      [Inr (ex_response 429 ex_quota_text []), Inr (ex_response 204 [] [])]
      ex_request ex_state) = [Num (1 / 2)]
   \<and> waits (callAPI ex_config ex_env
      [Inr (ex_response 429 ex_quota_text []), Inr (ex_response 204 [] [])]
      (ex_request\<lparr>operation := None, api_path := Some ''/mfn/v0/shipments'',
                   req_params.http_method := Some ''post''\<rparr>) ex_state) = []"
proof -
  let ?err = "JObj [(''code'', JStr ''QuotaExceeded''),
          (''message'', JStr ''You exceeded your quota for the requested resource.''),
          (''details'', JStr [])]"
  let ?r2 = "ex_response 429 ex_quota_text [(''x-amzn-ratelimit-limit'', ''2'')]"
  let ?r0 = "ex_response 429 ex_quota_text []"
  let ?ok = "ex_response 204 [] []"
  let ?raw = "ex_request\<lparr>operation := None, api_path := Some ''/mfn/v0/shipments'',
                   req_params.http_method := Some ''post''\<rparr>"
  let ?rawd = "?raw\<lparr>req_params.http_method := Some ''POST'', req_params.timeouts := Some []\<rparr>"
  have e: "map_of [(''errors'', JArr [?err])] ''errors'' = Some (JArr (?err # []))"
    by simp
  have c: "get ?err ''code'' = Some (JStr ''QuotaExceeded'')"
    by simp
  have a: "auto_request_throttled (sp_config.options ex_config)"
    by (simp add: ex_config_def ex_options_def)
  have s: "statusCode (ex_response 429 ex_quota_text hs) = 429" for hs
    by (simp add: ex_response_def)
  note t2 = C3_throttle_delay[OF ex_request_dispatch ex_not_raw s ex_quota_parsed e c a,
      of "[(''x-amzn-ratelimit-limit'', ''2'')]" "[Inr ?ok]"]
  note t0 = C3_throttle_delay[OF ex_request_dispatch ex_not_raw s ex_quota_parsed e c a,
      of "[]" "[Inr ?ok]"]
  have h2: "header ?r2 ''x-amzn-ratelimit-limit'' = Some ''2'' \<and> ''2'' \<noteq> []
      \<and> String_toNumber ex_env ''2'' = Num 2 \<and> (2 :: rat) \<noteq> 0"
    by code_simp
  from t2 h2 have "callAPI ex_config ex_env [Inr ?r2, Inr ?ok] ex_request ex_state =
      callAPI ex_config ex_env [Inr ?ok] ex_dispatched
        (log_event (Wait (Num (1 / 2)))
           (log_event (ApiRequest (Some (JStr ''Atza|token'')) ex_dispatched) ex_state))"
    by blast
  moreover have "waits (callAPI ex_config ex_env [Inr ?ok] ex_dispatched
        (log_event (Wait (Num (1 / 2)))
           (log_event (ApiRequest (Some (JStr ''Atza|token'')) ex_dispatched) ex_state)))
      = [Num (1 / 2)]"
    by code_simp
  ultimately have w2: "waits (callAPI ex_config ex_env [Inr ?r2, Inr ?ok] ex_request ex_state)
      = [Num (1 / 2)]"
    by simp
  have h0: "\<not> truthy_str (header ?r0 ''x-amzn-ratelimit-limit'')
      \<and> req_params.restore_rate ex_dispatched = Some (Num (1 / 2)) \<and> truthy_num (Num (1 / 2))"
    by code_simp
  from t0 h0 have "callAPI ex_config ex_env [Inr ?r0, Inr ?ok] ex_request ex_state =
      callAPI ex_config ex_env [Inr ?ok] ex_dispatched
        (log_event (Wait (Num (1 / 2)))
           (log_event (ApiRequest (Some (JStr ''Atza|token'')) ex_dispatched) ex_state))"
    by blast
  moreover have "waits (callAPI ex_config ex_env [Inr ?ok] ex_dispatched
        (log_event (Wait (Num (1 / 2)))
           (log_event (ApiRequest (Some (JStr ''Atza|token'')) ex_dispatched) ex_state)))
      = [Num (1 / 2)]"
    by code_simp
  ultimately have w0: "waits (callAPI ex_config ex_env [Inr ?r0, Inr ?ok] ex_request ex_state)
      = [Num (1 / 2)]"
    by simp
  have rawq: "callAPI_request ex_config ex_env ?raw ex_state =
      (Inr (?rawd, empty_options, None, Some (JStr ''Atza|token'')), ex_state)"
    by code_simp
  note tn = C3_throttle_delay[OF rawq ex_not_raw s ex_quota_parsed e c a, of "[]" "[Inr ?ok]"]
  have hn: "\<not> truthy_str (header ?r0 ''x-amzn-ratelimit-limit'')
      \<and> \<not> truthy_num_opt (req_params.restore_rate ?rawd)"
    by code_simp
  from tn hn have "callAPI ex_config ex_env [Inr ?r0, Inr ?ok] ?raw ex_state =
      callAPI ex_config ex_env [Inr ?ok] ?rawd
        (log_event (ApiRequest (Some (JStr ''Atza|token'')) ?rawd) ex_state)"
    by blast
  moreover have "waits (callAPI ex_config ex_env [Inr ?ok] ?rawd
        (log_event (ApiRequest (Some (JStr ''Atza|token'')) ?rawd) ex_state)) = []"
    by code_simp
  ultimately have wn: "waits (callAPI ex_config ex_env [Inr ?r0, Inr ?ok] ?raw ex_state) = []"
    by simp
  from w2 w0 wn show ?thesis by blast
qed

lemma callAPI_request_scope:
  assumes "callAPI_request cfg env rp st = (Inr (rp1, opts, sc, tok), st1)"
  shows "sc = scope rp1"
  using assms
  by (auto simp: callAPI_request_def Let_def split: sum.splits prod.splits if_splits)

lemma callAPI_error_expired:
  assumes "statusCode res = 403" and "get err ''code'' = Some (JStr ''Unauthorized'')"
    and "get err ''details'' = Some (JStr d)" and "access_token_expired_test d"
  shows "callAPI_error cfg env res (Some err) =
     (if auto_request_tokens (sp_config.options cfg)
      then RefreshAndRecall
      else Throw (CustomError
             [(''code'', Some (JStr ''ACCESS_TOKEN_EXPIRED'')),
              (''message'', or_else (get err ''details'') (get err ''message'')),
              (''type'', Some (JStr ''error''))]))"
proof -
  from assms(2) have "err \<noteq> JNull" by auto
  with assms show ?thesis
    by (simp add: callAPI_error_def ToString_opt_def new_CustomError_code_message)
qed

lemma ex_expired_parsed:
  "JSON_parse ex_env (remove_newlines (response.body (ex_response 403 ex_expired_text hs)))
     = Some (JObj [(''errors'', JArr [JObj
         [(''code'', JStr ''Unauthorized''),
          (''message'', JStr ''Access to requested resource is denied.''),
          (''details'', JStr ''The access token you provided has expired.'')]])])"
  unfolding ex_response_def by code_simp

text \<open>
  C4, as stated: the test is on the message of the error. This fails: line 672 tests
  \<^verbatim>\<open>error.details\<close>. For a first error with the code \<^verbatim>\<open>Unauthorized\<close> whose \<^verbatim>\<open>message\<close>
  matches and which has no \<^verbatim>\<open>details\<close>, callAPI fails with \<^verbatim>\<open>UNAUTHORIZED\<close>: with
  automatic token requests disabled it does not fail with \<^verbatim>\<open>ACCESS_TOKEN_EXPIRED\<close>, and
  with them enabled it neither refreshes the token nor sends the request again.
\<close>

theorem C4_expired_token_counterexample:
  "JSON_parse ex_env ex_expired_message_text =
     Some (JObj [(''errors'', JArr [JObj
       [(''code'', JStr ''Unauthorized''),
        (''message'', JStr ''The access token you provided has expired.'')]])])
   \<and> access_token_expired_test ''The access token you provided has expired.''
   \<and> callAPI ex_config_manual ex_env [Inr (ex_response 403 ex_expired_message_text [])]
        ex_request ex_state =
       Some (Inl (CustomError
               [(''code'', Some (JStr ''UNAUTHORIZED'')),
                (''message'', Some (JStr ''The access token you provided has expired.'')),
                (''type'', Some (JStr ''error''))]),
             log_event (ApiRequest (Some (JStr ''Atza|token'')) ex_dispatched) ex_state)
   \<and> callAPI ex_config ex_env
        [Inr (ex_response 403 ex_expired_message_text []), Inr (ex_response 204 [] [])]
        ex_request ex_state =
       Some (Inl (CustomError
               [(''code'', Some (JStr ''UNAUTHORIZED'')),
                (''message'', Some (JStr ''The access token you provided has expired.'')),
                (''type'', Some (JStr ''error''))]),
             log_event (ApiRequest (Some (JStr ''Atza|token'')) ex_dispatched) ex_state)"
  by code_simp

text \<open>
  C4, amended: on a 403 response whose first error has the code \<^verbatim>\<open>Unauthorized\<close> and
  whose \<^verbatim>\<open>details\<close> match \<^verbatim>\<open>access token.*expired\<close>: with automatic token requests
  enabled, callAPI refreshes the token for the scope of the request and is entered
  again with the request just sent (an error of the refresh is the error of the call);
  with automatic token requests disabled it fails with \<^verbatim>\<open>ACCESS_TOKEN_EXPIRED\<close>.
\<close>

theorem C4_expired_token:
  assumes "callAPI_request cfg env rp st = (Inr (rp1, opts, sc, tok), st1)"
    and "\<not> raw_result opts" and "statusCode res = 403"
    and "JSON_parse env (remove_newlines (response.body res)) = Some (JObj kvs)"
    and "map_of kvs ''errors'' = Some (JArr (err # errs))"
    and "get err ''code'' = Some (JStr ''Unauthorized'')"
    and "get err ''details'' = Some (JStr d)" and "access_token_expired_test d"
  shows "sc = scope rp1
       \<and> (auto_request_tokens (sp_config.options cfg) \<longrightarrow>
            callAPI cfg env (Inr res # answers) rp st =
              (case refreshAccessToken cfg env sc (log_event (ApiRequest tok rp1) st1) of
                 (Inl e, st3) \<Rightarrow> Some (Inl e, st3)
               | (Inr u, st3) \<Rightarrow> callAPI cfg env answers rp1 st3))
       \<and> (\<not> auto_request_tokens (sp_config.options cfg) \<longrightarrow>
            callAPI cfg env (Inr res # answers) rp st =
              Some (Inl (CustomError
                      [(''code'', Some (JStr ''ACCESS_TOKEN_EXPIRED'')),
                       (''message'', or_else (get err ''details'') (get err ''message'')),
                       (''type'', Some (JStr ''error''))]),
                    log_event (ApiRequest tok rp1) st1))"
proof -
  from assms(3) have s: "statusCode res \<noteq> 204" by simp
  have r: "callAPI_response cfg env opts res =
     (if auto_request_tokens (sp_config.options cfg)
      then RefreshAndRecall
      else Throw (CustomError
             [(''code'', Some (JStr ''ACCESS_TOKEN_EXPIRED'')),
              (''message'', or_else (get err ''details'') (get err ''message'')),
              (''type'', Some (JStr ''error''))]))"
    unfolding first_error[OF assms(4,5,2) s]
    by (rule callAPI_error_expired[OF assms(3,6,7,8)])
  show ?thesis
    unfolding callAPI_dispatch[OF assms(1)] r
    using callAPI_request_scope[OF assms(1)] by simp
qed

text \<open>
  The theorem on a response whose \<^verbatim>\<open>details\<close> say that the access token has expired:
  the token is refreshed and the second request carries the new token; with automatic
  token requests disabled the call fails with \<^verbatim>\<open>ACCESS_TOKEN_EXPIRED\<close>.
\<close>

theorem C4_expired_token_witness:
  "callAPI ex_config ex_env
      [Inr (ex_response 403 ex_expired_text []), Inr (ex_response 204 [] [])]
      ex_request ex_state =
     Some (Inr (Value (JObj [(''success'', JBool True)])),
           log_event (ApiRequest (Some (JStr ''Atza|new'')) ex_dispatched)
             (log_event (Execute (token_request ''[json]'' ex_state))
               (log_event (ApiRequest (Some (JStr ''Atza|token'')) ex_dispatched) ex_state)
                 \<lparr>executed := 1, access_token := Some (JStr ''Atza|new'')\<rparr>))
   \<and> callAPI ex_config_manual ex_env [Inr (ex_response 403 ex_expired_text [])]
        ex_request ex_state =
       Some (Inl (CustomError
               [(''code'', Some (JStr ''ACCESS_TOKEN_EXPIRED'')),
                (''message'', Some (JStr ''The access token you provided has expired.'')),
                (''type'', Some (JStr ''error''))]),
             log_event (ApiRequest (Some (JStr ''Atza|token'')) ex_dispatched) ex_state)"
proof -
  let ?err = "JObj [(''code'', JStr ''Unauthorized''),
          (''message'', JStr ''Access to requested resource is denied.''),
          (''details'', JStr ''The access token you provided has expired.'')]"
  let ?r = "ex_response 403 ex_expired_text []"
  let ?ok = "ex_response 204 [] []"
  let ?st2 = "log_event (ApiRequest (Some (JStr ''Atza|token'')) ex_dispatched) ex_state"
  have e: "map_of [(''errors'', JArr [?err])] ''errors'' = Some (JArr (?err # []))"
    by simp
  have c: "get ?err ''code'' = Some (JStr ''Unauthorized'')"
    by simp
  have d: "get ?err ''details'' = Some (JStr ''The access token you provided has expired.'')"
    by simp
  have m: "access_token_expired_test ''The access token you provided has expired.''"
    by code_simp
  have s: "statusCode ?r = 403"
    by (simp add: ex_response_def)
  have on: "auto_request_tokens (sp_config.options ex_config)"
    by (simp add: ex_config_def ex_options_def)
  have off: "\<not> auto_request_tokens (sp_config.options ex_config_manual)"
    by (simp add: ex_config_manual_def ex_config_def ex_options_def)
  from C4_expired_token[OF ex_request_dispatch ex_not_raw s ex_expired_parsed e c d m,
      of "[Inr ?ok]"] on
  have "callAPI ex_config ex_env [Inr ?r, Inr ?ok] ex_request ex_state =
      (case refreshAccessToken ex_config ex_env None ?st2 of
         (Inl e, st3) \<Rightarrow> Some (Inl e, st3)
       | (Inr u, st3) \<Rightarrow> callAPI ex_config ex_env [Inr ?ok] ex_dispatched st3)"
    by blast
  also have "\<dots> = Some (Inr (Value (JObj [(''success'', JBool True)])),
           log_event (ApiRequest (Some (JStr ''Atza|new'')) ex_dispatched)
             (log_event (Execute (token_request ''[json]'' ex_state))
               (log_event (ApiRequest (Some (JStr ''Atza|token'')) ex_dispatched) ex_state)
                 \<lparr>executed := 1, access_token := Some (JStr ''Atza|new'')\<rparr>))"
    by code_simp
  finally have auto: "callAPI ex_config ex_env [Inr ?r, Inr ?ok] ex_request ex_state =
      Some (Inr (Value (JObj [(''success'', JBool True)])),
           log_event (ApiRequest (Some (JStr ''Atza|new'')) ex_dispatched)
             (log_event (Execute (token_request ''[json]'' ex_state))
               (log_event (ApiRequest (Some (JStr ''Atza|token'')) ex_dispatched) ex_state)
                 \<lparr>executed := 1, access_token := Some (JStr ''Atza|new'')\<rparr>))" .
  from C4_expired_token[OF ex_request_dispatch_manual ex_not_raw s ex_expired_parsed e c d m,
      of "[]"] off
  have "callAPI ex_config_manual ex_env [Inr ?r] ex_request ex_state =
      Some (Inl (CustomError
               [(''code'', Some (JStr ''ACCESS_TOKEN_EXPIRED'')),
                (''message'', or_else (get ?err ''details'') (get ?err ''message'')),
                (''type'', Some (JStr ''error''))]), ?st2)"
    by blast
  moreover have "or_else (get ?err ''details'') (get ?err ''message'')
      = Some (JStr ''The access token you provided has expired.'')"
    by (simp add: or_else_def truthy_opt_def)
  ultimately have manual: "callAPI ex_config_manual ex_env [Inr ?r] ex_request ex_state =
      Some (Inl (CustomError
               [(''code'', Some (JStr ''ACCESS_TOKEN_EXPIRED'')),
                (''message'', Some (JStr ''The access token you provided has expired.'')),
                (''type'', Some (JStr ''error''))]), ?st2)"
    by simp
  from auto manual show ?thesis by (rule conjI)
qed

section \<open>Token refresh (C9)\<close>

lemma refreshAccessToken_body_error:
  "constructRefreshAccessTokenBody cfg env sc = Inl e \<Longrightarrow>
     refreshAccessToken cfg env sc st = (Inl e, st)"
  by (simp add: refreshAccessToken_def)

lemma refreshAccessToken_success:
  assumes "constructRefreshAccessTokenBody cfg env sc = Inr b"
    and "execute env (token_request b st) (executed st) = Inr res"
    and "JSON_parse env (response.body res) = Some j"
    and "get j ''access_token'' = Some t" and "truthy t"
  shows "refreshAccessToken cfg env sc st =
     (Inr (),
      (if \<not> truthy_str sc
       then (log_event (Execute (token_request b st)) (st\<lparr>executed := Suc (executed st)\<rparr>))
              \<lparr>access_token := Some t\<rparr>
       else (log_event (Execute (token_request b st)) (st\<lparr>executed := Suc (executed st)\<rparr>))
              \<lparr>grantless_tokens := AList.update (the sc) t (grantless_tokens st)\<rparr>))"
proof -
  from assms(4) have "j \<noteq> JNull" by auto
  with assms show ?thesis
    by (simp add: refreshAccessToken_def request_execute_def token_request_def truthy_opt_def
        log_event_def)
qed

text \<open>
  C9: without a scope the body of the token request has
  \<^verbatim>\<open>grant_type = refresh_token\<close> and the stored refresh token, and the refresh fails with
  \<^verbatim>\<open>NO_SCOPE_PROVIDED\<close> when the client is configured for grantless operations only;
  with a scope the body has \<^verbatim>\<open>grant_type = client_credentials\<close> and that scope, and the
  refresh fails with \<^verbatim>\<open>INVALID_SCOPE_ERROR\<close> whenever the scope is not one of the two
  valid scopes; when the token endpoint answers with a truthy \<^verbatim>\<open>access_token\<close>, the
  refresh returns and the token is stored in the default slot (no scope) or under the
  scope (scope given), the other slot unchanged.
\<close>

theorem C9_token_refresh:
  "(\<not> truthy_str sc \<and> \<not> only_grantless_operations (sp_config.options cfg) \<longrightarrow>
      constructRefreshAccessTokenBody cfg env sc =
        Inr (JSON_stringify env (JObj (defined_props
          [(''client_id'', Some (JStr (app_client_id (credentials cfg)))),
           (''client_secret'', Some (JStr (app_client_secret (credentials cfg)))),
           (''grant_type'', Some (JStr ''refresh_token'')),
           (''refresh_token'', map_option JStr (refresh_token cfg))]))))
   \<and> (\<not> truthy_str sc \<and> only_grantless_operations (sp_config.options cfg) \<longrightarrow>
        (\<exists>m. refreshAccessToken cfg env sc st =
           (Inl (CustomError [(''code'', Some (JStr ''NO_SCOPE_PROVIDED'')), (''message'', m),
                              (''type'', Some (JStr ''error''))]), st)))
   \<and> (truthy_str sc \<and> the sc \<in> set valid_scopes \<longrightarrow>
        constructRefreshAccessTokenBody cfg env sc =
          Inr (JSON_stringify env (JObj
            [(''client_id'', JStr (app_client_id (credentials cfg))),
             (''client_secret'', JStr (app_client_secret (credentials cfg))),
             (''grant_type'', JStr ''client_credentials''),
             (''scope'', JStr (the sc))])))
   \<and> (truthy_str sc \<and> the sc \<notin> set valid_scopes \<longrightarrow>
        (\<exists>m. refreshAccessToken cfg env sc st =
           (Inl (CustomError [(''code'', Some (JStr ''INVALID_SCOPE_ERROR'')), (''message'', m),
                              (''type'', Some (JStr ''error''))]), st)))
   \<and> (\<forall>b res j t r0.
         constructRefreshAccessTokenBody cfg env sc = Inr b
           \<and> execute env (token_request b st) (executed st) = Inr res
           \<and> JSON_parse env (response.body res) = Some j
           \<and> get j ''access_token'' = Some t \<and> truthy t
           \<and> refreshAccessToken cfg env sc st = r0 \<longrightarrow>
         fst r0 = Inr ()
           \<and> (\<not> truthy_str sc \<longrightarrow>
                 access_token (snd r0) = Some t
                   \<and> grantless_tokens (snd r0) = grantless_tokens st)
           \<and> (truthy_str sc \<longrightarrow>
                 map_of (grantless_tokens (snd r0)) (the sc) = Some t
                   \<and> access_token (snd r0) = access_token st))"
proof -
  have p1: "\<not> truthy_str sc \<and> \<not> only_grantless_operations (sp_config.options cfg) \<longrightarrow>
      constructRefreshAccessTokenBody cfg env sc =
        Inr (JSON_stringify env (JObj (defined_props
          [(''client_id'', Some (JStr (app_client_id (credentials cfg)))),
           (''client_secret'', Some (JStr (app_client_secret (credentials cfg)))),
           (''grant_type'', Some (JStr ''refresh_token'')),
           (''refresh_token'', map_option JStr (refresh_token cfg))])))"
    by (simp add: constructRefreshAccessTokenBody_def)
  have p2: "\<not> truthy_str sc \<and> only_grantless_operations (sp_config.options cfg) \<longrightarrow>
        (\<exists>m. refreshAccessToken cfg env sc st =
           (Inl (CustomError [(''code'', Some (JStr ''NO_SCOPE_PROVIDED'')), (''message'', m),
                              (''type'', Some (JStr ''error''))]), st))"
  proof
    assume "\<not> truthy_str sc \<and> only_grantless_operations (sp_config.options cfg)"
    then have "\<exists>m. constructRefreshAccessTokenBody cfg env sc =
        Inl (CustomError [(''code'', Some (JStr ''NO_SCOPE_PROVIDED'')), (''message'', m),
                          (''type'', Some (JStr ''error''))])"
      by (simp add: constructRefreshAccessTokenBody_def new_CustomError_code_message)
    then show "\<exists>m. refreshAccessToken cfg env sc st =
        (Inl (CustomError [(''code'', Some (JStr ''NO_SCOPE_PROVIDED'')), (''message'', m),
                           (''type'', Some (JStr ''error''))]), st)"
      using refreshAccessToken_body_error by blast
  qed
  have p3: "truthy_str sc \<and> the sc \<in> set valid_scopes \<longrightarrow>
        constructRefreshAccessTokenBody cfg env sc =
          Inr (JSON_stringify env (JObj
            [(''client_id'', JStr (app_client_id (credentials cfg))),
             (''client_secret'', JStr (app_client_secret (credentials cfg))),
             (''grant_type'', JStr ''client_credentials''),
             (''scope'', JStr (the sc))]))"
    by (simp add: constructRefreshAccessTokenBody_def defined_props_def)
  have p4: "truthy_str sc \<and> the sc \<notin> set valid_scopes \<longrightarrow>
        (\<exists>m. refreshAccessToken cfg env sc st =
           (Inl (CustomError [(''code'', Some (JStr ''INVALID_SCOPE_ERROR'')), (''message'', m),
                              (''type'', Some (JStr ''error''))]), st))"
  proof
    assume "truthy_str sc \<and> the sc \<notin> set valid_scopes"
    then have "\<exists>m. constructRefreshAccessTokenBody cfg env sc =
        Inl (CustomError [(''code'', Some (JStr ''INVALID_SCOPE_ERROR'')), (''message'', m),
                          (''type'', Some (JStr ''error''))])"
      by (simp add: constructRefreshAccessTokenBody_def new_CustomError_code_message)
    then show "\<exists>m. refreshAccessToken cfg env sc st =
        (Inl (CustomError [(''code'', Some (JStr ''INVALID_SCOPE_ERROR'')), (''message'', m),
                           (''type'', Some (JStr ''error''))]), st)"
      using refreshAccessToken_body_error by blast
  qed
  have p5: "\<forall>b res j t r0.
         constructRefreshAccessTokenBody cfg env sc = Inr b
           \<and> execute env (token_request b st) (executed st) = Inr res
           \<and> JSON_parse env (response.body res) = Some j
           \<and> get j ''access_token'' = Some t \<and> truthy t
           \<and> refreshAccessToken cfg env sc st = r0 \<longrightarrow>
         fst r0 = Inr ()
           \<and> (\<not> truthy_str sc \<longrightarrow>
                 access_token (snd r0) = Some t
                   \<and> grantless_tokens (snd r0) = grantless_tokens st)
           \<and> (truthy_str sc \<longrightarrow>
                 map_of (grantless_tokens (snd r0)) (the sc) = Some t
                   \<and> access_token (snd r0) = access_token st)"
  proof (intro allI impI)
    fix b res j t r0
    assume a: "constructRefreshAccessTokenBody cfg env sc = Inr b
           \<and> execute env (token_request b st) (executed st) = Inr res
           \<and> JSON_parse env (response.body res) = Some j
           \<and> get j ''access_token'' = Some t \<and> truthy t
           \<and> refreshAccessToken cfg env sc st = r0"
    then have r: "r0 = (Inr (),
      (if \<not> truthy_str sc
       then (log_event (Execute (token_request b st)) (st\<lparr>executed := Suc (executed st)\<rparr>))
              \<lparr>access_token := Some t\<rparr>
       else (log_event (Execute (token_request b st)) (st\<lparr>executed := Suc (executed st)\<rparr>))
              \<lparr>grantless_tokens := AList.update (the sc) t (grantless_tokens st)\<rparr>))"
      using refreshAccessToken_success[of cfg env sc b st res j t] by simp
    show "fst r0 = Inr ()
           \<and> (\<not> truthy_str sc \<longrightarrow>
                 access_token (snd r0) = Some t
                   \<and> grantless_tokens (snd r0) = grantless_tokens st)
           \<and> (truthy_str sc \<longrightarrow>
                 map_of (grantless_tokens (snd r0)) (the sc) = Some t
                   \<and> access_token (snd r0) = access_token st)"
      unfolding r by (simp add: log_event_def update_conv')
  qed
  from p1 p2 p3 p4 p5 show ?thesis
    by (intro conjI) assumption+
qed

text \<open>
  The theorem on the example client: a refresh without scope, one for the
  notifications scope, and one for a scope that is not among the valid ones.
\<close>

theorem C9_token_refresh_witness:
  "refreshAccessToken ex_config ex_env None ex_state =
     (Inr (), (log_event (Execute (token_request ''[json]'' ex_state))
                 (ex_state\<lparr>executed := 1\<rparr>))\<lparr>access_token := Some (JStr ''Atza|new'')\<rparr>)
   \<and> map_of (grantless_tokens (snd (refreshAccessToken ex_config ex_env
         (Some ''sellingpartnerapi::notifications'') ex_state)))
         ''sellingpartnerapi::notifications'' = Some (JStr ''Atza|new'')
   \<and> (\<exists>m. refreshAccessToken ex_config ex_env
         (Some ''sellingpartnerapi::client_credential::rotation'') ex_state =
         (Inl (CustomError [(''code'', Some (JStr ''INVALID_SCOPE_ERROR'')), (''message'', m),
                            (''type'', Some (JStr ''error''))]), ex_state))"
proof -
  let ?n = "Some ''sellingpartnerapi::notifications''"
  let ?bad = "Some ''sellingpartnerapi::client_credential::rotation''"
  note t0 = C9_token_refresh[of None ex_config ex_env ex_state]
  note t1 = C9_token_refresh[of ?n ex_config ex_env ex_state]
  note t2 = C9_token_refresh[of ?bad ex_config ex_env ex_state]
  have b0: "constructRefreshAccessTokenBody ex_config ex_env None = Inr ''[json]''"
    by code_simp
  have b1: "constructRefreshAccessTokenBody ex_config ex_env ?n = Inr ''[json]''"
    by code_simp
  have x: "execute ex_env (token_request ''[json]'' ex_state) (executed ex_state)
      = Inr (ex_response 200 ex_token_text [])"
    by code_simp
  have p: "JSON_parse ex_env (response.body (ex_response 200 ex_token_text [])) = Some ex_token_json"
    unfolding ex_response_def by code_simp
  have g: "get ex_token_json ''access_token'' = Some (JStr ''Atza|new'') \<and> truthy (JStr ''Atza|new'')"
    by (simp add: ex_token_json_def)
  have s0: "\<not> truthy_str None" and s1: "truthy_str ?n"
    by (simp_all add: truthy_str_def)
  from t0 b0 x p g s0
  have "fst (refreshAccessToken ex_config ex_env None ex_state) = Inr ()
      \<and> access_token (snd (refreshAccessToken ex_config ex_env None ex_state))
          = Some (JStr ''Atza|new'')"
    by blast
  moreover have "snd (refreshAccessToken ex_config ex_env None ex_state)
      = (log_event (Execute (token_request ''[json]'' ex_state)) (ex_state\<lparr>executed := 1\<rparr>))
          \<lparr>access_token := access_token (snd (refreshAccessToken ex_config ex_env None ex_state))\<rparr>"
    by code_simp
  ultimately have r0: "refreshAccessToken ex_config ex_env None ex_state =
     (Inr (), (log_event (Execute (token_request ''[json]'' ex_state))
                 (ex_state\<lparr>executed := 1\<rparr>))\<lparr>access_token := Some (JStr ''Atza|new'')\<rparr>)"
    by (metis prod.collapse)
  from t1 b1 x p g s1
  have r1: "map_of (grantless_tokens (snd (refreshAccessToken ex_config ex_env ?n ex_state)))
      (the ?n) = Some (JStr ''Atza|new'')"
    by blast
  have "truthy_str ?bad \<and> the ?bad \<notin> set valid_scopes"
    by (simp add: truthy_str_def valid_scopes_def)
  with t2 have r2: "\<exists>m. refreshAccessToken ex_config ex_env ?bad ex_state =
         (Inl (CustomError [(''code'', Some (JStr ''INVALID_SCOPE_ERROR'')), (''message'', m),
                            (''type'', Some (JStr ''error''))]), ex_state)"
    by blast
  from r0 r1 r2 show ?thesis by simp
qed

section \<open>Report polling (C5)\<close>

lemma getReport_request_tries [simp]:
  "getReport_request (rq\<lparr>tries := n\<rparr>) report_id = getReport_request rq report_id"
  by (simp add: getReport_request_def version_option_def)

lemma cancelReport_request_tries [simp]:
  "cancelReport_request (rq\<lparr>tries := n\<rparr>) report_id = cancelReport_request rq report_id"
  by (simp add: cancelReport_request_def version_option_def)

lemma poll_interval_tries [simp]: "poll_interval (rq\<lparr>tries := n\<rparr>) = poll_interval rq"
  by (simp add: poll_interval_def)

lemma get_Some_not_null: "get j k = Some v \<Longrightarrow> j \<noteq> JNull"
  by auto

lemma getReport_done:
  assumes "get res ''processingStatus'' = Some (JStr ''DONE'')"
  shows "getReport cfg env (Inr res # rest) rq report_id st =
     Some (Inr (get res ''reportDocumentId''), rq, rest,
           log_event (CallAPI (getReport_request rq report_id)) st)"
  using assms get_Some_not_null[OF assms] by (simp add: Let_def)

lemma getReport_failed:
  assumes "get res ''processingStatus'' = Some (JStr s)" and "s = ''CANCELLED'' \<or> s = ''FATAL''"
  shows "getReport cfg env (Inr res # rest) rq report_id st =
     Some (Inl (CustomError
                 [(''code'', Some (JStr (''REPORT_PROCESSING_'' @ s))),
                  (''message'', Some (JStr ''Something went wrong while processing the report.'')),
                  (''type'', Some (JStr ''error''))]),
           rq, rest, log_event (CallAPI (getReport_request rq report_id)) st)"
  using assms get_Some_not_null[OF assms(1)]
  by (auto simp: Let_def ToString_opt_def new_CustomError_code_message)

lemma getReport_wait:
  assumes "non_terminal res"
    and "\<not> debug_log (sp_config.options cfg) \<or> report_params.body rq \<notin> set [None, Some JNull]"
    and "\<not> truthy_num_opt (cancel_after rq)
         \<or> js_gt (the (cancel_after rq)) (Num (of_nat (Suc (tries rq))))"
  shows "getReport cfg env (Inr res # rest) rq report_id st =
     getReport cfg env rest (rq\<lparr>tries := Suc (tries rq)\<rparr>) report_id
       (log_event (Wait (js_div (poll_interval rq) (Num 1000)))
          (log_event (CallAPI (getReport_request rq report_id)) st))"
  using assms by (auto simp: Let_def non_terminal_def poll_interval_def)

lemma getReport_cancel:
  assumes "non_terminal res"
    and "\<not> debug_log (sp_config.options cfg) \<or> report_params.body rq \<notin> set [None, Some JNull]"
    and "truthy_num_opt (cancel_after rq)"
    and "\<not> js_gt (the (cancel_after rq)) (Num (of_nat (Suc (tries rq))))"
  shows "getReport cfg env (Inr res # c # rest) rq report_id st =
     Some (case c of
             Inl e \<Rightarrow> Inl e
           | Inr u \<Rightarrow> Inl (CustomError
               [(''code'', Some (JStr ''REPORT_PROCESSING_CANCELLED_MANUALLY'')),
                (''message'', Some (JStr (''Report did not finish after ''
                   @ dec (Suc (tries rq)) @ '' tries (interval ''
                   @ Number_toString env (poll_interval rq) @ '' ms).''))),
                (''type'', Some (JStr ''error''))]),
           rq\<lparr>tries := Suc (tries rq)\<rparr>, rest,
           log_event (CallAPI (cancelReport_request rq report_id))
             (log_event (CallAPI (getReport_request rq report_id)) st))"
  using assms
  by (cases c)
     (auto simp: Let_def non_terminal_def poll_interval_def cancelReport_def
        new_CustomError_code_message)

lemma getReport_log_fails:
  assumes "non_terminal res"
    and "debug_log (sp_config.options cfg)"
    and "report_params.body rq \<in> set [None, Some JNull]"
  shows "getReport cfg env (Inr res # rest) rq report_id st =
     Some (Inl TypeError, rq\<lparr>tries := Suc (tries rq)\<rparr>, rest,
           log_event (CallAPI (getReport_request rq report_id)) st)"
  using assms by (auto simp: Let_def non_terminal_def)

text \<open>
  C5, as stated: with \<^verbatim>\<open>cancel_after = 1\<close> the poller, after the first status that is not
  terminal, issues a cancel call and fails with
  \<^verbatim>\<open>REPORT_PROCESSING_CANCELLED_MANUALLY\<close>; and the statuses \<^verbatim>\<open>IN_PROGRESS\<close>,
  \<^verbatim>\<open>IN_PROGRESS\<close>, \<^verbatim>\<open>DONE\<close> give two waits and the document id. The first fails when
  the cancel call itself throws: line 487 awaits it, so its error is the poller's
  error and line 488 is not reached. The second fails with debug logging on and no
  request body: line 479 reads \<^verbatim>\<open>req_params.body.reportType\<close> at the first status that
  is not terminal, a \<^verbatim>\<open>TypeError\<close> before any wait.
\<close>

theorem C5_report_polling_counterexample:
  "getReport ex_config ex_env
      [Inr (ex_status ''IN_PROGRESS''),
       Inl (CustomError [(''code'', Some (JStr ''INVALID_INPUT'')),
                         (''message'', Some (JStr ''Report is not cancellable.'')),
                         (''type'', Some (JStr ''error''))])]
      (ex_report_params\<lparr>cancel_after := Some (Num 1)\<rparr>) (Some (JStr ''ID323'')) ex_state =
     Some (Inl (CustomError [(''code'', Some (JStr ''INVALID_INPUT'')),
                             (''message'', Some (JStr ''Report is not cancellable.'')),
                             (''type'', Some (JStr ''error''))]),
           ex_report_params\<lparr>cancel_after := Some (Num 1), tries := 1\<rparr>, [],
           ex_state\<lparr>trace := [CallAPI ex_poll_request, CallAPI ex_cancel_request]\<rparr>)
   \<and> getReport ex_config_debug ex_env
        [Inr (ex_status ''IN_PROGRESS''), Inr (ex_status ''IN_PROGRESS''), Inr ex_done]
        (ex_report_params\<lparr>report_params.body := None\<rparr>) (Some (JStr ''ID323'')) ex_state =
       Some (Inl TypeError, ex_report_params\<lparr>report_params.body := None, tries := 1\<rparr>,
             [Inr (ex_status ''IN_PROGRESS''), Inr ex_done],
             ex_state\<lparr>trace := [CallAPI ex_poll_request]\<rparr>)"
  by code_simp

text \<open>
  C5, amended: with debug logging off or a request body given, and \<^verbatim>\<open>cancel_after\<close>
  unset, two statuses that are not terminal followed by \<^verbatim>\<open>DONE\<close> make the poller wait
  exactly twice, for the interval, between its three status calls, and return the
  report document id of the third response; with \<^verbatim>\<open>cancel_after = 1\<close> and no tries so
  far, the first status that is not terminal makes it issue the cancel call and, once
  that call has returned, fail with \<^verbatim>\<open>REPORT_PROCESSING_CANCELLED_MANUALLY\<close> after 1
  try, without a wait, while an error of the cancel call is the poller's error; a
  status \<^verbatim>\<open>CANCELLED\<close> or \<^verbatim>\<open>FATAL\<close> fails at once with \<^verbatim>\<open>REPORT_PROCESSING_\<close> followed
  by the status, without a wait, a further call or a change of the tries. The status
  call is the operation \<^verbatim>\<open>reports.getReport\<close> and the cancel call the operation
  \<^verbatim>\<open>reports.cancelReport\<close>, both with the report id as the path parameter
  \<^verbatim>\<open>reportId\<close>.
\<close>

theorem C5_report_polling:
  "(\<forall>r1 r2 r3 rest.
      non_terminal r1 \<and> non_terminal r2 \<and> get r3 ''processingStatus'' = Some (JStr ''DONE'')
        \<and> \<not> truthy_num_opt (cancel_after rq)
        \<and> (\<not> debug_log (sp_config.options cfg)
             \<or> report_params.body rq \<notin> set [None, Some JNull]) \<longrightarrow>
      getReport cfg env (Inr r1 # Inr r2 # Inr r3 # rest) rq report_id st =
        Some (Inr (get r3 ''reportDocumentId''), rq\<lparr>tries := tries rq + 2\<rparr>, rest,
              st\<lparr>trace := trace st @
                [CallAPI (getReport_request rq report_id),
                 Wait (js_div (poll_interval rq) (Num 1000)),
                 CallAPI (getReport_request rq report_id),
                 Wait (js_div (poll_interval rq) (Num 1000)),
                 CallAPI (getReport_request rq report_id)]\<rparr>))
   \<and> (\<forall>r1 c rest.
        non_terminal r1 \<and> cancel_after rq = Some (Num 1) \<and> tries rq = 0
          \<and> (\<not> debug_log (sp_config.options cfg)
               \<or> report_params.body rq \<notin> set [None, Some JNull]) \<longrightarrow>
        getReport cfg env (Inr r1 # c # rest) rq report_id st =
          Some (case c of
                  Inl e \<Rightarrow> Inl e
                | Inr u \<Rightarrow> Inl (CustomError
                    [(''code'', Some (JStr ''REPORT_PROCESSING_CANCELLED_MANUALLY'')),
                     (''message'', Some (JStr (''Report did not finish after 1 tries (interval ''
                        @ Number_toString env (poll_interval rq) @ '' ms).''))),
                     (''type'', Some (JStr ''error''))]),
                rq\<lparr>tries := 1\<rparr>, rest,
                st\<lparr>trace := trace st @
                  [CallAPI (getReport_request rq report_id),
                   CallAPI (cancelReport_request rq report_id)]\<rparr>))
   \<and> (\<forall>r1 s rest.
        get r1 ''processingStatus'' = Some (JStr s) \<and> (s = ''CANCELLED'' \<or> s = ''FATAL'') \<longrightarrow>
        getReport cfg env (Inr r1 # rest) rq report_id st =
          Some (Inl (CustomError
                      [(''code'', Some (JStr (''REPORT_PROCESSING_'' @ s))),
                       (''message'', Some (JStr ''Something went wrong while processing the report.'')),
                       (''type'', Some (JStr ''error''))]),
                rq, rest,
                st\<lparr>trace := trace st @ [CallAPI (getReport_request rq report_id)]\<rparr>))
   \<and> operation (getReport_request rq report_id) = Some ''reports.getReport''
   \<and> operation (cancelReport_request rq report_id) = Some ''reports.cancelReport''
   \<and> (\<forall>i. path (getReport_request rq (Some i)) = Some (JObj [(''reportId'', i)])
          \<and> path (cancelReport_request rq (Some i)) = Some (JObj [(''reportId'', i)]))"
proof -
  let ?ok = "\<not> debug_log (sp_config.options cfg)
             \<or> report_params.body rq \<notin> set [None, Some JNull]"
  have a: "getReport cfg env (Inr r1 # Inr r2 # Inr r3 # rest) rq report_id st =
        Some (Inr (get r3 ''reportDocumentId''), rq\<lparr>tries := tries rq + 2\<rparr>, rest,
              st\<lparr>trace := trace st @
                [CallAPI (getReport_request rq report_id),
                 Wait (js_div (poll_interval rq) (Num 1000)),
                 CallAPI (getReport_request rq report_id),
                 Wait (js_div (poll_interval rq) (Num 1000)),
                 CallAPI (getReport_request rq report_id)]\<rparr>)"
    if "non_terminal r1 \<and> non_terminal r2 \<and> get r3 ''processingStatus'' = Some (JStr ''DONE'')
        \<and> \<not> truthy_num_opt (cancel_after rq) \<and> ?ok" for r1 r2 r3 rest
  proof -
    from that have n1: "non_terminal r1" and n2: "non_terminal r2"
      and d: "get r3 ''processingStatus'' = Some (JStr ''DONE'')"
      and c: "\<not> truthy_num_opt (cancel_after rq)" and ok: ?ok by simp_all
    let ?rq1 = "rq\<lparr>tries := Suc (tries rq)\<rparr>"
    from c have c1: "\<not> truthy_num_opt (cancel_after ?rq1)" by simp
    from ok have ok1: "\<not> debug_log (sp_config.options cfg)
        \<or> report_params.body ?rq1 \<notin> set [None, Some JNull]" by simp
    show ?thesis
      by (simp only: getReport_wait[of r1 cfg rq, OF n1 ok disjI1[OF c]]
            getReport_wait[of r2 cfg ?rq1, OF n2 ok1 disjI1[OF c1]]
            getReport_done[OF d])
         (simp add: log_event_def)
  qed
  have b: "getReport cfg env (Inr r1 # c # rest) rq report_id st =
          Some (case c of
                  Inl e \<Rightarrow> Inl e
                | Inr u \<Rightarrow> Inl (CustomError
                    [(''code'', Some (JStr ''REPORT_PROCESSING_CANCELLED_MANUALLY'')),
                     (''message'', Some (JStr (''Report did not finish after 1 tries (interval ''
                        @ Number_toString env (poll_interval rq) @ '' ms).''))),
                     (''type'', Some (JStr ''error''))]),
                rq\<lparr>tries := 1\<rparr>, rest,
                st\<lparr>trace := trace st @
                  [CallAPI (getReport_request rq report_id),
                   CallAPI (cancelReport_request rq report_id)]\<rparr>)"
    if "non_terminal r1 \<and> cancel_after rq = Some (Num 1) \<and> tries rq = 0 \<and> ?ok" for r1 c rest
  proof -
    from that have n1: "non_terminal r1" and ca: "cancel_after rq = Some (Num 1)"
      and t: "tries rq = 0" and ok: ?ok by simp_all
    have t1: "truthy_num_opt (cancel_after rq)" by (simp add: ca truthy_num_opt_def)
    have t2: "\<not> js_gt (the (cancel_after rq)) (Num (of_nat (Suc (tries rq))))"
      by (simp add: ca t)
    have d1: "dec (Suc 0) = ''1''" by code_simp
    show ?thesis
      unfolding getReport_cancel[OF n1 ok t1 t2]
      by (cases c) (simp_all add: t d1 log_event_def)
  qed
  have c: "getReport cfg env (Inr r1 # rest) rq report_id st =
          Some (Inl (CustomError
                      [(''code'', Some (JStr (''REPORT_PROCESSING_'' @ s))),
                       (''message'', Some (JStr ''Something went wrong while processing the report.'')),
                       (''type'', Some (JStr ''error''))]),
                rq, rest,
                st\<lparr>trace := trace st @ [CallAPI (getReport_request rq report_id)]\<rparr>)"
    if "get r1 ''processingStatus'' = Some (JStr s) \<and> (s = ''CANCELLED'' \<or> s = ''FATAL'')"
    for r1 s rest
    using that getReport_failed[of r1 s cfg env rest rq report_id st]
    by (simp add: log_event_def)
  have d: "operation (getReport_request rq report_id) = Some ''reports.getReport''"
    by (simp add: getReport_request_def empty_request_def)
  have e: "operation (cancelReport_request rq report_id) = Some ''reports.cancelReport''"
    by (simp add: cancelReport_request_def empty_request_def)
  have f: "path (getReport_request rq (Some i)) = Some (JObj [(''reportId'', i)])
          \<and> path (cancelReport_request rq (Some i)) = Some (JObj [(''reportId'', i)])" for i
    by (simp add: getReport_request_def cancelReport_request_def empty_request_def
        defined_props_def)
  show ?thesis
  proof (intro conjI allI impI)
    fix r1 r2 r3 rest
    assume "non_terminal r1 \<and> non_terminal r2 \<and> get r3 ''processingStatus'' = Some (JStr ''DONE'')
        \<and> \<not> truthy_num_opt (cancel_after rq) \<and> ?ok"
    then show "getReport cfg env (Inr r1 # Inr r2 # Inr r3 # rest) rq report_id st =
        Some (Inr (get r3 ''reportDocumentId''), rq\<lparr>tries := tries rq + 2\<rparr>, rest,
              st\<lparr>trace := trace st @
                [CallAPI (getReport_request rq report_id),
                 Wait (js_div (poll_interval rq) (Num 1000)),
                 CallAPI (getReport_request rq report_id),
                 Wait (js_div (poll_interval rq) (Num 1000)),
                 CallAPI (getReport_request rq report_id)]\<rparr>)"
      by (rule a)
  next
    fix r1 c rest
    assume "non_terminal r1 \<and> cancel_after rq = Some (Num 1) \<and> tries rq = 0 \<and> ?ok"
    then show "getReport cfg env (Inr r1 # c # rest) rq report_id st =
          Some (case c of
                  Inl e \<Rightarrow> Inl e
                | Inr u \<Rightarrow> Inl (CustomError
                    [(''code'', Some (JStr ''REPORT_PROCESSING_CANCELLED_MANUALLY'')),
                     (''message'', Some (JStr (''Report did not finish after 1 tries (interval ''
                        @ Number_toString env (poll_interval rq) @ '' ms).''))),
                     (''type'', Some (JStr ''error''))]),
                rq\<lparr>tries := 1\<rparr>, rest,
                st\<lparr>trace := trace st @
                  [CallAPI (getReport_request rq report_id),
                   CallAPI (cancelReport_request rq report_id)]\<rparr>)"
      by (rule b)
  next
    fix r1 s rest
    assume "get r1 ''processingStatus'' = Some (JStr s) \<and> (s = ''CANCELLED'' \<or> s = ''FATAL'')"
    then show "getReport cfg env (Inr r1 # rest) rq report_id st =
          Some (Inl (CustomError
                      [(''code'', Some (JStr (''REPORT_PROCESSING_'' @ s))),
                       (''message'', Some (JStr ''Something went wrong while processing the report.'')),
                       (''type'', Some (JStr ''error''))]),
                rq, rest,
                st\<lparr>trace := trace st @ [CallAPI (getReport_request rq report_id)]\<rparr>)"
      by (rule c)
  next
    show "operation (getReport_request rq report_id) = Some ''reports.getReport''" by (rule d)
    show "operation (cancelReport_request rq report_id) = Some ''reports.cancelReport''"
      by (rule e)
  next
    fix i
    show "path (getReport_request rq (Some i)) = Some (JObj [(''reportId'', i)])"
      using f[of i] by simp
    show "path (cancelReport_request rq (Some i)) = Some (JObj [(''reportId'', i)])"
      using f[of i] by simp
  qed
qed

text \<open>
  The theorem on the status sequence \<^verbatim>\<open>IN_PROGRESS\<close>, \<^verbatim>\<open>IN_PROGRESS\<close>, \<^verbatim>\<open>DONE\<close> with the
  default interval of 10 seconds, on \<^verbatim>\<open>cancel_after = 1\<close> with a cancel call that
  returns, and on the status \<^verbatim>\<open>FATAL\<close>, with the requests of the calls written out.
\<close>

theorem C5_report_polling_witness:
  "getReport ex_config ex_env
      [Inr (ex_status ''IN_PROGRESS''), Inr (ex_status ''IN_PROGRESS''), Inr ex_done]
      ex_report_params (Some (JStr ''ID323'')) ex_state =
     Some (Inr (Some (JStr ''DOC-b8b0'')), ex_report_params\<lparr>tries := 2\<rparr>, [],
           ex_state\<lparr>trace := [CallAPI ex_poll_request, Wait (Num 10),
                               CallAPI ex_poll_request, Wait (Num 10),
                               CallAPI ex_poll_request]\<rparr>)
   \<and> getReport ex_config ex_env [Inr (ex_status ''IN_PROGRESS''), Inr (JObj [])]
        (ex_report_params\<lparr>cancel_after := Some (Num 1)\<rparr>) (Some (JStr ''ID323'')) ex_state =
       Some (Inl (CustomError
                   [(''code'', Some (JStr ''REPORT_PROCESSING_CANCELLED_MANUALLY'')),
                    (''message'', Some (JStr
                       ''Report did not finish after 1 tries (interval 10000 ms).'')),
                    (''type'', Some (JStr ''error''))]),
             ex_report_params\<lparr>cancel_after := Some (Num 1), tries := 1\<rparr>, [],
             ex_state\<lparr>trace := [CallAPI ex_poll_request, CallAPI ex_cancel_request]\<rparr>)
   \<and> getReport ex_config ex_env [Inr (ex_status ''FATAL''), Inr ex_done]
        ex_report_params (Some (JStr ''ID323'')) ex_state =
       Some (Inl (CustomError
                   [(''code'', Some (JStr ''REPORT_PROCESSING_FATAL'')),
                    (''message'', Some (JStr ''Something went wrong while processing the report.'')),
                    (''type'', Some (JStr ''error''))]),
             ex_report_params, [Inr ex_done],
             ex_state\<lparr>trace := [CallAPI ex_poll_request]\<rparr>)"
proof -
  let ?id = "Some (JStr ''ID323'')"
  let ?rc = "ex_report_params\<lparr>cancel_after := Some (Num 1)\<rparr>"
  note polled = C5_report_polling[of ex_report_params ex_config ex_env ?id ex_state,
      THEN conjunct1, rule_format]
  note cancelled = C5_report_polling[of ?rc ex_config ex_env ?id ex_state,
      THEN conjunct2, THEN conjunct1, rule_format]
  note failed = C5_report_polling[of ex_report_params ex_config ex_env ?id ex_state,
      THEN conjunct2, THEN conjunct2, THEN conjunct1, rule_format]
  have n: "non_terminal (ex_status ''IN_PROGRESS'')"
    by (simp add: non_terminal_def ex_status_def)
  have d: "get ex_done ''processingStatus'' = Some (JStr ''DONE'')"
    by (simp add: ex_done_def)
  have c: "\<not> truthy_num_opt (cancel_after ex_report_params)"
    by (simp add: ex_report_params_def truthy_num_opt_def)
  have q: "\<not> debug_log (sp_config.options ex_config)"
    by (simp add: ex_config_def ex_options_def)
  have i: "js_div (poll_interval ex_report_params) (Num 1000) = Num 10"
    by (simp add: poll_interval_def ex_report_params_def truthy_num_opt_def)
  have doc: "get ex_done ''reportDocumentId'' = Some (JStr ''DOC-b8b0'')"
    by (simp add: ex_done_def)
  have t: "ex_report_params\<lparr>tries := tries ex_report_params + 2\<rparr>
      = ex_report_params\<lparr>tries := 2\<rparr>"
    by (simp add: ex_report_params_def)
  have e: "trace ex_state = []"
    by (simp add: ex_state_def)
  have rqs: "getReport_request ex_report_params ?id = ex_poll_request"
    "getReport_request ?rc ?id = ex_poll_request"
    "cancelReport_request ?rc ?id = ex_cancel_request"
    by (simp_all add: getReport_request_def cancelReport_request_def version_option_def
        ex_poll_request_def ex_cancel_request_def empty_request_def empty_options_def
        defined_props_def ex_report_params_def truthy_str_def)
  have a: "getReport ex_config ex_env
      [Inr (ex_status ''IN_PROGRESS''), Inr (ex_status ''IN_PROGRESS''), Inr ex_done]
      ex_report_params ?id ex_state =
     Some (Inr (Some (JStr ''DOC-b8b0'')), ex_report_params\<lparr>tries := 2\<rparr>, [],
           ex_state\<lparr>trace := [CallAPI ex_poll_request, Wait (Num 10),
                               CallAPI ex_poll_request, Wait (Num 10),
                               CallAPI ex_poll_request]\<rparr>)"
    using polled[of "ex_status ''IN_PROGRESS''" "ex_status ''IN_PROGRESS''" ex_done "[]"] n d c q
    unfolding i doc t rqs e by simp
  have hc: "cancel_after ?rc = Some (Num 1)" "tries ?rc = 0"
    by (simp_all add: ex_report_params_def)
  have pi: "poll_interval ?rc = Num 10000"
    by (simp add: poll_interval_def ex_report_params_def truthy_num_opt_def)
  have ts: "Number_toString ex_env (Num 10000) = ''10000''"
    by (simp add: ex_env_def ex_toString_def dec.simps) code_simp
  have b: "getReport ex_config ex_env [Inr (ex_status ''IN_PROGRESS''), Inr (JObj [])]
        ?rc ?id ex_state =
      Some (Inl (CustomError
                  [(''code'', Some (JStr ''REPORT_PROCESSING_CANCELLED_MANUALLY'')),
                   (''message'', Some (JStr
                      ''Report did not finish after 1 tries (interval 10000 ms).'')),
                   (''type'', Some (JStr ''error''))]),
            ?rc\<lparr>tries := 1\<rparr>, [],
            ex_state\<lparr>trace := [CallAPI ex_poll_request, CallAPI ex_cancel_request]\<rparr>)"
    using cancelled[of "ex_status ''IN_PROGRESS''" "Inr (JObj [])" "[]"] n hc q
    unfolding rqs pi ts e by simp
  have f: "get (ex_status ''FATAL'') ''processingStatus'' = Some (JStr ''FATAL'')"
    by (simp add: ex_status_def)
  have c3: "getReport ex_config ex_env [Inr (ex_status ''FATAL''), Inr ex_done]
        ex_report_params ?id ex_state =
      Some (Inl (CustomError
                  [(''code'', Some (JStr ''REPORT_PROCESSING_FATAL'')),
                   (''message'', Some (JStr ''Something went wrong while processing the report.'')),
                   (''type'', Some (JStr ''error''))]),
            ex_report_params, [Inr ex_done],
            ex_state\<lparr>trace := [CallAPI ex_poll_request]\<rparr>)"
    using failed[of "ex_status ''FATAL''" "''FATAL''" "[Inr ex_done]"] f
    unfolding rqs e by simp
  from a b c3 show ?thesis
    by (intro conjI)
qed

section \<open>Download of a compressed document without unzipping (C10)\<close>

lemma validateDocumentDetails_gzip:
  "truthy_str (url d) \<Longrightarrow> compressionAlgorithm d = Some ''GZIP'' \<Longrightarrow>
     validateDocumentDetails (Some d) = Inr ()"
  by (simp add: validateDocumentDetails_def)

lemma download_decode_raw:
  "compressionAlgorithm d = Some ''GZIP'' \<Longrightarrow>
     download_decode env d opts False res = Inr (Bytes (concat (chunks res)))"
  by (simp add: download_decode_def truthy_str_def)

lemma saved_content_bytes:
  "saved_content env (Bytes b) opts =
     (if json opts then Text (JSON_stringify env (buffer_json b)) else Bytes b)"
  by (simp add: saved_content_def)

text \<open>
  C10, as stated: every download with status 200, a declared compression algorithm
  and \<^verbatim>\<open>unzip: false\<close> returns the bytes received, and no JSON conversion occurs even
  with \<^verbatim>\<open>json: true\<close>. This fails when a file is asked for: lines 804 to 806 write the
  file before returning, so a write that fails is the failure of the download and no
  bytes are returned, and with \<^verbatim>\<open>json: true\<close> lines 146 to 148 write
  \<^verbatim>\<open>JSON.stringify\<close> of the buffer, not the bytes.
\<close>

theorem C10_compressed_not_unzipped_counterexample:
  "download ex_env_disk (Some ex_details)
      (ex_download_options\<lparr>file_path := Some ''/proc/report.gz''\<rparr>) ex_state =
     (Inl (Failure ''EACCES: permission denied''),
      ex_state\<lparr>executed := 1,
        trace :=
          [Execute \<lparr>http_request.http_method = None,
                    http_request.url = ''https://d34o8swod1owfl.cloudfront.net/Report_47700.txt.gz'',
                    http_request.body = None, http_request.headers = [],
                    http_request.timeouts = None\<rparr>,
           WriteFile ''/proc/report.gz''
             (Text ''{\"type\":\"Buffer\",\"data\":[31,139,8,0,3]}'')]\<rparr>)"
  by code_simp

text \<open>
  C10, amended: for document details with a URL and the compression algorithm
  \<^verbatim>\<open>GZIP\<close>, the option \<^verbatim>\<open>unzip\<close> set to false and a response with status 200,
  \<^verbatim>\<open>download\<close> makes the one request and, when no file is asked for, returns the
  concatenated chunks of the response as they are, whatever the \<^verbatim>\<open>charset\<close> and \<^verbatim>\<open>json\<close>
  options and whatever gunzip, the decoder and the parsers would do; when a file is
  asked for it writes the file first, the bytes as they are or, with \<^verbatim>\<open>json: true\<close>,
  \<^verbatim>\<open>JSON.stringify\<close> of the buffer, and returns the bytes as they are if the write
  succeeds and fails with the error of the write if it does not.
\<close>

theorem C10_compressed_not_unzipped:
  assumes "truthy_str (url d)"
    and "compressionAlgorithm d = Some ''GZIP''"
    and "unzip opts = Some False"
    and "execute env (download_request d opts) (executed st) = Inr res"
    and "statusCode res = 200"
  shows "download env (Some d) opts st =
     (if \<not> truthy_str (file_path opts)
      then (Inr (Bytes (concat (chunks res))),
            st\<lparr>executed := Suc (executed st),
               trace := trace st @ [Execute (download_request d opts)]\<rparr>)
      else (case writeFile env (the (file_path opts))
                   (if json opts
                    then Text (JSON_stringify env (buffer_json (concat (chunks res))))
                    else Bytes (concat (chunks res))) of
              None \<Rightarrow> Inr (Bytes (concat (chunks res)))
            | Some e \<Rightarrow> Inl e,
            st\<lparr>executed := Suc (executed st),
               trace := trace st @
                 [Execute (download_request d opts),
                  WriteFile (the (file_path opts))
                    (if json opts
                     then Text (JSON_stringify env (buffer_json (concat (chunks res))))
                     else Bytes (concat (chunks res)))]\<rparr>))"
proof -
  have v: "validateUpOrDownloadSuccess env res ''DOWNLOAD'' = Inr ()"
    using assms(5) by (simp add: validateUpOrDownloadSuccess_def)
  show ?thesis
  proof (cases "truthy_str (file_path opts)")
    case True
    show ?thesis
    proof (cases "writeFile env (the (file_path opts))
        (if json opts then Text (JSON_stringify env (buffer_json (concat (chunks res))))
         else Bytes (concat (chunks res)))")
      case None
      then show ?thesis
        using True assms(3,4)
        by (simp add: download_def validateDocumentDetails_gzip[OF assms(1,2)]
            request_execute_def v download_decode_raw[OF assms(2)] saveFile_def Let_def
            saved_content_bytes log_event_def)
    next
      case (Some e)
      then show ?thesis
        using True assms(3,4)
        by (simp add: download_def validateDocumentDetails_gzip[OF assms(1,2)]
            request_execute_def v download_decode_raw[OF assms(2)] saveFile_def Let_def
            saved_content_bytes log_event_def)
    qed
  next
    case False
    then show ?thesis
      using assms(3,4)
      by (simp add: download_def validateDocumentDetails_gzip[OF assms(1,2)]
          request_execute_def v download_decode_raw[OF assms(2)] log_event_def)
  qed
qed

text \<open>
  The theorem on an example with \<^verbatim>\<open>json: true\<close>, a charset, and an environment whose
  gunzip fails on the bytes received: the bytes are returned unchanged, without a
  file and with a file that can be written.
\<close>

theorem C10_compressed_not_unzipped_witness:
  "json ex_download_options \<and> charset ex_download_options = Some ''cp1252''
   \<and> gunzip ex_env (concat (chunks ex_gzip_response)) = Inl (Failure ''incorrect header check'')
   \<and> download ex_env (Some ex_details) ex_download_options ex_state =
       (Inr (Bytes [CHR 0x1F, CHR 0x8B, CHR 0x08, CHR 0x00, CHR 0x03]),
        ex_state\<lparr>executed := 1,
          trace :=
            [Execute \<lparr>http_request.http_method = None,
                      http_request.url = ''https://d34o8swod1owfl.cloudfront.net/Report_47700.txt.gz'',
                      http_request.body = None, http_request.headers = [],
                      http_request.timeouts = None\<rparr>]\<rparr>)
   \<and> download ex_env_disk (Some ex_details)
        (ex_download_options\<lparr>file_path := Some ''/tmp/report.gz''\<rparr>) ex_state =
       (Inr (Bytes [CHR 0x1F, CHR 0x8B, CHR 0x08, CHR 0x00, CHR 0x03]),
        ex_state\<lparr>executed := 1,
          trace :=
            [Execute \<lparr>http_request.http_method = None,
                      http_request.url = ''https://d34o8swod1owfl.cloudfront.net/Report_47700.txt.gz'',
                      http_request.body = None, http_request.headers = [],
                      http_request.timeouts = None\<rparr>,
             WriteFile ''/tmp/report.gz''
               (Text ''{\"type\":\"Buffer\",\"data\":[31,139,8,0,3]}'')]\<rparr>)"
proof -
  let ?file = "ex_download_options\<lparr>file_path := Some ''/tmp/report.gz''\<rparr>"
  let ?rq = "\<lparr>http_request.http_method = None,
              http_request.url = ''https://d34o8swod1owfl.cloudfront.net/Report_47700.txt.gz'',
              http_request.body = None, http_request.headers = [],
              http_request.timeouts = None\<rparr>"
  have u: "truthy_str (url ex_details)"
    and g: "compressionAlgorithm ex_details = Some ''GZIP''"
    by (simp_all add: ex_details_def truthy_str_def)
  have z: "unzip ex_download_options = Some False" "unzip ?file = Some False"
    by (simp_all add: ex_download_options_def)
  have x: "execute ex_env (download_request ex_details ex_download_options) (executed ex_state)
      = Inr ex_gzip_response"
    "execute ex_env_disk (download_request ex_details ?file) (executed ex_state)
      = Inr ex_gzip_response"
    by code_simp+
  have s: "statusCode ex_gzip_response = 200"
    by (simp add: ex_gzip_response_def)
  have c: "concat (chunks ex_gzip_response) = [CHR 0x1F, CHR 0x8B, CHR 0x08, CHR 0x00, CHR 0x03]"
    by (simp add: ex_gzip_response_def)
  have o: "json ex_download_options \<and> charset ex_download_options = Some ''cp1252''"
    by (simp add: ex_download_options_def)
  have gz: "gunzip ex_env (concat (chunks ex_gzip_response))
      = Inl (Failure ''incorrect header check'')"
    by (simp add: ex_env_def)
  have rq: "download_request ex_details ex_download_options = ?rq"
    "download_request ex_details ?file = ?rq"
    by (simp_all add: download_request_def ex_details_def ex_download_options_def)
  have st: "executed ex_state = 0" "trace ex_state = []"
    by (simp_all add: ex_state_def)
  have nf: "\<not> truthy_str (file_path ex_download_options)"
    "truthy_str (file_path ?file)" "the (file_path ?file) = ''/tmp/report.gz''" "json ?file"
    by (simp_all add: ex_download_options_def truthy_str_def)
  have w: "JSON_stringify ex_env_disk
        (buffer_json [CHR 0x1F, CHR 0x8B, CHR 0x08, CHR 0x00, CHR 0x03])
      = ''{\"type\":\"Buffer\",\"data\":[31,139,8,0,3]}''"
    by code_simp
  have wr: "writeFile ex_env_disk ''/tmp/report.gz'' content = None" for content
    by (simp add: ex_env_disk_def)
  have r1: "download ex_env (Some ex_details) ex_download_options ex_state =
       (Inr (Bytes [CHR 0x1F, CHR 0x8B, CHR 0x08, CHR 0x00, CHR 0x03]),
        ex_state\<lparr>executed := 1, trace := [Execute ?rq]\<rparr>)"
    using C10_compressed_not_unzipped[OF u g z(1) x(1) s] nf(1)
    unfolding c rq st by simp
  have r2: "download ex_env_disk (Some ex_details) ?file ex_state =
       (Inr (Bytes [CHR 0x1F, CHR 0x8B, CHR 0x08, CHR 0x00, CHR 0x03]),
        ex_state\<lparr>executed := 1,
          trace := [Execute ?rq,
                    WriteFile ''/tmp/report.gz''
                      (Text ''{\"type\":\"Buffer\",\"data\":[31,139,8,0,3]}'')]\<rparr>)"
    using C10_compressed_not_unzipped[OF u g z(2) x(2) s] nf(2,3,4)
    unfolding c rq st w by (simp add: wr)
  from o gz r1 r2 show ?thesis
    by (intro conjI) simp_all
qed

end
